theory Spec2Isabelle
  imports Main "HOL-Library.Sublist" "HOL-Library.Multiset"
begin

section \<open>Basic types\<close>

text \<open>
  Byte sequences and Go strings are character lists.  A digest is the string
  \<open>algorithm:hex\<close> of go-digest.  A \<open>time.Time\<close> is an instant, counted from the
  zero time, so that \<open>IsZero\<close> is equality with 0; all instants the commit path
  handles have been converted with \<open>UTC()\<close>, which keeps the instant.
\<close>

type_synonym bytes = string
type_synonym digest = string
type_synonym time = int

text \<open>
  Errors as values.  \<open>ErrorsNew\<close> is \<open>errors.New\<close> with its literal message, the
  other constructors are the \<open>fmt.Errorf\<close> sites of the sources with their
  arguments, \<open>Panic\<close> is a run-time panic (nil dereference, index out of range).
\<close>

datatype error =
    ErrorsNew string
  | Panic string
  | NoSupportedManifestTypes string
  | UnableToReadLayer string
  | UnableToLocateLayer string
  | CreatingTempDir
  | JSONUnmarshal
  | ApplyingChanges
  | UnableToGenerateExtraLayer
  | RecreatingOCIConfiguration
  | GettingContainerDirectory
  | CreatingTempDataDirectory
  | MountingContainer
  | ConvertingRootfs
  | OpeningLayerBlobFor string
  | OpeningExtraDiff
  | ExtractingLayer string
  | OpeningFileFor string
  | CompressingLayer string
  | StoringOnPipeClose string
  | StoringOnFileClose string
  | ExtractingContainerRootfs
  | StoringToFile string
  | InconsistentLayerSize string int int
  | RenamingLayer string
  | InternalErrorHistory nat nat
  | EncodingJSON
  | OpeningLayerBlob
  | LayerIsEmptyMismatch bool string
  | CheckingLayerContent string
  | IngestingLayerContent string
  | LocatingContainer string
  | OSFailure string

section \<open>strings helpers\<close>

text \<open>\<open>strings.HasPrefix(s, prefix)\<close> and \<open>strings.Contains(s, substr)\<close>, in Go's argument order.\<close>

definition strings_HasPrefix :: "string \<Rightarrow> string \<Rightarrow> bool" where
  "strings_HasPrefix s p = prefix p s"

definition strings_Contains :: "string \<Rightarrow> string \<Rightarrow> bool" where
  "strings_Contains s substr = sublist substr s"

text \<open>\<open>strings.SplitN(s, "=", 2)\<close>: one piece when \<open>s\<close> has no \<open>=\<close>, else the text
  before the first \<open>=\<close> and the text after it.\<close>

definition strings_SplitN_eq_2 :: "string \<Rightarrow> string list" where
  "strings_SplitN_eq_2 s =
     (if CHR ''='' \<in> set s
      then [takeWhile (\<lambda>c. c \<noteq> CHR ''='') s, tl (dropWhile (\<lambda>c. c \<noteq> CHR ''='') s)]
      else [s])"

section \<open>Configuration documents (config.go)\<close>

text \<open>\<open>v1.History\<close> and \<open>docker.V2S2History\<close>.\<close>

record History =
  hCreated :: "time option"
  hCreatedBy :: string
  hAuthor :: string
  hComment :: string
  hEmptyLayer :: bool

record V2S2History =
  dhCreated :: time
  dhAuthor :: string
  dhCreatedBy :: string
  dhComment :: string
  dhEmptyLayer :: bool

text \<open>
  \<open>v1.ImageConfig\<close> and \<open>docker.Config\<close>, with the fields the sources read or
  write.  A Go map that may be nil is an option; a \<open>map[string]struct{}\<close> is a set.
\<close>

record ImageConfig =
  ocUser :: string
  ocExposedPorts :: "string set option"
  ocEnv :: "string list"
  ocEntrypoint :: "string list"
  ocCmd :: "string list"
  ocVolumes :: "string set option"
  ocWorkingDir :: string
  ocLabels :: "(string \<rightharpoonup> string) option"
  ocStopSignal :: string

record DockerConfig =
  dcHostname :: string
  dcDomainname :: string
  dcUser :: string
  dcExposedPorts :: "string set option"
  dcEnv :: "string list"
  dcCmd :: "string list"
  dcHealthcheck :: "string option"
  dcVolumes :: "string set option"
  dcWorkingDir :: string
  dcEntrypoint :: "string list"
  dcOnBuild :: "string list"
  dcLabels :: "(string \<rightharpoonup> string) option"
  dcStopSignal :: string
  dcShell :: "string list"

text \<open>
  \<open>V2Image.Config\<close> is a pointer.  It is nil, or it points to a configuration
  object of its own (what \<open>json.Unmarshal\<close> allocates), or it holds the address
  of the \<open>ContainerConfig\<close> field of the same image (\<open>&b.Docker.ContainerConfig\<close>).
\<close>

datatype ConfigPtr = NilConfig | ConfigObject DockerConfig | AddrOfContainerConfig

record Image =
  oCreated :: "time option"
  oAuthor :: string
  oArchitecture :: string
  oOS :: string
  oConfig :: ImageConfig
  oRootFS_Type :: string
  oRootFS_DiffIDs :: "digest list"
  oHistory :: "History list"

record V2Image =
  dParent :: string
  dComment :: string
  dCreated :: time
  dContainer :: string
  dContainerConfig :: DockerConfig
  dDockerVersion :: string
  dAuthor :: string
  dConfig :: ConfigPtr
  dArchitecture :: string
  dOS :: string
  dRootFS_Type :: string
  dRootFS_DiffIDs :: "digest list"
  dHistory :: "V2S2History list"

text \<open>Reading \<open>*d.Config\<close>, and writing a field through \<open>d.Config\<close>.\<close>

definition loadConfig :: "V2Image \<Rightarrow> DockerConfig option" where
  "loadConfig d =
     (case dConfig d of
        NilConfig \<Rightarrow> None
      | ConfigObject c \<Rightarrow> Some c
      | AddrOfContainerConfig \<Rightarrow> Some (dContainerConfig d))"

definition storeConfig :: "(DockerConfig \<Rightarrow> DockerConfig) \<Rightarrow> V2Image \<Rightarrow> error + V2Image" where
  "storeConfig f d =
     (case dConfig d of
        NilConfig \<Rightarrow> Inl (Panic ''nil pointer dereference'')
      | ConfigObject c \<Rightarrow> Inr (d\<lparr>dConfig := ConfigObject (f c)\<rparr>)
      | AddrOfContainerConfig \<Rightarrow> Inr (d\<lparr>dContainerConfig := f (dContainerConfig d)\<rparr>))"

text \<open>\<open>LinkedLayer\<close> (define package): a history entry and a blob path.\<close>

record LinkedLayer =
  llHistory :: History
  llBlobPath :: string

text \<open>The \<open>Builder\<close>, with the fields config.go and \<open>makeContainerImageRef\<close> use.\<close>

record Builder =
  OCIv1 :: Image
  Docker :: V2Image
  ImageAnnotations :: "(string \<rightharpoonup> string) option"
  ImageCreatedBy :: string
  ImageHistoryComment :: string
  DefaultMountsFilePath :: string
  FromImage :: string
  FromImageID :: string
  ContainerID :: string
  MountLabel :: string
  PrependedEmptyLayers :: "History list"
  AppendedEmptyLayers :: "History list"
  PrependedLinkedLayers :: "LinkedLayer list"
  AppendedLinkedLayers :: "LinkedLayer list"

text \<open>
  What config.go takes from the process: \<open>runtime.GOOS\<close>, \<open>runtime.GOARCH\<close>,
  \<open>filepath.Separator\<close>, the clock, and the standard library's \<open>os.Expand\<close>.
\<close>

record Runtime =
  GOOS :: string
  GOARCH :: string
  Separator :: string
  timeNow :: time
  osExpand :: "string \<Rightarrow> (string \<Rightarrow> string) \<Rightarrow> string"

definition onOCIConfig :: "(ImageConfig \<Rightarrow> ImageConfig) \<Rightarrow> Builder \<Rightarrow> Builder" where
  "onOCIConfig f b = b\<lparr>OCIv1 := (OCIv1 b)\<lparr>oConfig := f (oConfig (OCIv1 b))\<rparr>\<rparr>"

definition onDockerConfig :: "(DockerConfig \<Rightarrow> DockerConfig) \<Rightarrow> Builder \<Rightarrow> error + Builder" where
  "onDockerConfig f b =
     (case storeConfig f (Docker b) of Inl e \<Rightarrow> Inl e | Inr d \<Rightarrow> Inr (b\<lparr>Docker := d\<rparr>))"

definition OS :: "Builder \<Rightarrow> string" where
  "OS b = oOS (OCIv1 b)"

definition SetOS :: "string \<Rightarrow> Builder \<Rightarrow> Builder" where
  "SetOS os b = b\<lparr>OCIv1 := (OCIv1 b)\<lparr>oOS := os\<rparr>, Docker := (Docker b)\<lparr>dOS := os\<rparr>\<rparr>"

definition Architecture :: "Builder \<Rightarrow> string" where
  "Architecture b = oArchitecture (OCIv1 b)"

definition SetArchitecture :: "string \<Rightarrow> Builder \<Rightarrow> Builder" where
  "SetArchitecture arch b =
     b\<lparr>OCIv1 := (OCIv1 b)\<lparr>oArchitecture := arch\<rparr>, Docker := (Docker b)\<lparr>dArchitecture := arch\<rparr>\<rparr>"

definition SetMaintainer :: "string \<Rightarrow> Builder \<Rightarrow> Builder" where
  "SetMaintainer who b =
     b\<lparr>OCIv1 := (OCIv1 b)\<lparr>oAuthor := who\<rparr>, Docker := (Docker b)\<lparr>dAuthor := who\<rparr>\<rparr>"

definition SetUser :: "string \<Rightarrow> Builder \<Rightarrow> error + Builder" where
  "SetUser spec b = onDockerConfig (\<lambda>c. c\<lparr>dcUser := spec\<rparr>) (onOCIConfig (\<lambda>c. c\<lparr>ocUser := spec\<rparr>) b)"

definition ClearOnBuild :: "Builder \<Rightarrow> error + Builder" where
  "ClearOnBuild b = onDockerConfig (\<lambda>c. c\<lparr>dcOnBuild := []\<rparr>) b"

definition SetOnBuild :: "string \<Rightarrow> Builder \<Rightarrow> error + Builder" where
  "SetOnBuild onBuild b = onDockerConfig (\<lambda>c. c\<lparr>dcOnBuild := dcOnBuild c @ [onBuild]\<rparr>) b"

definition WorkDir :: "Builder \<Rightarrow> string" where
  "WorkDir b = ocWorkingDir (oConfig (OCIv1 b))"

definition SetWorkDir :: "string \<Rightarrow> Builder \<Rightarrow> error + Builder" where
  "SetWorkDir there b =
     onDockerConfig (\<lambda>c. c\<lparr>dcWorkingDir := there\<rparr>) (onOCIConfig (\<lambda>c. c\<lparr>ocWorkingDir := there\<rparr>) b)"

definition Shell :: "Builder \<Rightarrow> error + string list" where
  "Shell b = (case loadConfig (Docker b) of
                None \<Rightarrow> Inl (Panic ''nil pointer dereference'')
              | Some c \<Rightarrow> Inr (dcShell c))"

definition SetShell :: "string list \<Rightarrow> Builder \<Rightarrow> error + Builder" where
  "SetShell shell b = onDockerConfig (\<lambda>c. c\<lparr>dcShell := shell\<rparr>) b"

text \<open>
  \<open>SetEnv\<close>.  The closure \<open>getenv\<close> reads the list \<open>*s\<close>, which the loop of
  \<open>reset\<close> leaves alone until its last statement; \<open>v\<close> is a variable of
  \<open>SetEnv\<close> that both calls of \<open>reset\<close> assign to, so \<open>reset\<close> returns it.
\<close>

fun getenv :: "string list \<Rightarrow> string \<Rightarrow> string" where
  "getenv [] name = name"
| "getenv (e # es) name =
     (case strings_SplitN_eq_2 e of
        [k, val] \<Rightarrow> if k = name then val else getenv es name
      | _ \<Rightarrow> getenv es name)"

fun reset_loop ::
  "(string \<Rightarrow> (string \<Rightarrow> string) \<Rightarrow> string) \<Rightarrow> string list \<Rightarrow> string \<Rightarrow>
   string list \<Rightarrow> string list \<Rightarrow> string \<Rightarrow> string list \<times> string" where
  "reset_loop expand s k [] n v = (n, v)"
| "reset_loop expand s k (e # es) n v =
     reset_loop expand s k es
       (if \<not> strings_HasPrefix e (k @ ''='') then n @ [e] else n)
       (expand v (getenv s))"

definition reset ::
  "(string \<Rightarrow> (string \<Rightarrow> string) \<Rightarrow> string) \<Rightarrow> string \<Rightarrow> string \<Rightarrow> string list \<Rightarrow>
   string list \<times> string" where
  "reset expand k v s =
     (case reset_loop expand s k s [] v of (n, v') \<Rightarrow> (n @ [k @ ''='' @ v'], v'))"

definition SetEnv :: "Runtime \<Rightarrow> string \<Rightarrow> string \<Rightarrow> Builder \<Rightarrow> error + Builder" where
  "SetEnv rt k v b =
     (case reset (osExpand rt) k v (ocEnv (oConfig (OCIv1 b))) of
        (oenv, v1) \<Rightarrow>
          (case loadConfig (Docker b) of
             None \<Rightarrow> Inl (Panic ''nil pointer dereference'')
           | Some c \<Rightarrow>
               (case reset (osExpand rt) k v1 (dcEnv c) of
                  (denv, v2) \<Rightarrow>
                    onDockerConfig (\<lambda>c. c\<lparr>dcEnv := denv\<rparr>)
                      (onOCIConfig (\<lambda>c. c\<lparr>ocEnv := oenv\<rparr>) b))))"

definition unset :: "string \<Rightarrow> string list \<Rightarrow> string list" where
  "unset k s = filter (\<lambda>e. \<not> strings_HasPrefix e (k @ ''='')) s"

definition UnsetEnv :: "string \<Rightarrow> Builder \<Rightarrow> error + Builder" where
  "UnsetEnv k b =
     onDockerConfig (\<lambda>c. c\<lparr>dcEnv := unset k (dcEnv c)\<rparr>)
       (onOCIConfig (\<lambda>c. c\<lparr>ocEnv := unset k (ocEnv c)\<rparr>) b)"

definition ClearEnv :: "Builder \<Rightarrow> error + Builder" where
  "ClearEnv b = onDockerConfig (\<lambda>c. c\<lparr>dcEnv := []\<rparr>) (onOCIConfig (\<lambda>c. c\<lparr>ocEnv := []\<rparr>) b)"

definition SetCmd :: "string list \<Rightarrow> Builder \<Rightarrow> error + Builder" where
  "SetCmd cmd b = onDockerConfig (\<lambda>c. c\<lparr>dcCmd := cmd\<rparr>) (onOCIConfig (\<lambda>c. c\<lparr>ocCmd := cmd\<rparr>) b)"

definition SetEntrypoint :: "string list \<Rightarrow> Builder \<Rightarrow> error + Builder" where
  "SetEntrypoint ep b =
     onDockerConfig (\<lambda>c. c\<lparr>dcEntrypoint := ep\<rparr>) (onOCIConfig (\<lambda>c. c\<lparr>ocEntrypoint := ep\<rparr>) b)"

text \<open>Assignment into a map that is made first when it is nil; \<open>delete\<close> on a nil map does nothing.\<close>

definition mapSet :: "string \<Rightarrow> string \<Rightarrow> (string \<rightharpoonup> string) option \<Rightarrow> (string \<rightharpoonup> string) option" where
  "mapSet k v m = (case m of None \<Rightarrow> Some [k \<mapsto> v] | Some f \<Rightarrow> Some (f(k \<mapsto> v)))"

definition mapDelete :: "string \<Rightarrow> (string \<rightharpoonup> string) option \<Rightarrow> (string \<rightharpoonup> string) option" where
  "mapDelete k m = (case m of None \<Rightarrow> None | Some f \<Rightarrow> Some (f(k := None)))"

definition setAdd :: "string \<Rightarrow> string set option \<Rightarrow> string set option" where
  "setAdd k m = (case m of None \<Rightarrow> Some {k} | Some S \<Rightarrow> Some (insert k S))"

definition setDelete :: "string \<Rightarrow> string set option \<Rightarrow> string set option" where
  "setDelete k m = (case m of None \<Rightarrow> None | Some S \<Rightarrow> Some (S - {k}))"

definition SetLabel :: "string \<Rightarrow> string \<Rightarrow> Builder \<Rightarrow> error + Builder" where
  "SetLabel k v b =
     onDockerConfig (\<lambda>c. c\<lparr>dcLabels := mapSet k v (dcLabels c)\<rparr>)
       (onOCIConfig (\<lambda>c. c\<lparr>ocLabels := mapSet k v (ocLabels c)\<rparr>) b)"

definition UnsetLabel :: "string \<Rightarrow> Builder \<Rightarrow> error + Builder" where
  "UnsetLabel k b =
     onDockerConfig (\<lambda>c. c\<lparr>dcLabels := mapDelete k (dcLabels c)\<rparr>)
       (onOCIConfig (\<lambda>c. c\<lparr>ocLabels := mapDelete k (ocLabels c)\<rparr>) b)"

definition ClearLabels :: "Builder \<Rightarrow> error + Builder" where
  "ClearLabels b =
     onDockerConfig (\<lambda>c. c\<lparr>dcLabels := Some Map.empty\<rparr>)
       (onOCIConfig (\<lambda>c. c\<lparr>ocLabels := Some Map.empty\<rparr>) b)"

definition SetPort :: "string \<Rightarrow> Builder \<Rightarrow> error + Builder" where
  "SetPort p b =
     onDockerConfig (\<lambda>c. c\<lparr>dcExposedPorts := setAdd p (dcExposedPorts c)\<rparr>)
       (onOCIConfig (\<lambda>c. c\<lparr>ocExposedPorts := setAdd p (ocExposedPorts c)\<rparr>) b)"

definition UnsetPort :: "string \<Rightarrow> Builder \<Rightarrow> error + Builder" where
  "UnsetPort p b =
     onDockerConfig (\<lambda>c. c\<lparr>dcExposedPorts := setDelete p (dcExposedPorts c)\<rparr>)
       (onOCIConfig (\<lambda>c. c\<lparr>ocExposedPorts := setDelete p (ocExposedPorts c)\<rparr>) b)"

definition ClearPorts :: "Builder \<Rightarrow> error + Builder" where
  "ClearPorts b =
     onDockerConfig (\<lambda>c. c\<lparr>dcExposedPorts := Some {}\<rparr>)
       (onOCIConfig (\<lambda>c. c\<lparr>ocExposedPorts := Some {}\<rparr>) b)"

definition AddVolume :: "string \<Rightarrow> Builder \<Rightarrow> error + Builder" where
  "AddVolume v b =
     onDockerConfig (\<lambda>c. c\<lparr>dcVolumes := setAdd v (dcVolumes c)\<rparr>)
       (onOCIConfig (\<lambda>c. c\<lparr>ocVolumes := setAdd v (ocVolumes c)\<rparr>) b)"

definition RemoveVolume :: "string \<Rightarrow> Builder \<Rightarrow> error + Builder" where
  "RemoveVolume v b =
     onDockerConfig (\<lambda>c. c\<lparr>dcVolumes := setDelete v (dcVolumes c)\<rparr>)
       (onOCIConfig (\<lambda>c. c\<lparr>ocVolumes := setDelete v (ocVolumes c)\<rparr>) b)"

definition ClearVolumes :: "Builder \<Rightarrow> error + Builder" where
  "ClearVolumes b =
     onDockerConfig (\<lambda>c. c\<lparr>dcVolumes := Some {}\<rparr>)
       (onOCIConfig (\<lambda>c. c\<lparr>ocVolumes := Some {}\<rparr>) b)"

definition SetHostname :: "string \<Rightarrow> Builder \<Rightarrow> error + Builder" where
  "SetHostname name b = onDockerConfig (\<lambda>c. c\<lparr>dcHostname := name\<rparr>) b"

definition SetDomainname :: "string \<Rightarrow> Builder \<Rightarrow> error + Builder" where
  "SetDomainname name b = onDockerConfig (\<lambda>c. c\<lparr>dcDomainname := name\<rparr>) b"

definition SetStopSignal :: "string \<Rightarrow> Builder \<Rightarrow> error + Builder" where
  "SetStopSignal stopSignal b =
     onDockerConfig (\<lambda>c. c\<lparr>dcStopSignal := stopSignal\<rparr>)
       (onOCIConfig (\<lambda>c. c\<lparr>ocStopSignal := stopSignal\<rparr>) b)"

definition SetComment :: "string \<Rightarrow> Builder \<Rightarrow> Builder" where
  "SetComment comment b = b\<lparr>Docker := (Docker b)\<lparr>dComment := comment\<rparr>\<rparr>"

definition SetAnnotation :: "string \<Rightarrow> string \<Rightarrow> Builder \<Rightarrow> Builder" where
  "SetAnnotation k v b = b\<lparr>ImageAnnotations := mapSet k v (ImageAnnotations b)\<rparr>"

definition UnsetAnnotation :: "string \<Rightarrow> Builder \<Rightarrow> Builder" where
  "UnsetAnnotation k b = b\<lparr>ImageAnnotations := mapDelete k (ImageAnnotations b)\<rparr>"

definition ClearAnnotations :: "Builder \<Rightarrow> Builder" where
  "ClearAnnotations b = b\<lparr>ImageAnnotations := Some Map.empty\<rparr>"

definition CreatedBy :: "Builder \<Rightarrow> string" where
  "CreatedBy b = ImageCreatedBy b"

definition SetCreatedBy :: "string \<Rightarrow> Builder \<Rightarrow> Builder" where
  "SetCreatedBy how b = b\<lparr>ImageCreatedBy := how\<rparr>"

definition HistoryComment :: "Builder \<Rightarrow> string" where
  "HistoryComment b = ImageHistoryComment b"

definition SetHistoryComment :: "string \<Rightarrow> Builder \<Rightarrow> Builder" where
  "SetHistoryComment comment b = b\<lparr>ImageHistoryComment := comment\<rparr>"

definition SetDefaultMountsFilePath :: "string \<Rightarrow> Builder \<Rightarrow> Builder" where
  "SetDefaultMountsFilePath p b = b\<lparr>DefaultMountsFilePath := p\<rparr>"

text \<open>
  \<open>fixupConfig\<close>: \<open>ContainerConfig\<close> takes the value \<open>Config\<close> points to when
  there is one, and \<open>Config\<close> is then set to the address of \<open>ContainerConfig\<close>.
\<close>

definition fixupConfig :: "Runtime \<Rightarrow> Builder \<Rightarrow> error + Builder" where
  "fixupConfig rt b =
     (let d0 = Docker b;
          d1 = (case loadConfig d0 of None \<Rightarrow> d0 | Some c \<Rightarrow> d0\<lparr>dContainerConfig := c\<rparr>);
          d2 = d1\<lparr>dConfig := AddrOfContainerConfig, dDockerVersion := []\<rparr>;
          d3 = (if dCreated d2 = 0 then d2\<lparr>dCreated := timeNow rt\<rparr> else d2);
          o0 = OCIv1 b;
          o1 = (if oCreated o0 = None \<or> oCreated o0 = Some 0
                then o0\<lparr>oCreated := Some (timeNow rt)\<rparr> else o0);
          b1 = b\<lparr>OCIv1 := o1, Docker := d3\<rparr>;
          b2 = (if OS b1 = [] then SetOS (GOOS rt) b1 else b1);
          b3 = (if Architecture b2 = [] then SetArchitecture (GOARCH rt) b2 else b2)
      in if WorkDir b3 = [] then SetWorkDir (Separator rt) b3 else Inr b3)"

text \<open>The mutators of config.go as calls, and a sequence of calls run in order.\<close>

datatype Call =
    CallSetOS string
  | CallSetArchitecture string
  | CallSetMaintainer string
  | CallSetUser string
  | CallClearOnBuild
  | CallSetOnBuild string
  | CallSetWorkDir string
  | CallSetShell "string list"
  | CallSetEnv string string
  | CallUnsetEnv string
  | CallClearEnv
  | CallSetCmd "string list"
  | CallSetEntrypoint "string list"
  | CallSetLabel string string
  | CallUnsetLabel string
  | CallClearLabels
  | CallSetPort string
  | CallUnsetPort string
  | CallClearPorts
  | CallAddVolume string
  | CallRemoveVolume string
  | CallClearVolumes
  | CallSetHostname string
  | CallSetDomainname string
  | CallSetStopSignal string
  | CallSetComment string
  | CallSetAnnotation string string
  | CallUnsetAnnotation string
  | CallClearAnnotations
  | CallSetCreatedBy string
  | CallSetHistoryComment string
  | CallSetDefaultMountsFilePath string

fun applyCall :: "Runtime \<Rightarrow> Call \<Rightarrow> Builder \<Rightarrow> error + Builder" where
  "applyCall rt (CallSetOS x) b = Inr (SetOS x b)"
| "applyCall rt (CallSetArchitecture x) b = Inr (SetArchitecture x b)"
| "applyCall rt (CallSetMaintainer x) b = Inr (SetMaintainer x b)"
| "applyCall rt (CallSetUser x) b = SetUser x b"
| "applyCall rt CallClearOnBuild b = ClearOnBuild b"
| "applyCall rt (CallSetOnBuild x) b = SetOnBuild x b"
| "applyCall rt (CallSetWorkDir x) b = SetWorkDir x b"
| "applyCall rt (CallSetShell x) b = SetShell x b"
| "applyCall rt (CallSetEnv k v) b = SetEnv rt k v b"
| "applyCall rt (CallUnsetEnv k) b = UnsetEnv k b"
| "applyCall rt CallClearEnv b = ClearEnv b"
| "applyCall rt (CallSetCmd x) b = SetCmd x b"
| "applyCall rt (CallSetEntrypoint x) b = SetEntrypoint x b"
| "applyCall rt (CallSetLabel k v) b = SetLabel k v b"
| "applyCall rt (CallUnsetLabel k) b = UnsetLabel k b"
| "applyCall rt CallClearLabels b = ClearLabels b"
| "applyCall rt (CallSetPort p) b = SetPort p b"
| "applyCall rt (CallUnsetPort p) b = UnsetPort p b"
| "applyCall rt CallClearPorts b = ClearPorts b"
| "applyCall rt (CallAddVolume x) b = AddVolume x b"
| "applyCall rt (CallRemoveVolume x) b = RemoveVolume x b"
| "applyCall rt CallClearVolumes b = ClearVolumes b"
| "applyCall rt (CallSetHostname x) b = SetHostname x b"
| "applyCall rt (CallSetDomainname x) b = SetDomainname x b"
| "applyCall rt (CallSetStopSignal x) b = SetStopSignal x b"
| "applyCall rt (CallSetComment x) b = Inr (SetComment x b)"
| "applyCall rt (CallSetAnnotation k v) b = Inr (SetAnnotation k v b)"
| "applyCall rt (CallUnsetAnnotation k) b = Inr (UnsetAnnotation k b)"
| "applyCall rt CallClearAnnotations b = Inr (ClearAnnotations b)"
| "applyCall rt (CallSetCreatedBy x) b = Inr (SetCreatedBy x b)"
| "applyCall rt (CallSetHistoryComment x) b = Inr (SetHistoryComment x b)"
| "applyCall rt (CallSetDefaultMountsFilePath x) b = Inr (SetDefaultMountsFilePath x b)"

fun applyCalls :: "Runtime \<Rightarrow> Call list \<Rightarrow> Builder \<Rightarrow> error + Builder" where
  "applyCalls rt [] b = Inr b"
| "applyCalls rt (c # cs) b =
     (case applyCall rt c b of Inl e \<Rightarrow> Inl e | Inr b' \<Rightarrow> applyCalls rt cs b')"

text \<open>The zero values of the configuration types, and the \<open>Builder\<close> that
  \<open>initConfig\<close> hands to \<open>fixupConfig\<close> when there is no base image.\<close>

definition zeroImageConfig :: ImageConfig where
  "zeroImageConfig =
     \<lparr>ocUser = [], ocExposedPorts = None, ocEnv = [], ocEntrypoint = [], ocCmd = [],
      ocVolumes = None, ocWorkingDir = [], ocLabels = None, ocStopSignal = []\<rparr>"

definition zeroDockerConfig :: DockerConfig where
  "zeroDockerConfig =
     \<lparr>dcHostname = [], dcDomainname = [], dcUser = [], dcExposedPorts = None, dcEnv = [],
      dcCmd = [], dcHealthcheck = None, dcVolumes = None, dcWorkingDir = [],
      dcEntrypoint = [], dcOnBuild = [], dcLabels = None, dcStopSignal = [], dcShell = []\<rparr>"

definition zeroImage :: Image where
  "zeroImage =
     \<lparr>oCreated = None, oAuthor = [], oArchitecture = [], oOS = [], oConfig = zeroImageConfig,
      oRootFS_Type = [], oRootFS_DiffIDs = [], oHistory = []\<rparr>"

definition zeroV2Image :: V2Image where
  "zeroV2Image =
     \<lparr>dParent = [], dComment = [], dCreated = 0, dContainer = [],
      dContainerConfig = zeroDockerConfig, dDockerVersion = [], dAuthor = [],
      dConfig = NilConfig, dArchitecture = [], dOS = [], dRootFS_Type = [],
      dRootFS_DiffIDs = [], dHistory = []\<rparr>"

definition zeroBuilder :: Builder where
  "zeroBuilder =
     \<lparr>OCIv1 = zeroImage, Docker = zeroV2Image, ImageAnnotations = None, ImageCreatedBy = [],
      ImageHistoryComment = [], DefaultMountsFilePath = [], FromImage = [], FromImageID = [],
      ContainerID = [], MountLabel = [], PrependedEmptyLayers = [], AppendedEmptyLayers = [],
      PrependedLinkedLayers = [], AppendedLinkedLayers = []\<rparr>"

section \<open>Committing a container (image.go): types\<close>

text \<open>\<open>archive.Compression\<close>, an integer type with five named values.\<close>

datatype Compression = Uncompressed | Bzip2 | Gzip | Xz | Zstd | OtherCompression

text \<open>
  Modelled from the spec: the media type and root file system type constants, which
  are declared in packages that are not among the sources (the image-spec's
  \<open>v1\<close>, \<open>containers/image\<close>'s \<open>manifest\<close>, and this repository's
  \<open>docker\<close> and \<open>define\<close>).  The spec names them: OCI \<open>image-layer\<close> and
  \<open>image-layer+gzip\<close>, Docker \<open>uncompressed-layer\<close> and v2s2 layer, the two
  manifest types, the two configuration types, and \<open>RootFS.Type = "layers"\<close>.
\<close>

definition MediaTypeImageLayer :: string where
  "MediaTypeImageLayer = ''application/vnd.oci.image.layer.v1.tar''"

definition MediaTypeImageLayerGzip :: string where
  "MediaTypeImageLayerGzip = ''application/vnd.oci.image.layer.v1.tar+gzip''"

definition V2S2MediaTypeUncompressedLayer :: string where
  "V2S2MediaTypeUncompressedLayer = ''application/vnd.docker.image.rootfs.diff.tar''"

definition DockerV2Schema2LayerMediaType :: string where
  "DockerV2Schema2LayerMediaType = ''application/vnd.docker.image.rootfs.diff.tar.gzip''"

definition MediaTypeImageManifest :: string where
  "MediaTypeImageManifest = ''application/vnd.oci.image.manifest.v1+json''"

definition MediaTypeImageConfig :: string where
  "MediaTypeImageConfig = ''application/vnd.oci.image.config.v1+json''"

definition DockerV2Schema2MediaType :: string where
  "DockerV2Schema2MediaType = ''application/vnd.docker.distribution.manifest.v2+json''"

definition DockerV2Schema2ConfigMediaType :: string where
  "DockerV2Schema2ConfigMediaType = ''application/vnd.docker.container.image.v1+json''"

definition TypeLayers :: string where
  "TypeLayers = ''layers''"

definition Package :: string where
  "Package = ''buildah''"

definition synthesizedLayerID :: string where
  "synthesizedLayerID = ''(synthesized layer)''"

text \<open>\<open>storage.Layer\<close> and \<open>storage.Container\<close>, with the fields the sources read.\<close>

record Layer =
  layer_ID :: string
  layer_Parent :: string
  layer_UncompressedDigest :: digest
  layer_UncompressedSize :: int

record Container =
  container_ID :: string
  container_Names :: "string list"
  container_LayerID :: string

record commitLinkedLayerInfo =
  cl_layerID :: string
  cl_linkedLayer :: LinkedLayer
  cl_uncompressedDigest :: digest
  cl_size :: int

record ConfidentialWorkloadOptions =
  cwConvert :: bool
  cwTempDir :: string

datatype OptionalBool = OptionalBoolUndefined | OptionalBoolTrue | OptionalBoolFalse

text \<open>
  \<open>containerImageRef\<close>.  The store is part of the environment below.
  \<open>extraImageContent\<close> is a Go map; the field holds its entries in the order in
  which this execution's \<open>range\<close> statement visits them.  Go leaves that order
  unspecified, so two executions over the same map may hold two different
  permutations of the same entries.
\<close>

record containerImageRef =
  fromImageName :: string
  fromImageID :: string
  compression :: Compression
  names :: "string list"
  containerID :: string
  mountLabel :: string
  layerID :: string
  oconfig :: bytes
  dconfig :: bytes
  created :: "time option"
  createdBy :: string
  historyComment :: string
  annotations :: "(string \<rightharpoonup> string) option"
  preferredManifestType :: string
  squash :: bool
  confidentialWorkload :: ConfidentialWorkloadOptions
  omitHistory :: bool
  emptyLayer :: bool
  parent :: string
  blobDirectory :: string
  preEmptyLayers :: "History list"
  preLayers :: "commitLinkedLayerInfo list"
  postEmptyLayers :: "History list"
  postLayers :: "commitLinkedLayerInfo list"
  overrideChanges :: "string list"
  overrideConfig :: "DockerConfig option"
  extraImageContent :: "(string \<times> string) list"
  compatSetParent :: OptionalBool

text \<open>\<open>v1.Descriptor\<close> and \<open>docker.V2S2Descriptor\<close> (the three fields set), and the two manifests.\<close>

record Descriptor =
  descMediaType :: string
  descDigest :: digest
  descSize :: int

record Manifest =
  mSchemaVersion :: nat
  mMediaType :: string
  mConfig :: Descriptor
  mLayers :: "Descriptor list"
  mAnnotations :: "(string \<rightharpoonup> string) option"

record V2S2Manifest =
  dmSchemaVersion :: nat
  dmMediaType :: string
  dmConfig :: Descriptor
  dmLayers :: "Descriptor list"

datatype OSError = ErrNotExist | ErrOther

record File =
  fileContent :: bytes
  fileStat :: "nat option"

record blobLayerInfo =
  blID :: string
  blSize :: int

record containerImageSource =
  src_path :: string
  src_containerID :: string
  src_layerID :: string
  src_names :: "string list"
  src_config :: bytes
  src_configDigest :: digest
  src_manifest :: bytes
  src_manifestType :: string
  src_blobDirectory :: string
  src_blobLayers :: "digest \<rightharpoonup> blobLayerInfo"

text \<open>
  The world a commit acts on: the host's files (a regular file with its bytes, or a
  directory), the files of the staging directory by name, and the trace of the
  operations on files, streams and mounts, in the order they happen.
\<close>

datatype Node = RegularFile bytes | Directory

datatype Event =
    EvStat string
  | EvOpen string
  | EvCreateTemp string
  | EvRemove string
  | EvArchive string
  | EvDiff string
  | EvMount string
  | EvUnmount string
  | EvCopierGet string
  | EvMkcwArchive string
  | EvMkdirTemp string
  | EvRemoveAll string
  | EvStage string

record World =
  files :: "string \<rightharpoonup> Node"
  staged :: "string \<rightharpoonup> bytes"
  trace :: "Event list"

definition logEvent :: "Event \<Rightarrow> World \<Rightarrow> World" where
  "logEvent ev w = w\<lparr>trace := trace w @ [ev]\<rparr>"

text \<open>An operation returns a value and the world, or fails with an error and the world
  as it is then, or never returns.\<close>

datatype 'a Result = Hang | Fail error World | Done 'a World

text \<open>A stream to read from: its bytes, or a pipe that nothing writes to or closes.\<close>

datatype ReadCloser = Stream bytes | Blocked

datatype ClockSite = AtCreateConfigs | AtHistory | AtExtraDiff

datatype StagingOp = OpenLayerFile | ClosePipe | CloseLayerFile | RenameLayerFile

text \<open>
  The collaborators of the commit path, as functions: the store, the operating
  system's temporary names, the archivers, the digester (\<open>digest.Canonical\<close>), the
  compressor (\<open>archive.CompressStream\<close>, which fails or gives the function from
  the bytes written to it to the bytes it writes), the tar filter (the bytes it
  took, the bytes it wrote, and whether the copy through it succeeded), the tar
  writer (the bytes of one entry, and of the footer), the clock at each of its three
  uses, \<open>encoding/json\<close>, \<open>config.Override\<close>, and whether an operation on the
  staging directory's \<open>layer\<close> file fails.  A result of \<open>None\<close> is an error.
\<close>

record Env =
  storeLayer :: "string \<Rightarrow> Layer option"
  storeDiff :: "string \<Rightarrow> bytes option"
  storeContainerDirectory :: "string \<Rightarrow> string option"
  storeMount :: "string \<Rightarrow> string option"
  storeContainer :: "string \<Rightarrow> Container option"
  tmpdirGetTempDir :: string
  osMkdirTemp :: "string \<Rightarrow> string \<Rightarrow> string option"
  osCreateTemp :: "string \<Rightarrow> string \<Rightarrow> string option"
  copierGet :: "string \<Rightarrow> bytes option"
  mkcwArchive :: "string \<Rightarrow> Image \<Rightarrow> (string \<times> string) list \<Rightarrow> bytes option"
  chrootarchiveTar :: "string \<Rightarrow> bytes option"
  sha256 :: "bytes \<Rightarrow> digest"
  compressStream :: "Compression \<Rightarrow> (bytes \<Rightarrow> bytes) option"
  tarFilterer :: "time option \<Rightarrow> bytes \<Rightarrow> nat \<times> bytes \<times> bool"
  tarEntry :: "string \<Rightarrow> time \<Rightarrow> bytes \<Rightarrow> bytes"
  tarFooter :: bytes
  clock :: "ClockSite \<Rightarrow> time"
  jsonUnmarshalImage :: "bytes \<Rightarrow> Image option"
  jsonUnmarshalV2Image :: "bytes \<Rightarrow> V2Image option"
  jsonMarshalImage :: "Image \<Rightarrow> bytes option"
  jsonMarshalV2Image :: "V2Image \<Rightarrow> bytes option"
  jsonMarshalManifest :: "Manifest \<Rightarrow> bytes option"
  jsonMarshalV2S2Manifest :: "V2S2Manifest \<Rightarrow> bytes option"
  configOverride ::
    "DockerConfig option \<Rightarrow> ImageConfig \<Rightarrow> string list \<Rightarrow> DockerConfig option \<Rightarrow>
     (DockerConfig \<times> ImageConfig) option"
  stagingFault :: "StagingOp \<Rightarrow> bool"

text \<open>The variables of \<open>NewImageSource\<close> that its loop over the layers assigns to.\<close>

record Locals =
  oimage :: Image
  omanifest :: Manifest
  dimage :: V2Image
  dmanifest :: V2S2Manifest
  blobLayers :: "digest \<rightharpoonup> blobLayerInfo"
  extraImageContentDiff :: string
  extraImageContentDiffDigest :: digest

text \<open>What \<open>NewImageSource\<close> returns, with the two configurations and manifests it
  encoded and the name of the extra-content diff, which the source itself keeps in
  local variables.\<close>

record Output =
  out_src :: containerImageSource
  out_oimage :: Image
  out_omanifest :: Manifest
  out_dimage :: V2Image
  out_dmanifest :: V2S2Manifest
  out_oconfig :: bytes
  out_omanifestbytes :: bytes
  out_dconfig :: bytes
  out_dmanifestbytes :: bytes
  out_extraImageContentDiff :: string
  out_extraImageContentDiffDigest :: digest

section \<open>Committing a container (image.go): operations\<close>

definition expectedOCIDiffIDs :: "Image \<Rightarrow> nat" where
  "expectedOCIDiffIDs img =
     fold (\<lambda>history expected. if \<not> hEmptyLayer history then expected + 1 else expected)
       (oHistory img) 0"

definition expectedDockerDiffIDs :: "V2Image \<Rightarrow> nat" where
  "expectedDockerDiffIDs img =
     fold (\<lambda>history expected. if \<not> dhEmptyLayer history then expected + 1 else expected)
       (dHistory img) 0"

definition computeLayerMIMEType :: "string \<Rightarrow> Compression \<Rightarrow> error + string \<times> string" where
  "computeLayerMIMEType what layerCompression =
     (case layerCompression of
        Uncompressed \<Rightarrow> Inr (MediaTypeImageLayer, V2S2MediaTypeUncompressedLayer)
      | Gzip \<Rightarrow> Inr (MediaTypeImageLayerGzip, DockerV2Schema2LayerMediaType)
      | Bzip2 \<Rightarrow> Inl (ErrorsNew ''media type for bzip2-compressed layers is not defined'')
      | Xz \<Rightarrow> Inl (ErrorsNew ''media type for xz-compressed layers is not defined'')
      | Zstd \<Rightarrow> Inl (ErrorsNew ''media type for zstd-compressed layers is not defined'')
      | OtherCompression \<Rightarrow> Inr (MediaTypeImageLayer, V2S2MediaTypeUncompressedLayer))"

text \<open>The timestamp override when there is one, the clock otherwise.\<close>

definition createdOrNow :: "Env \<Rightarrow> containerImageRef \<Rightarrow> ClockSite \<Rightarrow> time" where
  "createdOrNow env i site = (case created i of Some t \<Rightarrow> t | None \<Rightarrow> clock env site)"

text \<open>
  \<open>makeExtraImageContentDiff\<close>.  The loop opens each content file, and writes a
  header and the file's bytes to the tar writer, whose output goes to the
  temporary file and to the digester and counter; an error removes the file.
\<close>

fun writeExtraEntries ::
  "Env \<Rightarrow> time \<Rightarrow> (string \<times> string) list \<Rightarrow> bytes \<Rightarrow> World \<Rightarrow> bytes Result" where
  "writeExtraEntries env t [] tw w = Done tw w"
| "writeExtraEntries env t ((path, contents) # rest) tw w =
     (case files w contents of
        Some (RegularFile bs) \<Rightarrow>
          writeExtraEntries env t rest (tw @ tarEntry env path t bs) (logEvent (EvOpen contents) w)
      | _ \<Rightarrow> Fail (OSFailure contents) (logEvent (EvOpen contents) w))"

definition makeExtraImageContentDiff ::
  "Env \<Rightarrow> containerImageRef \<Rightarrow> bool \<Rightarrow> World \<Rightarrow> (string \<times> digest \<times> int) Result" where
  "makeExtraImageContentDiff env i includeFooter w =
     (case storeContainerDirectory env (containerID i) of
        None \<Rightarrow> Fail GettingContainerDirectory w
      | Some cdir \<Rightarrow>
          (case osCreateTemp env cdir ''extradiff'' of
             None \<Rightarrow> Fail (OSFailure cdir) w
           | Some diff \<Rightarrow>
               (case writeExtraEntries env (createdOrNow env i AtExtraDiff) (extraImageContent i) []
                       (logEvent (EvCreateTemp diff) (w\<lparr>files := (files w)(diff \<mapsto> RegularFile [])\<rparr>)) of
                  Hang \<Rightarrow> Hang
                | Fail e w2 \<Rightarrow> Fail e (logEvent (EvRemove diff) (w2\<lparr>files := (files w2)(diff := None)\<rparr>))
                | Done tw w2 \<Rightarrow>
                    if \<not> includeFooter
                    then Done (diff, [], - 1) (w2\<lparr>files := (files w2)(diff \<mapsto> RegularFile tw)\<rparr>)
                    else Done (diff, sha256 env (tw @ tarFooter env), int (length (tw @ tarFooter env)))
                           (w2\<lparr>files := (files w2)(diff \<mapsto> RegularFile (tw @ tarFooter env))\<rparr>))))"

text \<open>
  \<open>extractRootfs\<close>: the stream the consumer reads, and whether the goroutine sent an
  error.  A goroutine that fails before \<open>copier.Get\<close> returns without closing the
  pipe, so the consumer's read never returns; the unmount belongs to the closing of
  the stream.
\<close>

definition extractRootfs ::
  "Env \<Rightarrow> containerImageRef \<Rightarrow> World \<Rightarrow> (ReadCloser \<times> bool) Result" where
  "extractRootfs env i w =
     (case storeMount env (containerID i) of
        None \<Rightarrow> Fail MountingContainer w
      | Some mountPoint \<Rightarrow>
          (if extraImageContent i \<noteq> [] then
             (case makeExtraImageContentDiff env i False (logEvent (EvMount (containerID i)) w) of
                Hang \<Rightarrow> Hang
              | Fail e w2 \<Rightarrow> Done (Blocked, True) w2
              | Done (filename, dg, sz) w2 \<Rightarrow>
                  (case files w2 filename of
                     Some (RegularFile extra) \<Rightarrow>
                       (case copierGet env mountPoint of
                          None \<Rightarrow> Done (Stream extra, True)
                                    (logEvent (EvCopierGet mountPoint) (logEvent (EvOpen filename) w2))
                        | Some tar \<Rightarrow> Done (Stream (extra @ tar), False)
                                    (logEvent (EvCopierGet mountPoint) (logEvent (EvOpen filename) w2)))
                   | _ \<Rightarrow> Done (Blocked, True) (logEvent (EvOpen filename) w2)))
           else
             (case copierGet env mountPoint of
                None \<Rightarrow> Done (Stream [], True)
                          (logEvent (EvCopierGet mountPoint) (logEvent (EvMount (containerID i)) w))
              | Some tar \<Rightarrow> Done (Stream tar, False)
                          (logEvent (EvCopierGet mountPoint) (logEvent (EvMount (containerID i)) w)))))"

definition extractConfidentialWorkloadFS ::
  "Env \<Rightarrow> containerImageRef \<Rightarrow> World \<Rightarrow> ReadCloser Result" where
  "extractConfidentialWorkloadFS env i w =
     (case jsonUnmarshalImage env (oconfig i) of
        None \<Rightarrow> Fail RecreatingOCIConfiguration w
      | Some img \<Rightarrow>
          (case (if cwTempDir (confidentialWorkload i) = []
                 then (case storeContainerDirectory env (containerID i) of
                         None \<Rightarrow> Inl GettingContainerDirectory
                       | Some cdir \<Rightarrow>
                           (case osMkdirTemp env cdir ''buildah-rootfs'' of
                              None \<Rightarrow> Inl CreatingTempDataDirectory
                            | Some tempdir \<Rightarrow> Inr [EvMkdirTemp tempdir, EvRemoveAll tempdir]))
                 else Inr []) of
             Inl e \<Rightarrow> Fail e w
           | Inr tmp \<Rightarrow>
               (case storeMount env (containerID i) of
                  None \<Rightarrow> Fail MountingContainer (w\<lparr>trace := trace w @ tmp\<rparr>)
                | Some mountPoint \<Rightarrow>
                    (case mkcwArchive env mountPoint img (extraImageContent i) of
                       None \<Rightarrow> Fail ConvertingRootfs
                                 (w\<lparr>trace := trace w @ take 1 tmp @
                                    [EvMount (containerID i), EvMkcwArchive mountPoint,
                                     EvUnmount (containerID i)] @ drop 1 tmp\<rparr>)
                     | Some disk \<Rightarrow> Done (Stream disk)
                                 (w\<lparr>trace := trace w @ take 1 tmp @
                                    [EvMount (containerID i), EvMkcwArchive mountPoint] @
                                    drop 1 tmp\<rparr>)))))"

text \<open>
  \<open>createConfigsAndManifests\<close>.  \<open>config.Override\<close> reads and writes the Docker
  configuration through \<open>dimage.Config\<close>; the assignments for a confidential
  workload go through the same pointer.
\<close>

definition createConfigsAndManifests ::
  "Env \<Rightarrow> containerImageRef \<Rightarrow> error + Image \<times> Manifest \<times> V2Image \<times> V2S2Manifest" where
  "createConfigsAndManifests env i =
     (let single = (cwConvert (confidentialWorkload i) \<or> squash i \<or> omitHistory i);
          t = createdOrNow env i AtCreateConfigs
      in case jsonUnmarshalImage env (oconfig i) of
           None \<Rightarrow> Inl JSONUnmarshal
         | Some o0 \<Rightarrow>
             (let o1 = o0\<lparr>oCreated := Some t, oRootFS_Type := TypeLayers, oRootFS_DiffIDs := []\<rparr>;
                  o2 = (if single then o1\<lparr>oHistory := []\<rparr> else o1)
              in case jsonUnmarshalV2Image env (dconfig i) of
                   None \<Rightarrow> Inl JSONUnmarshal
                 | Some d0 \<Rightarrow>
                     (let d1 = (if compatSetParent i = OptionalBoolTrue
                                then d0\<lparr>dParent := parent i\<rparr> else d0);
                          d2 = d1\<lparr>dContainer := containerID i\<rparr>;
                          d3 = (case loadConfig d2 of
                                  None \<Rightarrow> d2 | Some c \<Rightarrow> d2\<lparr>dContainerConfig := c\<rparr>);
                          d4 = d3\<lparr>dCreated := t, dRootFS_Type := TypeLayers, dRootFS_DiffIDs := []\<rparr>;
                          d5 = (if single then d4\<lparr>dParent := [], dHistory := []\<rparr> else d4)
                      in case configOverride env (loadConfig d5) (oConfig o2)
                                (overrideChanges i) (overrideConfig i) of
                           None \<Rightarrow> Inl ApplyingChanges
                         | Some (dc, oc) \<Rightarrow>
                             (let o3 = o2\<lparr>oConfig := oc\<rparr>;
                                  d6 = (case storeConfig (\<lambda>_. dc) d5 of Inl e \<Rightarrow> d5 | Inr d \<Rightarrow> d);
                                  omanifest0 = \<lparr>mSchemaVersion = 2, mMediaType = MediaTypeImageManifest,
                                     mConfig = \<lparr>descMediaType = MediaTypeImageConfig, descDigest = [],
                                                descSize = 0\<rparr>,
                                     mLayers = [], mAnnotations = annotations i\<rparr>;
                                  dmanifest0 = \<lparr>dmSchemaVersion = 2, dmMediaType = DockerV2Schema2MediaType,
                                     dmConfig = \<lparr>descMediaType = DockerV2Schema2ConfigMediaType,
                                                 descDigest = [], descSize = 0\<rparr>,
                                     dmLayers = []\<rparr>
                              in if cwConvert (confidentialWorkload i) then
                                   (case storeConfig
                                           (\<lambda>c. c\<lparr>dcEntrypoint := [''/entrypoint''], dcCmd := [],
                                                  dcUser := [], dcWorkingDir := [],
                                                  dcHealthcheck := None, dcShell := [],
                                                  dcVolumes := None, dcExposedPorts := None\<rparr>) d6 of
                                      Inl e \<Rightarrow> Inl e
                                    | Inr d7 \<Rightarrow>
                                        Inr (o3\<lparr>oConfig := (oConfig o3)
                                                 \<lparr>ocEntrypoint := [''/entrypoint''], ocCmd := [],
                                                  ocUser := [], ocWorkingDir := [],
                                                  ocVolumes := None, ocExposedPorts := None\<rparr>\<rparr>,
                                             omanifest0, d7, dmanifest0))
                                 else Inr (o3, omanifest0, d6, dmanifest0)))))"

text \<open>
  The walk over the parent layers.  The loop ends only at its \<open>break\<close> or at an
  error of \<open>store.Layer\<close>; on a store whose parent links form a cycle it does not
  end, and the function has no value.
\<close>

partial_function (option) walkLayers ::
  "(string \<Rightarrow> Layer option) \<Rightarrow> string \<Rightarrow> bool \<Rightarrow> string \<Rightarrow> Layer \<Rightarrow> string list \<Rightarrow> string set \<Rightarrow>
   (error + string list \<times> string set) option" where
  "walkLayers lookup topID single lid layer layers parentLayerIDs =
     (if layer_Parent layer = [] \<or> single
      then Some (Inr (if lid = topID then (layers @ [lid], parentLayerIDs)
                      else (lid # layers, insert lid parentLayerIDs)))
      else (case lookup (layer_Parent layer) of
              None \<Rightarrow> Some (Inl (UnableToReadLayer (layer_Parent layer)))
            | Some layer' \<Rightarrow>
                walkLayers lookup topID single (layer_Parent layer) layer'
                  (if lid = topID then layers @ [lid] else lid # layers)
                  (if lid = topID then parentLayerIDs else insert lid parentLayerIDs)))"

declare walkLayers.simps [code]

text \<open>The list of layers up to the walk, and the complete list.\<close>

definition planParents ::
  "Env \<Rightarrow> containerImageRef \<Rightarrow> (error + string list \<times> string set) option" where
  "planParents env i =
     (case storeLayer env (layerID i) of
        None \<Rightarrow> Some (Inl (UnableToReadLayer (layerID i)))
      | Some layer \<Rightarrow>
          walkLayers (storeLayer env) (layerID i)
            (cwConvert (confidentialWorkload i) \<or> squash i)
            (layerID i) layer (map cl_layerID (preLayers i)) {})"

definition planLayers :: "containerImageRef \<Rightarrow> string list \<Rightarrow> string list" where
  "planLayers i layers =
     layers @
     (if extraImageContent i \<noteq> [] \<and> \<not> cwConvert (confidentialWorkload i) \<and> \<not> squash i
      then [synthesizedLayerID] else []) @
     map cl_layerID (postLayers i)"

text \<open>Formatting with \<open>%q\<close>, for names without characters to escape.\<close>

definition quoted :: "string \<Rightarrow> string" where
  "quoted s = [CHR 0x22] @ s @ [CHR 0x22]"

definition whatFor :: "containerImageRef \<Rightarrow> string \<Rightarrow> string" where
  "whatFor i lid =
     (if lid \<in> cl_layerID ` set (preLayers i @ postLayers i) then lid
      else if lid = synthesizedLayerID then synthesizedLayerID
      else if cwConvert (confidentialWorkload i) \<or> squash i
      then ''container '' @ quoted (containerID i)
      else ''layer '' @ quoted lid)"

text \<open>Appending a layer's descriptors to both manifests and its diff ID to both configurations.\<close>

definition appendLayer :: "string \<times> string \<Rightarrow> digest \<Rightarrow> int \<Rightarrow> digest \<Rightarrow> Locals \<Rightarrow> Locals" where
  "appendLayer mediaTypes blobSum blobSize diffID st =
     st\<lparr>omanifest := (omanifest st)\<lparr>mLayers := mLayers (omanifest st) @
            [\<lparr>descMediaType = fst mediaTypes, descDigest = blobSum, descSize = blobSize\<rparr>]\<rparr>,
        dmanifest := (dmanifest st)\<lparr>dmLayers := dmLayers (dmanifest st) @
            [\<lparr>descMediaType = snd mediaTypes, descDigest = blobSum, descSize = blobSize\<rparr>]\<rparr>,
        oimage := (oimage st)\<lparr>oRootFS_DiffIDs := oRootFS_DiffIDs (oimage st) @ [diffID]\<rparr>,
        dimage := (dimage st)\<lparr>dRootFS_DiffIDs := dRootFS_DiffIDs (dimage st) @ [diffID]\<rparr>\<rparr>"

text \<open>
  From the opened stream to the staged blob: the stream goes through the tar filter
  to the compressor and the source hasher; the compressor's output goes to the file
  \<open>layer\<close>, the counter and, when compressing, the destination hasher.  \<open>errChan\<close> is
  \<open>None\<close> when there is no extraction goroutine, else whether it sent an error, which
  replaces the error of the copy.  \<open>closing\<close> is what \<open>rc.Close()\<close> does besides closing
  the stream: every path closes it, the successful one before the rename.
\<close>

definition stageLayer ::
  "Env \<Rightarrow> containerImageRef \<Rightarrow> string \<Rightarrow> string \<times> string \<Rightarrow> ReadCloser \<Rightarrow> bool option \<Rightarrow>
   Event list \<Rightarrow> Locals \<Rightarrow> World \<Rightarrow> Locals Result" where
  "stageLayer env i what mediaTypes rc errChan closing st w =
     (if stagingFault env OpenLayerFile then Fail (OpeningFileFor what) (fold logEvent closing w)
      else
        (case compressStream env (compression i) of
           None \<Rightarrow> Fail (CompressingLayer what)
                    (fold logEvent closing (w\<lparr>staged := (staged w)(''layer'' \<mapsto> [])\<rparr>))
         | Some compress \<Rightarrow>
             (case rc of
                Blocked \<Rightarrow> Hang
              | Stream bs \<Rightarrow>
                  (case tarFilterer env (created i) bs of
                     (copied, filtered, copyOK) \<Rightarrow>
                       (let written = compress filtered;
                            srcDigest = sha256 env filtered;
                            destDigest = (if compression i \<noteq> Uncompressed
                                          then sha256 env written else srcDigest);
                            w1 = fold logEvent closing
                                   (w\<lparr>staged := (staged w)(''layer'' \<mapsto> written)\<rparr>)
                        in if stagingFault env ClosePipe then Fail (StoringOnPipeClose what) w1
                           else if stagingFault env CloseLayerFile
                           then Fail (StoringOnFileClose what) w1
                           else if errChan = Some True then Fail ExtractingContainerRootfs w1
                           else if errChan = None \<and> \<not> copyOK then Fail (StoringToFile what) w1
                           else if compression i = Uncompressed \<and> copied \<noteq> length written
                           then Fail (InconsistentLayerSize what (int copied) (int (length written))) w1
                           else if stagingFault env RenameLayerFile
                           then Fail (RenamingLayer what) w1
                           else Done (appendLayer mediaTypes destDigest (int (length written))
                                        srcDigest st)
                                  (logEvent (EvStage destDigest)
                                     (w1\<lparr>staged := ((staged w1)(''layer'' := None))
                                                      (destDigest \<mapsto> written)\<rparr>)))))))"

text \<open>
  One iteration of the loop over the layers.  The first part finds the layer's
  identifier, uncompressed digest and size; the second is the reuse of a parent
  layer's digest; the rest opens the layer's stream and stages it.
\<close>

definition lookupLayer ::
  "Env \<Rightarrow> containerImageRef \<Rightarrow> string \<Rightarrow> Locals \<Rightarrow> World \<Rightarrow>
   (string \<times> digest \<times> int \<times> Locals) Result" where
  "lookupLayer env i lid st w =
     (if lid \<in> cl_layerID ` set (preLayers i @ postLayers i) then
        (case find (\<lambda>l. cl_layerID l = lid) (preLayers i @ postLayers i) of
           None \<Rightarrow> Fail (Panic ''index out of range'') w
         | Some a \<Rightarrow> Done (lid, cl_uncompressedDigest a, cl_size a, st) w)
      else if lid = synthesizedLayerID then
        (case makeExtraImageContentDiff env i True w of
           Hang \<Rightarrow> Hang
         | Fail e w' \<Rightarrow> Fail UnableToGenerateExtraLayer w'
         | Done (diffFilename, dg, sz) w' \<Rightarrow>
             Done (lid, dg, sz,
                   st\<lparr>extraImageContentDiff := diffFilename,
                      extraImageContentDiffDigest := dg\<rparr>) w')
      else
        (case storeLayer env lid of
           None \<Rightarrow> Fail (UnableToLocateLayer lid) w
         | Some layer \<Rightarrow>
             Done (layer_ID layer, layer_UncompressedDigest layer,
                   layer_UncompressedSize layer, st) w))"

definition openAndStage ::
  "Env \<Rightarrow> containerImageRef \<Rightarrow> string \<Rightarrow> string \<Rightarrow> string \<times> string \<Rightarrow> Locals \<Rightarrow> World \<Rightarrow>
   Locals Result" where
  "openAndStage env i what lid mediaTypes st w =
     (if cwConvert (confidentialWorkload i) then
        (case extractConfidentialWorkloadFS env i w of
           Hang \<Rightarrow> Hang
         | Fail e w' \<Rightarrow> Fail e w'
         | Done rc w' \<Rightarrow>
             stageLayer env i what mediaTypes rc None [EvUnmount (containerID i)] st w')
      else if squash i then
        (case extractRootfs env i w of
           Hang \<Rightarrow> Hang
         | Fail e w' \<Rightarrow> Fail e w'
         | Done (rc, failed) w' \<Rightarrow>
             stageLayer env i what mediaTypes rc (Some failed) [EvUnmount (containerID i)] st w')
      else if lid \<in> cl_layerID ` set (preLayers i @ postLayers i) then
        (case find (\<lambda>l. cl_layerID l = lid) (preLayers i @ postLayers i) of
           None \<Rightarrow> Fail (Panic ''index out of range'') w
         | Some a \<Rightarrow>
             (case files w (llBlobPath (cl_linkedLayer a)) of
                Some (RegularFile bs) \<Rightarrow>
                  stageLayer env i what mediaTypes (Stream bs) None [] st
                    (logEvent (EvOpen (llBlobPath (cl_linkedLayer a))) w)
              | _ \<Rightarrow> Fail (OpeningLayerBlobFor lid)
                       (logEvent (EvOpen (llBlobPath (cl_linkedLayer a))) w)))
      else if lid = synthesizedLayerID then
        (case files w (extraImageContentDiff st) of
           Some (RegularFile bs) \<Rightarrow>
             stageLayer env i what mediaTypes (Stream bs) None [] st
               (logEvent (EvOpen (extraImageContentDiff st)) w)
         | _ \<Rightarrow> Fail OpeningExtraDiff (logEvent (EvOpen (extraImageContentDiff st)) w))
      else if emptyLayer i \<and> lid = layerID i then Done st w
      else
        (case storeDiff env lid of
           None \<Rightarrow> Fail (ExtractingLayer what) (logEvent (EvDiff lid) w)
         | Some bs \<Rightarrow>
             stageLayer env i what mediaTypes (Stream bs) None [] st (logEvent (EvDiff lid) w)))"

definition processLayer ::
  "Env \<Rightarrow> containerImageRef \<Rightarrow> string set \<Rightarrow> string \<Rightarrow> Locals \<Rightarrow> World \<Rightarrow> Locals Result" where
  "processLayer env i parentLayerIDs lid0 st0 w0 =
     (case lookupLayer env i lid0 st0 w0 of
        Hang \<Rightarrow> Hang
      | Fail e w \<Rightarrow> Fail e w
      | Done (lid, layerUncompressedDigest, layerUncompressedSize, st) w \<Rightarrow>
          if \<not> cwConvert (confidentialWorkload i) \<and> \<not> squash i \<and> lid \<in> parentLayerIDs \<and>
             layerUncompressedDigest \<noteq> []
          then Done ((appendLayer (MediaTypeImageLayer, V2S2MediaTypeUncompressedLayer)
                        layerUncompressedDigest layerUncompressedSize layerUncompressedDigest st)
                     \<lparr>blobLayers := (blobLayers st)
                        (layerUncompressedDigest \<mapsto>
                           \<lparr>blID = lid, blSize = layerUncompressedSize\<rparr>)\<rparr>) w
          else
            (case computeLayerMIMEType (whatFor i lid0) (compression i) of
               Inl e \<Rightarrow> Fail e w
             | Inr mediaTypes \<Rightarrow> openAndStage env i (whatFor i lid0) lid mediaTypes st w))"

fun processLayers ::
  "Env \<Rightarrow> containerImageRef \<Rightarrow> string set \<Rightarrow> string list \<Rightarrow> Locals \<Rightarrow> World \<Rightarrow> Locals Result" where
  "processLayers env i parentLayerIDs [] st w = Done st w"
| "processLayers env i parentLayerIDs (lid # rest) st w =
     (case processLayer env i parentLayerIDs lid st w of
        Hang \<Rightarrow> Hang
      | Fail e w' \<Rightarrow> Fail e w'
      | Done st' w' \<Rightarrow> processLayers env i parentLayerIDs rest st' w')"

text \<open>
  \<open>appendHistory\<close>, the closure of \<open>NewImageSource\<close>, on the two configurations; a
  missing timestamp is the zero time in the Docker entry.
\<close>

fun appendHistory :: "History list \<Rightarrow> bool \<Rightarrow> Image \<times> V2Image \<Rightarrow> Image \<times> V2Image" where
  "appendHistory [] emptyFlag (oi, di) = (oi, di)"
| "appendHistory (h # hs) emptyFlag (oi, di) =
     appendHistory hs emptyFlag
       (oi\<lparr>oHistory := oHistory oi @
              [\<lparr>hCreated = hCreated h, hCreatedBy = hCreatedBy h, hAuthor = hAuthor h,
                hComment = hComment h, hEmptyLayer = emptyFlag\<rparr>]\<rparr>,
        di\<lparr>dHistory := dHistory di @
              [\<lparr>dhCreated = (case hCreated h of None \<Rightarrow> 0 | Some t \<Rightarrow> t),
                dhAuthor = hAuthor h, dhCreatedBy = hCreatedBy h,
                dhComment = hComment h, dhEmptyLayer = emptyFlag\<rparr>]\<rparr>)"

definition appendLinkedHistory ::
  "commitLinkedLayerInfo list \<Rightarrow> Image \<times> V2Image \<Rightarrow> Image \<times> V2Image" where
  "appendLinkedHistory ls p =
     fold (\<lambda>h. appendHistory [llHistory (cl_linkedLayer h)]
                  (hEmptyLayer (llHistory (cl_linkedLayer h)))) ls p"

text \<open>\<open>Digest.Encoded\<close> of go-digest: the text after the first \<open>:\<close>; it panics when
  there is none.\<close>

definition Encoded :: "digest \<Rightarrow> error + string" where
  "Encoded d =
     (if CHR '':'' \<in> set d then Inr (tl (dropWhile (\<lambda>c. c \<noteq> CHR '':'') d))
      else Inl (Panic ''no separator in digest''))"

text \<open>The entry for this commit's layer, and the entry for the extra content's layer.\<close>

definition appendCommitEntry ::
  "containerImageRef \<Rightarrow> time \<Rightarrow> Image \<times> V2Image \<Rightarrow> Image \<times> V2Image" where
  "appendCommitEntry i t p =
     (case p of (oi, di) \<Rightarrow>
        (oi\<lparr>oHistory := oHistory oi @
               [\<lparr>hCreated = Some t, hCreatedBy = createdBy i, hAuthor = oAuthor oi,
                 hComment = historyComment i, hEmptyLayer = emptyLayer i\<rparr>]\<rparr>,
         di\<lparr>dHistory := dHistory di @
               [\<lparr>dhCreated = t, dhAuthor = dAuthor di, dhCreatedBy = createdBy i,
                 dhComment = historyComment i, dhEmptyLayer = emptyLayer i\<rparr>]\<rparr>))"

definition extraContentCreatedBy :: "string \<Rightarrow> string" where
  "extraContentCreatedBy hex =
     ''/bin/sh -c #(nop) ADD dir:'' @ hex @ '' in /'' @ [CHR 0x22] @ '',''"

definition appendExtraContentEntry ::
  "Locals \<Rightarrow> time \<Rightarrow> Image \<times> V2Image \<Rightarrow> error + Image \<times> V2Image" where
  "appendExtraContentEntry st t p =
     (if extraImageContentDiff st \<noteq> [] then
        (case Encoded (extraImageContentDiffDigest st) of
           Inl e \<Rightarrow> Inl e
         | Inr hex \<Rightarrow>
             (case p of (oi, di) \<Rightarrow>
                Inr (oi\<lparr>oHistory := oHistory oi @
                           [\<lparr>hCreated = Some t, hCreatedBy = extraContentCreatedBy hex,
                             hAuthor = [], hComment = [], hEmptyLayer = False\<rparr>]\<rparr>,
                     di\<lparr>dHistory := dHistory di @
                           [\<lparr>dhCreated = t, dhAuthor = [],
                             dhCreatedBy = extraContentCreatedBy hex,
                             dhComment = [], dhEmptyLayer = False\<rparr>]\<rparr>)))
      else Inr p)"

text \<open>The comment naming the base image, given the comment it is appended to.\<close>

definition fromCommentFor :: "containerImageRef \<Rightarrow> string \<Rightarrow> string" where
  "fromCommentFor i existing =
     (if strings_Contains (parent i) (fromImageID i) \<and> fromImageName i \<noteq> [] \<and>
         \<not> strings_HasPrefix (fromImageID i) (fromImageName i)
      then (if existing \<noteq> [] then '' '' else []) @ ''FROM '' @ fromImageName i
      else [])"

text \<open>The two assignments to \<open>History[baseImageHistoryLen].Comment\<close>; an index that is
  not in the list is a panic.\<close>

definition attributeBase ::
  "containerImageRef \<Rightarrow> nat \<Rightarrow> Image \<times> V2Image \<Rightarrow> error + Image \<times> V2Image" where
  "attributeBase i baseImageHistoryLen p =
     (case p of (oi, di) \<Rightarrow>
        if length (oHistory oi) \<le> baseImageHistoryLen then Inl (Panic ''index out of range'')
        else
          (let fromComment = fromCommentFor i (hComment (oHistory oi ! baseImageHistoryLen)) in
           if length (dHistory di) \<le> baseImageHistoryLen then Inl (Panic ''index out of range'')
           else
             Inr (oi\<lparr>oHistory := (oHistory oi)[baseImageHistoryLen :=
                        (oHistory oi ! baseImageHistoryLen)
                          \<lparr>hComment := hComment (oHistory oi ! baseImageHistoryLen) @ fromComment\<rparr>]\<rparr>,
                  di\<lparr>dHistory := (dHistory di)[baseImageHistoryLen :=
                        (dHistory di ! baseImageHistoryLen)
                          \<lparr>dhComment := dhComment (dHistory di ! baseImageHistoryLen) @ fromComment\<rparr>]\<rparr>)))"

text \<open>The history entries this commit adds, with the comment naming the base image.\<close>

definition appendCommitHistory ::
  "Env \<Rightarrow> containerImageRef \<Rightarrow> Locals \<Rightarrow> error + Image \<times> V2Image" where
  "appendCommitHistory env i st =
     (let baseImageHistoryLen = length (oHistory (oimage st));
          t = createdOrNow env i AtHistory
      in case appendExtraContentEntry st t
                (appendCommitEntry i t
                   (appendLinkedHistory (preLayers i)
                      (appendHistory (preEmptyLayers i) True (oimage st, dimage st)))) of
           Inl e \<Rightarrow> Inl e
         | Inr p \<Rightarrow>
             attributeBase i baseImageHistoryLen
               (appendLinkedHistory (postLayers i) (appendHistory (postEmptyLayers i) True p)))"

text \<open>The confidence check on the number of diff IDs.\<close>

definition confidenceCheck :: "nat \<Rightarrow> Image \<times> V2Image \<Rightarrow> error + Image \<times> V2Image" where
  "confidenceCheck baseImageHistoryLen p =
     (case p of (oi, di) \<Rightarrow>
        if baseImageHistoryLen \<noteq> 0 then
          (if length (oRootFS_DiffIDs oi) \<noteq> expectedOCIDiffIDs oi
           then Inl (InternalErrorHistory (expectedOCIDiffIDs oi) (length (oRootFS_DiffIDs oi)))
           else if length (dRootFS_DiffIDs di) \<noteq> expectedDockerDiffIDs di
           then Inl (InternalErrorHistory (expectedDockerDiffIDs di) (length (dRootFS_DiffIDs di)))
           else Inr p)
        else Inr p)"

definition buildHistory :: "Env \<Rightarrow> containerImageRef \<Rightarrow> Locals \<Rightarrow> error + Image \<times> V2Image" where
  "buildHistory env i st =
     (if \<not> omitHistory i then
        (case appendCommitHistory env i st of
           Inl e \<Rightarrow> Inl e
         | Inr p \<Rightarrow> confidenceCheck (length (oHistory (oimage st))) p)
      else Inr (oimage st, dimage st))"

text \<open>Encoding the configurations and manifests, and the source that is returned.\<close>

definition encodeOutput ::
  "Env \<Rightarrow> containerImageRef \<Rightarrow> string \<Rightarrow> Locals \<Rightarrow> Image \<times> V2Image \<Rightarrow> error + Output" where
  "encodeOutput env i path st p =
     (case p of (oi, di) \<Rightarrow>
      (case jsonMarshalImage env oi of
         None \<Rightarrow> Inl EncodingJSON
       | Some oconfigbytes \<Rightarrow>
           (let om = (omanifest st)\<lparr>mConfig :=
                        \<lparr>descMediaType = MediaTypeImageConfig,
                         descDigest = sha256 env oconfigbytes,
                         descSize = int (length oconfigbytes)\<rparr>\<rparr>
            in case jsonMarshalManifest env om of
                 None \<Rightarrow> Inl EncodingJSON
               | Some omanifestbytes \<Rightarrow>
                   (case jsonMarshalV2Image env di of
                      None \<Rightarrow> Inl EncodingJSON
                    | Some dconfigbytes \<Rightarrow>
                        (let dm = (dmanifest st)\<lparr>dmConfig :=
                                     \<lparr>descMediaType = DockerV2Schema2ConfigMediaType,
                                      descDigest = sha256 env dconfigbytes,
                                      descSize = int (length dconfigbytes)\<rparr>\<rparr>
                         in case jsonMarshalV2S2Manifest env dm of
                              None \<Rightarrow> Inl EncodingJSON
                            | Some dmanifestbytes \<Rightarrow>
                                (if preferredManifestType i = MediaTypeImageManifest
                                    \<or> preferredManifestType i = DockerV2Schema2MediaType
                                 then
                                   (let cfg = (if preferredManifestType i = MediaTypeImageManifest
                                               then oconfigbytes else dconfigbytes);
                                        mf = (if preferredManifestType i = MediaTypeImageManifest
                                              then omanifestbytes else dmanifestbytes)
                                    in Inr \<lparr>out_src =
                                              \<lparr>src_path = path, src_containerID = containerID i,
                                               src_layerID = layerID i, src_names = names i,
                                               src_config = cfg,
                                               src_configDigest = sha256 env cfg,
                                               src_manifest = mf,
                                               src_manifestType = preferredManifestType i,
                                               src_blobDirectory = blobDirectory i,
                                               src_blobLayers = blobLayers st\<rparr>,
                                            out_oimage = oi, out_omanifest = om,
                                            out_dimage = di, out_dmanifest = dm,
                                            out_oconfig = oconfigbytes,
                                            out_omanifestbytes = omanifestbytes,
                                            out_dconfig = dconfigbytes,
                                            out_dmanifestbytes = dmanifestbytes,
                                            out_extraImageContentDiff = extraImageContentDiff st,
                                            out_extraImageContentDiffDigest =
                                              extraImageContentDiffDigest st\<rparr>)
                                 else Inl (Panic ''unreachable code: unsupported manifest type'')))))))"

text \<open>The deferred removal of the staging directory, when no source is returned.\<close>

definition removeStaging :: "string \<Rightarrow> World \<Rightarrow> World" where
  "removeStaging path w = logEvent (EvRemoveAll path) (w\<lparr>staged := Map.empty\<rparr>)"

definition buildImage ::
  "Env \<Rightarrow> containerImageRef \<Rightarrow> string \<Rightarrow> string set \<Rightarrow> string list \<Rightarrow> World \<Rightarrow> Output Result" where
  "buildImage env i path parentLayerIDs layers w =
     (case createConfigsAndManifests env i of
        Inl e \<Rightarrow> Fail e w
      | Inr (oi, om, di, dm) \<Rightarrow>
          (case processLayers env i parentLayerIDs layers
                  \<lparr>oimage = oi, omanifest = om, dimage = di, dmanifest = dm,
                   blobLayers = Map.empty, extraImageContentDiff = [],
                   extraImageContentDiffDigest = []\<rparr> w of
             Hang \<Rightarrow> Hang
           | Fail e w' \<Rightarrow> Fail e w'
           | Done st w' \<Rightarrow>
               (case buildHistory env i st of
                  Inl e \<Rightarrow> Fail e w'
                | Inr p \<Rightarrow>
                    (case encodeOutput env i path st p of
                       Inl e \<Rightarrow> Fail e w'
                     | Inr out \<Rightarrow> Done out w'))))"

definition NewImageSource :: "Env \<Rightarrow> containerImageRef \<Rightarrow> World \<Rightarrow> Output Result" where
  "NewImageSource env i w =
     (if preferredManifestType i \<noteq> MediaTypeImageManifest \<and>
         preferredManifestType i \<noteq> DockerV2Schema2MediaType
      then Fail (NoSupportedManifestTypes (preferredManifestType i)) w
      else
        (case planParents env i of
           None \<Rightarrow> Hang
         | Some (Inl e) \<Rightarrow> Fail e w
         | Some (Inr (layers, parentLayerIDs)) \<Rightarrow>
             (case osMkdirTemp env (tmpdirGetTempDir env) Package of
                None \<Rightarrow> Fail CreatingTempDir w
              | Some path \<Rightarrow>
                  (case buildImage env i path parentLayerIDs (planLayers i layers)
                          (logEvent (EvMkdirTemp path) (w\<lparr>staged := Map.empty\<rparr>)) of
                     Hang \<Rightarrow> Hang
                   | Fail e w' \<Rightarrow> Fail e (removeStaging path w')
                   | Done out w' \<Rightarrow> Done out w'))))"

section \<open>Making the image reference (image.go)\<close>

text \<open>The options of a commit that \<open>makeContainerImageRef\<close> reads.\<close>

record CommitOptions =
  optPreferredManifestType :: string
  optCompression :: Compression
  optHistoryTimestamp :: "time option"
  optSquash :: bool
  optConfidentialWorkloadOptions :: ConfidentialWorkloadOptions
  optOmitHistory :: bool
  optEmptyLayer :: bool
  optBlobDirectory :: string
  optUnsetEnvs :: "string list"
  optOverrideChanges :: "string list"
  optOverrideConfig :: "DockerConfig option"
  optExtraImageContent :: "(string \<times> string) list"
  optCompatSetParent :: OptionalBool
  optPrependedLinkedLayers :: "LinkedLayer list"
  optAppendedLinkedLayers :: "LinkedLayer list"

text \<open>\<open>strings.Join\<close>, and a number formatted with \<open>%d\<close>.\<close>

fun strings_Join :: "string list \<Rightarrow> string \<Rightarrow> string" where
  "strings_Join [] sep = []"
| "strings_Join [x] sep = x"
| "strings_Join (x # y # ys) sep = x @ sep @ strings_Join (y # ys) sep"

fun decimal :: "nat \<Rightarrow> string" where
  "decimal n =
     (if n < 10 then [''0123456789'' ! n]
      else decimal (n div 10) @ [''0123456789'' ! (n mod 10)])"

declare decimal.simps [simp del]

text \<open>
  \<open>makeLinkedLayerInfos\<close>.  A layer without content is skipped; a directory is
  archived into a temporary file of the container's directory while it is digested
  and counted; any other file is opened, digested and counted.  \<open>n\<close> is the index
  of the layer in the list.
\<close>

fun makeLinkedLayerInfos_loop ::
  "Env \<Rightarrow> Builder \<Rightarrow> string \<Rightarrow> nat \<Rightarrow> LinkedLayer list \<Rightarrow> commitLinkedLayerInfo list \<Rightarrow> World \<Rightarrow>
   commitLinkedLayerInfo list Result" where
  "makeLinkedLayerInfos_loop env b layerType n [] infos w = Done infos w"
| "makeLinkedLayerInfos_loop env b layerType n (layer # rest) infos w =
     (if hEmptyLayer (llHistory layer) \<noteq> (llBlobPath layer = [])
      then Fail (LayerIsEmptyMismatch (hEmptyLayer (llHistory layer)) (llBlobPath layer)) w
      else if hEmptyLayer (llHistory layer)
      then makeLinkedLayerInfos_loop env b layerType (n + 1) rest infos w
      else
        (case files w (llBlobPath layer) of
           None \<Rightarrow> Fail (CheckingLayerContent (llBlobPath layer))
                     (logEvent (EvStat (llBlobPath layer)) w)
         | Some Directory \<Rightarrow>
             (case storeContainerDirectory env (ContainerID b) of
                None \<Rightarrow> Fail (IngestingLayerContent (llBlobPath layer))
                          (logEvent (EvStat (llBlobPath layer)) w)
              | Some cdir \<Rightarrow>
                  (case osCreateTemp env cdir [] of
                     None \<Rightarrow> Fail (IngestingLayerContent (llBlobPath layer))
                               (logEvent (EvStat (llBlobPath layer)) w)
                   | Some f \<Rightarrow>
                       (case chrootarchiveTar env (llBlobPath layer) of
                          None \<Rightarrow> Fail (IngestingLayerContent (llBlobPath layer))
                                    (logEvent (EvArchive (llBlobPath layer))
                                       (logEvent (EvCreateTemp f)
                                          (logEvent (EvStat (llBlobPath layer))
                                             (w\<lparr>files := (files w)(f \<mapsto> RegularFile [])\<rparr>))))
                        | Some tar \<Rightarrow>
                            makeLinkedLayerInfos_loop env b layerType (n + 1) rest
                              (infos @
                                 [\<lparr>cl_layerID = ''('' @ layerType @ '' '' @ decimal (n + 1) @ '')'',
                                   cl_linkedLayer = layer\<lparr>llBlobPath := f\<rparr>,
                                   cl_uncompressedDigest = sha256 env tar,
                                   cl_size = int (length tar)\<rparr>])
                              (logEvent (EvArchive (llBlobPath layer))
                                 (logEvent (EvCreateTemp f)
                                    (logEvent (EvStat (llBlobPath layer))
                                       (w\<lparr>files := (files w)(f \<mapsto> RegularFile tar)\<rparr>)))))))
         | Some (RegularFile bs) \<Rightarrow>
             makeLinkedLayerInfos_loop env b layerType (n + 1) rest
               (infos @
                  [\<lparr>cl_layerID = ''('' @ layerType @ '' '' @ decimal (n + 1) @ '')'',
                    cl_linkedLayer = layer,
                    cl_uncompressedDigest = sha256 env bs,
                    cl_size = int (length bs)\<rparr>])
               (logEvent (EvOpen (llBlobPath layer)) (logEvent (EvStat (llBlobPath layer)) w))))"

definition makeLinkedLayerInfos ::
  "Env \<Rightarrow> Builder \<Rightarrow> LinkedLayer list \<Rightarrow> string \<Rightarrow> World \<Rightarrow> commitLinkedLayerInfo list Result" where
  "makeLinkedLayerInfos env b layers layerType w =
     makeLinkedLayerInfos_loop env b layerType 0 layers [] w"

fun unsetEnvs :: "string list \<Rightarrow> Builder \<Rightarrow> error + Builder" where
  "unsetEnvs [] b = Inr b"
| "unsetEnvs (u # us) b =
     (case UnsetEnv u b of Inl e \<Rightarrow> Inl e | Inr b' \<Rightarrow> unsetEnvs us b')"

text \<open>The description of how the image was built: the one set on the \<open>Builder\<close>, else
  the shell joined with spaces, else \<open>/bin/sh\<close>.\<close>

definition createdByFor :: "Builder \<Rightarrow> error + string" where
  "createdByFor b =
     (if CreatedBy b \<noteq> [] then Inr (CreatedBy b)
      else (case Shell b of
              Inl e \<Rightarrow> Inl e
            | Inr sh \<Rightarrow> Inr (if strings_Join sh '' '' = [] then ''/bin/sh''
                             else strings_Join sh '' '')))"

definition setCreated :: "time option \<Rightarrow> History \<Rightarrow> History" where
  "setCreated t h = h\<lparr>hCreated := t\<rparr>"

definition setLinkedCreated :: "time option \<Rightarrow> commitLinkedLayerInfo \<Rightarrow> commitLinkedLayerInfo" where
  "setLinkedCreated t l =
     l\<lparr>cl_linkedLayer := (cl_linkedLayer l)\<lparr>llHistory := setCreated t (llHistory (cl_linkedLayer l))\<rparr>\<rparr>"

text \<open>
  \<open>makeContainerImageRef\<close>.  \<open>validDigest\<close> is whether \<open>Validate\<close> accepts the digest
  made of the canonical algorithm and the image ID.  The \<open>Builder\<close> is returned as
  well, since \<open>UnsetEnv\<close> changes it.
\<close>

definition makeContainerImageRef ::
  "Env \<Rightarrow> (string \<Rightarrow> bool) \<Rightarrow> Builder \<Rightarrow> CommitOptions \<Rightarrow> World \<Rightarrow>
   (containerImageRef \<times> Builder) Result" where
  "makeContainerImageRef env validDigest b0 options w =
     (if (0 < length (optPrependedLinkedLayers options) \<or>
          0 < length (optAppendedLinkedLayers options)) \<and>
         (cwConvert (optConfidentialWorkloadOptions options) \<or> optSquash options)
      then Fail (ErrorsNew
        ''can't add prebuilt layers and produce an image with only one layer, at the same time'') w
      else
        (case storeContainer env (ContainerID b0) of
           None \<Rightarrow> Fail (LocatingContainer (ContainerID b0)) w
         | Some container \<Rightarrow>
        (case unsetEnvs (optUnsetEnvs options) b0 of
           Inl e \<Rightarrow> Fail e w
         | Inr b \<Rightarrow>
        (case jsonMarshalImage env (OCIv1 b) of
           None \<Rightarrow> Fail EncodingJSON w
         | Some oconfigbytes \<Rightarrow>
        (case jsonMarshalV2Image env (Docker b) of
           None \<Rightarrow> Fail EncodingJSON w
         | Some dconfigbytes \<Rightarrow>
        (case createdByFor b of
           Inl e \<Rightarrow> Fail e w
         | Inr by \<Rightarrow>
        (case makeLinkedLayerInfos env b
                (PrependedLinkedLayers b @ optPrependedLinkedLayers options)
                ''prepended layer'' w of
           Hang \<Rightarrow> Hang
         | Fail e w1 \<Rightarrow> Fail e w1
         | Done preLayerInfos w1 \<Rightarrow>
        (case makeLinkedLayerInfos env b
                (optAppendedLinkedLayers options @ AppendedLinkedLayers b)
                ''appended layer'' w1 of
           Hang \<Rightarrow> Hang
         | Fail e w2 \<Rightarrow> Fail e w2
         | Done postLayerInfos w2 \<Rightarrow>
             (let t = optHistoryTimestamp options;
                  stamp = (\<lambda>hs. if t \<noteq> None then map (setCreated t) hs else hs);
                  stampLinked = (\<lambda>ls. if t \<noteq> None then map (setLinkedCreated t) ls else ls)
              in Done
                (\<lparr>fromImageName = FromImage b,
                  fromImageID = FromImageID b,
                  compression = optCompression options,
                  names = container_Names container,
                  containerID = container_ID container,
                  mountLabel = MountLabel b,
                  layerID = container_LayerID container,
                  oconfig = oconfigbytes,
                  dconfig = dconfigbytes,
                  created = t,
                  createdBy = by,
                  historyComment = HistoryComment b,
                  annotations = ImageAnnotations b,
                  preferredManifestType =
                    (if optPreferredManifestType options = [] then MediaTypeImageManifest
                     else optPreferredManifestType options),
                  squash = optSquash options,
                  confidentialWorkload = optConfidentialWorkloadOptions options,
                  omitHistory = (optOmitHistory options \<or>
                    (FromImageID b \<noteq> [] \<and> \<not> optOmitHistory options \<and>
                     oHistory (OCIv1 b) = [] \<and> oRootFS_DiffIDs (OCIv1 b) \<noteq> [])),
                  emptyLayer = (optEmptyLayer options \<and> \<not> optSquash options \<and>
                    \<not> cwConvert (optConfidentialWorkloadOptions options)),
                  parent = (if FromImageID b \<noteq> [] \<and> validDigest (''sha256:'' @ FromImageID b)
                            then ''sha256:'' @ FromImageID b else []),
                  blobDirectory = optBlobDirectory options,
                  preEmptyLayers = stamp (PrependedEmptyLayers b),
                  preLayers = stampLinked preLayerInfos,
                  postEmptyLayers = stamp (AppendedEmptyLayers b),
                  postLayers = stampLinked postLayerInfos,
                  overrideChanges = optOverrideChanges options,
                  overrideConfig = optOverrideConfig options,
                  extraImageContent = optExtraImageContent options,
                  compatSetParent = optCompatSetParent options\<rparr>, b) w2)))))))))"

text \<open>
  Modelled from the spec: \<open>Commit\<close>, whose source (commit.go) is not among the
  sources.  The spec gives its control flow: the configuration snapshot and the
  ingestion of the linked layers (\<open>makeContainerImageRef\<close>), then the planning,
  materializing and assembling of the image (\<open>NewImageSource\<close> on the reference).
\<close>

definition Commit ::
  "Env \<Rightarrow> (string \<Rightarrow> bool) \<Rightarrow> Builder \<Rightarrow> CommitOptions \<Rightarrow> World \<Rightarrow> Output Result" where
  "Commit env validDigest b options w =
     (case makeContainerImageRef env validDigest b options w of
        Hang \<Rightarrow> Hang
      | Fail e w' \<Rightarrow> Fail e w'
      | Done (ref, b') w' \<Rightarrow> NewImageSource env ref w')"

section \<open>The blob source (image.go, GetBlob)\<close>

text \<open>
  The files \<open>GetBlob\<close> can open: \<open>os.OpenFile(filepath.Join(dir, name))\<close> gives an
  error or a file, whose \<open>Stat\<close> gives an error or its size.  \<open>store.Diff\<close> gives
  an error or the stream's bytes.
\<close>

record BlobWorld =
  bwDiff :: "string \<Rightarrow> bytes option"
  bwOpenFile :: "string \<Rightarrow> string \<Rightarrow> OSError + File"

text \<open>
  The loop over \<open>[]string{i.blobDirectory, i.path}\<close>.  The outer \<open>err\<close> is what
  the last \<open>os.OpenFile\<close> returned (the error of \<open>Stat\<close> is a variable of the
  inner block); a file that opens and whose \<open>Stat\<close> succeeds ends the loop.
\<close>

fun searchBlobDirs ::
  "BlobWorld \<Rightarrow> string \<Rightarrow> string list \<Rightarrow> OSError option \<Rightarrow>
   OSError option \<times> (bytes \<times> int) option" where
  "searchBlobDirs bw name [] err = (err, None)"
| "searchBlobDirs bw name (blobDir # rest) err =
     (case bwOpenFile bw blobDir name of
        Inl e \<Rightarrow> searchBlobDirs bw name rest (Some e)
      | Inr layerFile \<Rightarrow>
          (case fileStat layerFile of
             None \<Rightarrow> searchBlobDirs bw name rest None
           | Some n \<Rightarrow> (None, Some (fileContent layerFile, int n))))"

definition GetBlob ::
  "BlobWorld \<Rightarrow> containerImageSource \<Rightarrow> digest \<Rightarrow> error + (bytes \<times> int)" where
  "GetBlob bw i blobDigest =
     (if blobDigest = src_configDigest i then Inr (src_config i, int (length (src_config i)))
      else
        (case src_blobLayers i blobDigest of
           Some info \<Rightarrow>
             (case bwDiff bw (blID info) of
                None \<Rightarrow> Inl OpeningLayerBlob
              | Some rc \<Rightarrow> if blSize info = -1 then Inl OpeningLayerBlob else Inr (rc, blSize info))
         | None \<Rightarrow>
             (case searchBlobDirs bw blobDigest [src_blobDirectory i, src_path i] None of
                (Some e, _) \<Rightarrow> Inl OpeningLayerBlob
              | (None, None) \<Rightarrow> Inl OpeningLayerBlob
              | (None, Some (rc, sz)) \<Rightarrow>
                  if sz = -1 then Inl OpeningLayerBlob else Inr (rc, sz))))"

section \<open>Concrete inputs\<close>

text \<open>
  A process whose \<open>os.Expand\<close> is only ever applied to strings without \<open>$\<close>, which
  it returns as they are.
\<close>

definition plainRuntime :: Runtime where
  "plainRuntime =
     \<lparr>GOOS = ''linux'', GOARCH = ''amd64'', Separator = ''/'', timeNow = 1700000000,
      osExpand = (\<lambda>s mapping. s)\<rparr>"

text \<open>A \<open>Builder\<close> as \<open>initConfig\<close> loads it from a base image whose command is \<open>/bin/sh\<close>.\<close>

definition loadedBuilder :: Builder where
  "loadedBuilder =
     zeroBuilder\<lparr>Docker :=
       zeroV2Image\<lparr>dConfig := ConfigObject (zeroDockerConfig\<lparr>dcCmd := [''/bin/sh'']\<rparr>)\<rparr>\<rparr>"

text \<open>A blob source with an external blob directory, and a file system in which both the
  external directory and the staging directory hold a file named \<open>sha256:aa\<close>.\<close>

definition cacheSource :: containerImageSource where
  "cacheSource =
     \<lparr>src_path = ''/var/tmp/buildah1'', src_containerID = ''c1'', src_layerID = ''l1'',
      src_names = [], src_config = ''{}'', src_configDigest = ''sha256:cc'',
      src_manifest = ''{}'', src_manifestType = ''application/vnd.oci.image.manifest.v1+json'',
      src_blobDirectory = ''/cache'', src_blobLayers = Map.empty\<rparr>"

definition externalFile :: File where
  "externalFile = \<lparr>fileContent = ''external'', fileStat = Some 8\<rparr>"

definition cacheWorld :: BlobWorld where
  "cacheWorld =
     \<lparr>bwDiff = (\<lambda>_. None),
      bwOpenFile = (\<lambda>d n.
        if n = ''sha256:aa'' \<and> d = ''/cache'' then Inr externalFile
        else if n = ''sha256:aa'' \<and> d = ''/var/tmp/buildah1''
        then Inr \<lparr>fileContent = ''staged'', fileStat = Some 6\<rparr>
        else Inl ErrNotExist)\<rparr>"

text \<open>
  A store with a working container \<open>ctr1\<close> whose layer \<open>top1\<close> lies on the base
  layer \<open>base1\<close>, of known digest and size.  The digester is a stand-in that puts
  the algorithm's name before the bytes it is given, so different bytes have
  different digests; the tar writer, the archivers, the compressor and the JSON
  encoders are stand-ins of the same kind, which keep what they are given visible.
\<close>

definition baseLayer :: Layer where
  "baseLayer = \<lparr>layer_ID = ''base1'', layer_Parent = [],
     layer_UncompressedDigest = ''sha256:b1'', layer_UncompressedSize = 100\<rparr>"

definition topLayer :: Layer where
  "topLayer = \<lparr>layer_ID = ''top1'', layer_Parent = ''base1'',
     layer_UncompressedDigest = [], layer_UncompressedSize = - 1\<rparr>"

definition baseHistory :: History where
  "baseHistory = \<lparr>hCreated = Some 1600000000, hCreatedBy = ''/bin/sh -c #(nop) ADD file:1 in /'',
     hAuthor = [], hComment = [], hEmptyLayer = False\<rparr>"

definition baseOCI :: Image where
  "baseOCI = zeroImage\<lparr>oHistory := [baseHistory]\<rparr>"

definition baseDocker :: V2Image where
  "baseDocker = zeroV2Image\<lparr>dConfig := ConfigObject zeroDockerConfig,
     dHistory := [\<lparr>dhCreated = 1600000000, dhAuthor = [],
                   dhCreatedBy = ''/bin/sh -c #(nop) ADD file:1 in /'',
                   dhComment = [], dhEmptyLayer = False\<rparr>]\<rparr>"

definition demoEnv :: Env where
  "demoEnv =
     \<lparr>storeLayer = (\<lambda>l. if l = ''top1'' then Some topLayer
                         else if l = ''base1'' then Some baseLayer else None),
      storeDiff = (\<lambda>l. if l = ''top1'' then Some ''topdiff'' else None),
      storeContainerDirectory = (\<lambda>c. Some ''/ctr''),
      storeMount = (\<lambda>c. Some ''/mnt''),
      storeContainer = (\<lambda>c. if c = ''ctr1''
         then Some \<lparr>container_ID = ''ctr1'', container_Names = [''work''],
                    container_LayerID = ''top1''\<rparr> else None),
      tmpdirGetTempDir = ''/var/tmp'',
      osMkdirTemp = (\<lambda>d p. Some (d @ ''/'' @ p @ ''1'')),
      osCreateTemp = (\<lambda>d p. Some (d @ ''/'' @ p @ ''2'')),
      copierGet = (\<lambda>m. Some ''rootfs''),
      mkcwArchive = (\<lambda>m img extra. Some ''disk''),
      chrootarchiveTar = (\<lambda>d. Some ''dirtar''),
      sha256 = (\<lambda>bs. ''sha256:'' @ bs),
      compressStream = (\<lambda>c. if c = Uncompressed then Some (\<lambda>bs. bs)
                             else if c = Gzip then Some (\<lambda>bs. ''gz'' @ bs) else None),
      tarFilterer = (\<lambda>t bs. (length bs, bs, True)),
      tarEntry = (\<lambda>name t bs. name @ ''='' @ bs @ '';''),
      tarFooter = ''.'',
      clock = (\<lambda>site. 1700000000),
      jsonUnmarshalImage = (\<lambda>bs. if bs = ''oci'' then Some baseOCI
         else if bs = ''oci2'' then Some (baseOCI\<lparr>oHistory := [baseHistory, baseHistory]\<rparr>)
         else if bs = ''|'' then Some zeroImage else None),
      jsonUnmarshalV2Image = (\<lambda>bs. if bs = ''docker'' then Some baseDocker
         else if bs = ''docker2''
         then Some (baseDocker\<lparr>dHistory := dHistory baseDocker @ dHistory baseDocker\<rparr>)
         else if bs = ''|'' then Some (zeroV2Image\<lparr>dConfig := ConfigObject zeroDockerConfig\<rparr>)
         else None),
      jsonMarshalImage = (\<lambda>img. Some (concat (oRootFS_DiffIDs img) @ ''|'' @
                                          concat (map hCreatedBy (oHistory img)))),
      jsonMarshalV2Image = (\<lambda>img. Some (concat (dRootFS_DiffIDs img) @ ''|'' @
                                            concat (map dhCreatedBy (dHistory img)))),
      jsonMarshalManifest = (\<lambda>m. Some (concat (map descDigest (mLayers m)))),
      jsonMarshalV2S2Manifest = (\<lambda>m. Some (concat (map descDigest (dmLayers m)))),
      configOverride = (\<lambda>dc oc changes ov.
         Some (case dc of None \<Rightarrow> zeroDockerConfig | Some c \<Rightarrow> c, oc)),
      stagingFault = (\<lambda>op. False)\<rparr>"

definition demoWorld :: World where
  "demoWorld =
     \<lparr>files = [''/host/a'' \<mapsto> RegularFile ''A'', ''/host/b'' \<mapsto> RegularFile ''B'',
               ''/layers/l1.tar'' \<mapsto> RegularFile ''L1''],
      staged = Map.empty, trace = []\<rparr>"

definition demoRef :: containerImageRef where
  "demoRef =
     \<lparr>fromImageName = ''example.org/a:1'',
      fromImageID = ''0123456789abcdef0123456789abcdef0123456789abcdef0123456789abcdef'',
      compression = Uncompressed, names = [''work''], containerID = ''ctr1'', mountLabel = [],
      layerID = ''top1'', oconfig = ''oci'', dconfig = ''docker'',
      created = Some 1650000000, createdBy = ''/bin/sh'', historyComment = [],
      annotations = None, preferredManifestType = MediaTypeImageManifest, squash = False,
      confidentialWorkload = \<lparr>cwConvert = False, cwTempDir = []\<rparr>, omitHistory = False,
      emptyLayer = False,
      parent = ''sha256:0123456789abcdef0123456789abcdef0123456789abcdef0123456789abcdef'',
      blobDirectory = [], preEmptyLayers = [], preLayers = [], postEmptyLayers = [],
      postLayers = [], overrideChanges = [], overrideConfig = None, extraImageContent = [],
      compatSetParent = OptionalBoolUndefined\<rparr>"

text \<open>The same reference with extra content, in the two orders in which a map of two
  entries can be visited, and with one entry.\<close>

definition extraRefAB :: containerImageRef where
  "extraRefAB = demoRef\<lparr>extraImageContent := [(''/a'', ''/host/a''), (''/b'', ''/host/b'')]\<rparr>"

definition extraRefBA :: containerImageRef where
  "extraRefBA = demoRef\<lparr>extraImageContent := [(''/b'', ''/host/b''), (''/a'', ''/host/a'')]\<rparr>"

definition extraRefA :: containerImageRef where
  "extraRefA = demoRef\<lparr>extraImageContent := [(''/a'', ''/host/a'')]\<rparr>"

text \<open>A reference whose base image was named by the first characters of its ID.\<close>

definition shortNameRef :: containerImageRef where
  "shortNameRef = demoRef\<lparr>fromImageName := ''0123456789ab''\<rparr>"

text \<open>
  A reference whose base configuration lists two layers in its history while the store
  has one base layer, and a reference with extra content and bzip2 compression.
\<close>

definition inconsistentBaseRef :: containerImageRef where
  "inconsistentBaseRef = demoRef\<lparr>oconfig := ''oci2'', dconfig := ''docker2''\<rparr>"

definition bzip2Ref :: containerImageRef where
  "bzip2Ref = extraRefA\<lparr>compression := Bzip2\<rparr>"

text \<open>A working container made from scratch, commit options with a timestamp, and a
  linked layer whose content is a file.\<close>

definition scratchBuilder :: Builder where
  "scratchBuilder =
     zeroBuilder\<lparr>Docker := zeroV2Image\<lparr>dConfig := AddrOfContainerConfig\<rparr>,
                 ContainerID := ''ctr1''\<rparr>"

definition demoOptions :: CommitOptions where
  "demoOptions =
     \<lparr>optPreferredManifestType = [], optCompression = Uncompressed,
      optHistoryTimestamp = Some 1650000000, optSquash = False,
      optConfidentialWorkloadOptions = \<lparr>cwConvert = False, cwTempDir = []\<rparr>,
      optOmitHistory = False, optEmptyLayer = False, optBlobDirectory = [], optUnsetEnvs = [],
      optOverrideChanges = [], optOverrideConfig = None, optExtraImageContent = [],
      optCompatSetParent = OptionalBoolUndefined, optPrependedLinkedLayers = [],
      optAppendedLinkedLayers = []\<rparr>"

definition linkedLayer1 :: LinkedLayer where
  "linkedLayer1 =
     \<lparr>llHistory = \<lparr>hCreated = None, hCreatedBy = ''ADD layer'', hAuthor = [], hComment = [],
                   hEmptyLayer = False\<rparr>,
      llBlobPath = ''/layers/l1.tar''\<rparr>"

definition validHex :: "string \<Rightarrow> bool" where
  "validHex d \<longleftrightarrow> length d = 71"

text \<open>
  The reference with a history comment of its own; a store in which the diff of the
  container's layer has the digest of its parent layer; and the collaborators of a
  second execution, with another clock and other temporary names.
\<close>

definition commentedRef :: containerImageRef where
  "commentedRef = demoRef\<lparr>historyComment := ''built''\<rparr>"

definition twinDiffEnv :: Env where
  "twinDiffEnv = demoEnv\<lparr>storeDiff := (\<lambda>l. if l = ''top1'' then Some ''b1'' else None)\<rparr>"

definition secondRunEnv :: Env where
  "secondRunEnv =
     demoEnv\<lparr>clock := (\<lambda>site. 1800000000),
             osMkdirTemp := (\<lambda>d p. Some (d @ ''/'' @ p @ ''7'')),
             osCreateTemp := (\<lambda>d p. Some (d @ ''/'' @ p @ ''8''))\<rparr>"

section \<open>Vocabulary of the statements\<close>

text \<open>
  The history entries a commit adds, written out: the entry \<open>appendHistory\<close> makes of
  a given one, the entry for the commit's own layer, the entry for the layer of extra
  content, and the Docker form of an entry.
\<close>

definition ociEntry :: "bool \<Rightarrow> History \<Rightarrow> History" where
  "ociEntry e h =
     \<lparr>hCreated = hCreated h, hCreatedBy = hCreatedBy h, hAuthor = hAuthor h,
      hComment = hComment h, hEmptyLayer = e\<rparr>"

definition dockerEntry :: "bool \<Rightarrow> History \<Rightarrow> V2S2History" where
  "dockerEntry e h =
     \<lparr>dhCreated = (case hCreated h of None \<Rightarrow> 0 | Some t \<Rightarrow> t), dhAuthor = hAuthor h,
      dhCreatedBy = hCreatedBy h, dhComment = hComment h, dhEmptyLayer = e\<rparr>"

definition linkedHistory :: "commitLinkedLayerInfo \<Rightarrow> History" where
  "linkedHistory l = llHistory (cl_linkedLayer l)"

definition commitEntry :: "containerImageRef \<Rightarrow> time \<Rightarrow> string \<Rightarrow> History" where
  "commitEntry i t author =
     \<lparr>hCreated = Some t, hCreatedBy = createdBy i, hAuthor = author,
      hComment = historyComment i, hEmptyLayer = emptyLayer i\<rparr>"

definition extraEntry :: "time \<Rightarrow> string \<Rightarrow> History" where
  "extraEntry t hex =
     \<lparr>hCreated = Some t, hCreatedBy = extraContentCreatedBy hex, hAuthor = [],
      hComment = [], hEmptyLayer = False\<rparr>"

definition entriesBefore :: "containerImageRef \<Rightarrow> History list" where
  "entriesBefore i =
     map (ociEntry True) (preEmptyLayers i) @
     map (\<lambda>l. ociEntry (hEmptyLayer (linkedHistory l)) (linkedHistory l)) (preLayers i)"

definition entriesAfter :: "containerImageRef \<Rightarrow> History list" where
  "entriesAfter i =
     map (ociEntry True) (postEmptyLayers i) @
     map (\<lambda>l. ociEntry (hEmptyLayer (linkedHistory l)) (linkedHistory l)) (postLayers i)"

definition toDocker :: "History \<Rightarrow> V2S2History" where
  "toDocker h = dockerEntry (hEmptyLayer h) h"

definition withFrom :: "containerImageRef \<Rightarrow> History \<Rightarrow> History" where
  "withFrom i h = h\<lparr>hComment := hComment h @ fromCommentFor i (hComment h)\<rparr>"

definition extraEntries :: "string \<Rightarrow> digest \<Rightarrow> time \<Rightarrow> History list" where
  "extraEntries diff dg t =
     (if diff \<noteq> [] then [extraEntry t (tl (dropWhile (\<lambda>c. c \<noteq> CHR '':'') dg))] else [])"

text \<open>The entries a commit adds to the OCI history, before the comment naming the base
  image is appended to the first of them.\<close>

definition newEntries ::
  "Env \<Rightarrow> containerImageRef \<Rightarrow> string \<Rightarrow> digest \<Rightarrow> string \<Rightarrow> History list" where
  "newEntries env i diff dg author =
     entriesBefore i @
     commitEntry i (createdOrNow env i AtHistory) author #
     extraEntries diff dg (createdOrNow env i AtHistory) @
     entriesAfter i"

text \<open>What the loop over the layers leaves alone in the two configurations.\<close>

definition sameHistory :: "Locals \<Rightarrow> Locals \<Rightarrow> bool" where
  "sameHistory st st' \<longleftrightarrow>
     oHistory (oimage st') = oHistory (oimage st) \<and> dHistory (dimage st') = dHistory (dimage st) \<and>
     oAuthor (oimage st') = oAuthor (oimage st) \<and> dAuthor (dimage st') = dAuthor (dimage st)"

text \<open>
  The compressions for which \<open>computeLayerMIMEType\<close> has no media type, and the
  error it returns for them.
\<close>

definition undefinedMediaType :: "Compression \<Rightarrow> bool" where
  "undefinedMediaType c \<longleftrightarrow> c = Bzip2 \<or> c = Xz \<or> c = Zstd"

definition compressionName :: "Compression \<Rightarrow> string" where
  "compressionName c =
     (case c of Bzip2 \<Rightarrow> ''bzip2'' | Xz \<Rightarrow> ''xz'' | Zstd \<Rightarrow> ''zstd'' | Gzip \<Rightarrow> ''gzip''
      | Uncompressed \<Rightarrow> [] | OtherCompression \<Rightarrow> [])"

definition mediaTypeError :: "Compression \<Rightarrow> error" where
  "mediaTypeError c =
     ErrorsNew (''media type for '' @ compressionName c @ ''-compressed layers is not defined'')"

text \<open>
  From one world to a later one: what was logged in between has no \<open>store.Diff\<close> of
  the layer, and a file that is in the staging directory and was not there before was
  put there by the rename of a copied layer's blob.
\<close>

definition noDiffOf :: "string \<Rightarrow> World \<Rightarrow> World \<Rightarrow> bool" where
  "noDiffOf lid w w' \<longleftrightarrow>
     (\<exists>evs. trace w' = trace w @ evs \<and> EvDiff lid \<notin> set evs \<and>
        (\<forall>n. staged w' n \<noteq> None \<longrightarrow> staged w n \<noteq> None \<or> EvStage n \<in> set evs))"

text \<open>
  What the loop does to the variables it assigns to: the lists of layer descriptors and
  of diff IDs only grow at the end, and the index of the reused layers keeps its keys;
  all four lists have a given length.
\<close>

definition grows :: "Locals \<Rightarrow> Locals \<Rightarrow> bool" where
  "grows st st' \<longleftrightarrow>
     prefix (mLayers (omanifest st)) (mLayers (omanifest st')) \<and>
     prefix (dmLayers (dmanifest st)) (dmLayers (dmanifest st')) \<and>
     prefix (oRootFS_DiffIDs (oimage st)) (oRootFS_DiffIDs (oimage st')) \<and>
     prefix (dRootFS_DiffIDs (dimage st)) (dRootFS_DiffIDs (dimage st')) \<and>
     dom (blobLayers st) \<subseteq> dom (blobLayers st')"

definition layerCount :: "Locals \<Rightarrow> nat \<Rightarrow> bool" where
  "layerCount st n \<longleftrightarrow>
     length (mLayers (omanifest st)) = n \<and> length (dmLayers (dmanifest st)) = n \<and>
     length (oRootFS_DiffIDs (oimage st)) = n \<and> length (dRootFS_DiffIDs (dimage st)) = n"

text \<open>
  The list of layers during the walk: parent layers, then the layers it started
  from, then the container's layer.
\<close>

definition planShape :: "string list \<Rightarrow> string \<Rightarrow> string list \<Rightarrow> string set \<Rightarrow> bool" where
  "planShape L0 topID layers ps \<longleftrightarrow>
     (\<exists>P T. layers = P @ L0 @ T \<and> set P \<subseteq> ps \<and> set T \<subseteq> {topID})"

text \<open>
  The name \<open>os.CreateTemp\<close> gives \<open>makeExtraImageContentDiff\<close>, if it gives one.
\<close>

definition extraDiffName :: "Env \<Rightarrow> containerImageRef \<Rightarrow> string option" where
  "extraDiffName env i =
     (case storeContainerDirectory env (containerID i) of
        None \<Rightarrow> None
      | Some cdir \<Rightarrow> osCreateTemp env cdir ''extradiff'')"

text \<open>
  Two executions that started from the files \<open>F0\<close> and write to the temporary files
  \<open>a\<close> and \<open>b\<close>: each still has the files \<open>F0\<close> everywhere else, the two temporary
  files hold the same, and their names are not empty and were not names of files.
  Their variables agree, up to the name of the temporary file.
\<close>

definition sameFiles ::
  "(string \<rightharpoonup> Node) \<Rightarrow> string option \<Rightarrow> string option \<Rightarrow> (string \<rightharpoonup> Node) \<Rightarrow> (string \<rightharpoonup> Node) \<Rightarrow> bool" where
  "sameFiles F0 a b f1 f2 \<longleftrightarrow>
     (\<forall>p. Some p \<noteq> a \<longrightarrow> f1 p = F0 p) \<and> (\<forall>p. Some p \<noteq> b \<longrightarrow> f2 p = F0 p) \<and>
     (\<forall>x y. a = Some x \<longrightarrow> b = Some y \<longrightarrow> f1 x = f2 y) \<and>
     (\<forall>x. a = Some x \<or> b = Some x \<longrightarrow> F0 x = None \<and> x \<noteq> [])"

definition sameLocals :: "string option \<Rightarrow> string option \<Rightarrow> Locals \<Rightarrow> Locals \<Rightarrow> bool" where
  "sameLocals a b st1 st2 \<longleftrightarrow>
     oimage st1 = oimage st2 \<and> omanifest st1 = omanifest st2 \<and>
     dimage st1 = dimage st2 \<and> dmanifest st1 = dmanifest st2 \<and>
     blobLayers st1 = blobLayers st2 \<and>
     extraImageContentDiffDigest st1 = extraImageContentDiffDigest st2 \<and>
     ((extraImageContentDiff st1 = [] \<and> extraImageContentDiff st2 = []) \<or>
      (a = Some (extraImageContentDiff st1) \<and> b = Some (extraImageContentDiff st2)))"

section \<open>Properties of the configuration model\<close>

lemmas cfg_defs = fixupConfig_def Let_def loadConfig_def OS_def SetOS_def Architecture_def
  SetArchitecture_def WorkDir_def SetWorkDir_def onDockerConfig_def onOCIConfig_def storeConfig_def

lemmas zero_defs = zeroBuilder_def zeroImage_def zeroV2Image_def zeroImageConfig_def
  zeroDockerConfig_def

lemma reset_loop_eq:
  "reset_loop expand s k es n v =
     (n @ unset k es, fold (\<lambda>_ w. expand w (getenv s)) es v)"
  by (induction es arbitrary: n v) (simp_all add: unset_def)

text \<open>What \<open>reset\<close> computes: the value is expanded once for every entry of the list.\<close>

lemma reset_eq:
  "reset expand k v s =
     (unset k s @ [k @ ''='' @ fold (\<lambda>_ w. expand w (getenv s)) s v],
      fold (\<lambda>_ w. expand w (getenv s)) s v)"
  by (simp add: reset_def reset_loop_eq)

text \<open>
  C8.  \<open>SetEnv("A", "$B")\<close> on the configuration of a container made from scratch,
  whose two env lists are empty: the loop of \<open>reset\<close> has no iteration, so
  \<open>os.Expand\<close> is never called, and both lists become \<open>["A=$B"]\<close>, whatever
  \<open>os.Expand\<close> computes.  One expansion with the fallback to the variable's name
  would have given \<open>"A=B"\<close>.
\<close>

theorem SetEnv_empty_env_not_expanded:
  "(case fixupConfig rt zeroBuilder of
      Inl e \<Rightarrow> False
    | Inr b0 \<Rightarrow>
        ocEnv (oConfig (OCIv1 b0)) = [] \<and>
        map_option dcEnv (loadConfig (Docker b0)) = Some [] \<and>
        (case SetEnv rt ''A'' ''$B'' b0 of
           Inl e \<Rightarrow> False
         | Inr b1 \<Rightarrow>
             ocEnv (oConfig (OCIv1 b1)) = [''A=$B''] \<and>
             map_option dcEnv (loadConfig (Docker b1)) = Some [''A=$B'']))"
  by (simp add: cfg_defs zero_defs SetEnv_def reset_def)

lemma fixupConfig_total:
  "\<exists>b0. fixupConfig rt b = Inr b0 \<and> dConfig (Docker b0) = AddrOfContainerConfig"
  by (simp add: cfg_defs split: option.splits)

lemma fixupConfig_snapshot:
  "fixupConfig rt b = Inr b0 \<Longrightarrow>
   dContainerConfig (Docker b0) =
     (let c = (case loadConfig (Docker b) of None \<Rightarrow> dContainerConfig (Docker b) | Some c \<Rightarrow> c)
      in if ocWorkingDir (oConfig (OCIv1 b)) = [] then c\<lparr>dcWorkingDir := Separator rt\<rparr> else c)"
  by (auto simp add: cfg_defs split: option.splits if_splits ConfigPtr.splits)

lemma onDockerConfig_alias:
  "dConfig (Docker b) = AddrOfContainerConfig \<Longrightarrow>
   onDockerConfig f b =
     Inr (b\<lparr>Docker := (Docker b)\<lparr>dContainerConfig := f (dContainerConfig (Docker b))\<rparr>\<rparr>)"
  by (simp add: onDockerConfig_def storeConfig_def)

lemma onOCIConfig_Docker [simp]: "Docker (onOCIConfig f b) = Docker b"
  by (simp add: onOCIConfig_def)

lemma applyCall_alias:
  "dConfig (Docker b) = AddrOfContainerConfig \<Longrightarrow>
   \<exists>b'. applyCall rt c b = Inr b' \<and> dConfig (Docker b') = AddrOfContainerConfig"
  by (cases c)
    (simp_all add: onDockerConfig_alias SetOS_def SetArchitecture_def SetMaintainer_def SetUser_def
      ClearOnBuild_def SetOnBuild_def SetWorkDir_def SetShell_def SetEnv_def UnsetEnv_def ClearEnv_def
      SetCmd_def SetEntrypoint_def SetLabel_def UnsetLabel_def ClearLabels_def SetPort_def
      UnsetPort_def ClearPorts_def AddVolume_def RemoveVolume_def ClearVolumes_def SetHostname_def
      SetDomainname_def SetStopSignal_def SetComment_def SetAnnotation_def UnsetAnnotation_def
      ClearAnnotations_def SetCreatedBy_def SetHistoryComment_def SetDefaultMountsFilePath_def
      loadConfig_def split: prod.splits)

lemma applyCalls_alias:
  "dConfig (Docker b) = AddrOfContainerConfig \<Longrightarrow>
   \<exists>b'. applyCalls rt cs b = Inr b' \<and> dConfig (Docker b') = AddrOfContainerConfig"
proof (induction cs arbitrary: b)
  case Nil
  then show ?case by simp
next
  case (Cons c cs)
  from applyCall_alias [OF Cons.prems, of rt c]
  obtain b1 where b1: "applyCall rt c b = Inr b1" "dConfig (Docker b1) = AddrOfContainerConfig"
    by blast
  from Cons.IH [OF b1(2)] b1(1) show ?case by simp
qed

text \<open>
  C9, as the code has it.  \<open>fixupConfig\<close> always returns; afterwards
  \<open>Docker.Config\<close> is the address of \<open>Docker.ContainerConfig\<close>, which holds the
  loaded \<open>Docker.Config\<close> when there was one (its own loaded value otherwise), with
  the working directory defaulted when the OCI one was empty.  Every sequence of
  mutators then returns and leaves \<open>Docker.Config\<close> pointing at
  \<open>Docker.ContainerConfig\<close>: what a mutator writes through \<open>Docker.Config\<close> is
  written into \<open>Docker.ContainerConfig\<close>, and the two read the same.
\<close>

theorem fixupConfig_Config_aliases_ContainerConfig:
  "\<exists>b0. fixupConfig rt b = Inr b0 \<and> dConfig (Docker b0) = AddrOfContainerConfig \<and>
     dContainerConfig (Docker b0) =
       (let c = (case loadConfig (Docker b) of
                   None \<Rightarrow> dContainerConfig (Docker b) | Some c \<Rightarrow> c)
        in if ocWorkingDir (oConfig (OCIv1 b)) = [] then c\<lparr>dcWorkingDir := Separator rt\<rparr> else c) \<and>
     (\<exists>b'. applyCalls rt cs b0 = Inr b' \<and> dConfig (Docker b') = AddrOfContainerConfig \<and>
        loadConfig (Docker b') = Some (dContainerConfig (Docker b')))"
proof -
  obtain b0 where b0: "fixupConfig rt b = Inr b0" "dConfig (Docker b0) = AddrOfContainerConfig"
    using fixupConfig_total by blast
  obtain b' where b': "applyCalls rt cs b0 = Inr b'" "dConfig (Docker b') = AddrOfContainerConfig"
    using applyCalls_alias [OF b0(2)] by blast
  have "loadConfig (Docker b') = Some (dContainerConfig (Docker b'))"
    using b'(2) by (simp add: loadConfig_def)
  with b0 b' fixupConfig_snapshot [OF b0(1)] show ?thesis by simp
qed

theorem fixupConfig_Config_aliases_ContainerConfig_witness:
  "\<exists>b0. fixupConfig plainRuntime loadedBuilder = Inr b0 \<and>
     dConfig (Docker b0) = AddrOfContainerConfig \<and>
     dcCmd (dContainerConfig (Docker b0)) = [''/bin/sh''] \<and>
     (\<exists>b'. applyCalls plainRuntime [CallSetUser ''nobody'', CallSetEnv ''A'' ''1''] b0 = Inr b' \<and>
        loadConfig (Docker b') = Some (dContainerConfig (Docker b')))"
  using fixupConfig_Config_aliases_ContainerConfig
    [of plainRuntime loadedBuilder "[CallSetUser ''nobody'', CallSetEnv ''A'' ''1'']"]
  by (auto simp add: loadedBuilder_def zero_defs loadConfig_def Let_def)

text \<open>
  C9 as stated fails: after \<open>fixupConfig\<close> on a loaded configuration whose command
  is \<open>/bin/sh\<close>, \<open>SetCmd(["/bin/bash"])\<close> changes the command held in
  \<open>Docker.ContainerConfig\<close> too.
\<close>

theorem SetCmd_changes_ContainerConfig:
  "(case fixupConfig plainRuntime loadedBuilder of
      Inl e \<Rightarrow> False
    | Inr b0 \<Rightarrow>
        dcCmd (dContainerConfig (Docker b0)) = [''/bin/sh''] \<and>
        (case SetCmd [''/bin/bash''] b0 of
           Inl e \<Rightarrow> False
         | Inr b1 \<Rightarrow> dcCmd (dContainerConfig (Docker b1)) = [''/bin/bash'']))"
  by (simp add: cfg_defs zero_defs plainRuntime_def loadedBuilder_def SetCmd_def)

section \<open>Properties of the blob source\<close>

text \<open>
  C10.  For a digest that is neither the configuration's nor in the blob-layer index,
  when the external blob directory holds a file of that name (one that opens and
  whose size can be read), \<open>GetBlob\<close> returns that file's bytes and its size,
  whatever the staging directory holds under the same name.
\<close>

theorem GetBlob_prefers_blobDirectory:
  assumes "blobDigest \<noteq> src_configDigest i"
    and "src_blobLayers i blobDigest = None"
    and "bwOpenFile bw (src_blobDirectory i) blobDigest = Inr ext"
    and "fileStat ext = Some n"
  shows "GetBlob bw i blobDigest = Inr (fileContent ext, int n)"
  using assms by (simp add: GetBlob_def)

theorem GetBlob_prefers_blobDirectory_witness:
  "bwOpenFile cacheWorld (src_path cacheSource) ''sha256:aa''
     = Inr \<lparr>fileContent = ''staged'', fileStat = Some 6\<rparr> \<and>
   GetBlob cacheWorld cacheSource ''sha256:aa'' = Inr (''external'', 8)"
  using GetBlob_prefers_blobDirectory [of "''sha256:aa''" cacheSource cacheWorld externalFile 8]
  by (simp add: cacheSource_def cacheWorld_def externalFile_def)

section \<open>Properties of the commit\<close>

lemmas const_defs = MediaTypeImageLayer_def MediaTypeImageLayerGzip_def
  V2S2MediaTypeUncompressedLayer_def DockerV2Schema2LayerMediaType_def MediaTypeImageManifest_def
  MediaTypeImageConfig_def DockerV2Schema2MediaType_def DockerV2Schema2ConfigMediaType_def
  TypeLayers_def Package_def synthesizedLayerID_def

lemmas run_defs = NewImageSource_def buildImage_def planParents_def planLayers_def
  walkLayers.simps createConfigsAndManifests_def processLayer_def lookupLayer_def
  openAndStage_def stageLayer_def appendLayer_def computeLayerMIMEType_def whatFor_def quoted_def
  makeExtraImageContentDiff_def extractRootfs_def extractConfidentialWorkloadFS_def
  createdOrNow_def logEvent_def removeStaging_def buildHistory_def appendCommitHistory_def
  appendLinkedHistory_def appendCommitEntry_def appendExtraContentEntry_def
  extraContentCreatedBy_def Encoded_def fromCommentFor_def attributeBase_def confidenceCheck_def
  expectedOCIDiffIDs_def expectedDockerDiffIDs_def encodeOutput_def loadConfig_def
  storeConfig_def strings_Contains_def strings_HasPrefix_def Let_def

lemmas demo_defs = demoEnv_def demoRef_def demoWorld_def baseLayer_def topLayer_def
  baseHistory_def baseOCI_def baseDocker_def zero_defs

lemmas demo_defs2 = demo_defs extraRefAB_def extraRefBA_def extraRefA_def shortNameRef_def
  scratchBuilder_def demoOptions_def linkedLayer1_def validHex_def

lemmas demo_defs3 = demo_defs2 inconsistentBaseRef_def bzip2Ref_def

lemmas commit_defs = Commit_def makeContainerImageRef_def makeLinkedLayerInfos_def
  createdByFor_def CreatedBy_def Shell_def HistoryComment_def setCreated_def setLinkedCreated_def
  decimal.simps

subsection \<open>The history a commit leaves\<close>

lemma appendHistory_eq:
  "appendHistory hs e (oi, di) =
     (oi\<lparr>oHistory := oHistory oi @ map (ociEntry e) hs\<rparr>,
      di\<lparr>dHistory := dHistory di @ map (dockerEntry e) hs\<rparr>)"
  by (induction hs arbitrary: oi di) (simp_all add: ociEntry_def dockerEntry_def)

lemma toDocker_ociEntry [simp]: "toDocker (ociEntry e h) = dockerEntry e h"
  by (simp add: toDocker_def ociEntry_def dockerEntry_def)

lemma appendLinkedHistory_eq:
  "appendLinkedHistory ls (oi, di) =
     (oi\<lparr>oHistory := oHistory oi @
           map (\<lambda>l. ociEntry (hEmptyLayer (linkedHistory l)) (linkedHistory l)) ls\<rparr>,
      di\<lparr>dHistory := dHistory di @
           map (\<lambda>l. dockerEntry (hEmptyLayer (linkedHistory l)) (linkedHistory l)) ls\<rparr>)"
  unfolding appendLinkedHistory_def
  by (induction ls arbitrary: oi di) (simp_all add: appendHistory_eq linkedHistory_def)

lemma map_toDocker_entries:
  "map toDocker (map (ociEntry e) hs) = map (dockerEntry e) hs"
  "map toDocker (map (\<lambda>l. ociEntry (f l) (g l)) ls) = map (\<lambda>l. dockerEntry (f l) (g l)) ls"
  by simp_all

lemma appendCommitEntry_eq:
  "appendCommitEntry i t (oi, di) =
     (oi\<lparr>oHistory := oHistory oi @ [commitEntry i t (oAuthor oi)]\<rparr>,
      di\<lparr>dHistory := dHistory di @ [toDocker (commitEntry i t (dAuthor di))]\<rparr>)"
  by (simp add: appendCommitEntry_def commitEntry_def toDocker_def dockerEntry_def)

lemma appendExtraContentEntry_eq:
  "appendExtraContentEntry st t (oi, di) = Inr r \<Longrightarrow>
   r = (oi\<lparr>oHistory := oHistory oi @ extraEntries (extraImageContentDiff st) (extraImageContentDiffDigest st) t\<rparr>,
        di\<lparr>dHistory := dHistory di @ map toDocker (extraEntries (extraImageContentDiff st) (extraImageContentDiffDigest st) t)\<rparr>)"
  by (auto simp add: appendExtraContentEntry_def extraEntries_def extraEntry_def Encoded_def
      toDocker_def dockerEntry_def split: if_splits)

lemma toDocker_author:
  "map toDocker (newEntries env i diff dg a) =
     map toDocker (entriesBefore i) @
     toDocker (commitEntry i (createdOrNow env i AtHistory) a) #
     map toDocker (extraEntries diff dg (createdOrNow env i AtHistory)) @
     map toDocker (entriesAfter i)"
  by (simp add: newEntries_def)

lemma beforeAttribution:
  assumes "appendCommitHistory env i st = Inr (oi, di)"
  shows "attributeBase i (length (oHistory (oimage st)))
           ((oimage st)\<lparr>oHistory := oHistory (oimage st) @ newEntries env i (extraImageContentDiff st) (extraImageContentDiffDigest st) (oAuthor (oimage st))\<rparr>,
            (dimage st)\<lparr>dHistory := dHistory (dimage st) @
               map toDocker (newEntries env i (extraImageContentDiff st) (extraImageContentDiffDigest st) (dAuthor (dimage st)))\<rparr>) = Inr (oi, di)"
proof -
  let ?t = "createdOrNow env i AtHistory"
  let ?p = "appendCommitEntry i ?t
              (appendLinkedHistory (preLayers i)
                 (appendHistory (preEmptyLayers i) True (oimage st, dimage st)))"
  have p: "?p = ((oimage st)\<lparr>oHistory := oHistory (oimage st) @ entriesBefore i @
                     [commitEntry i ?t (oAuthor (oimage st))]\<rparr>,
                 (dimage st)\<lparr>dHistory := dHistory (dimage st) @ map toDocker (entriesBefore i) @
                     [toDocker (commitEntry i ?t (dAuthor (dimage st)))]\<rparr>)"
    by (simp add: appendHistory_eq appendLinkedHistory_eq appendCommitEntry_eq entriesBefore_def)
  from assms obtain r where r: "appendExtraContentEntry st ?t ?p = Inr r"
    and a: "attributeBase i (length (oHistory (oimage st)))
              (appendLinkedHistory (postLayers i) (appendHistory (postEmptyLayers i) True r))
            = Inr (oi, di)"
    by (auto simp add: appendCommitHistory_def Let_def split: sum.splits)
  from r have "r = ((oimage st)\<lparr>oHistory := oHistory (oimage st) @ entriesBefore i @
                     [commitEntry i ?t (oAuthor (oimage st))] @ extraEntries (extraImageContentDiff st) (extraImageContentDiffDigest st) ?t\<rparr>,
                 (dimage st)\<lparr>dHistory := dHistory (dimage st) @ map toDocker (entriesBefore i) @
                     [toDocker (commitEntry i ?t (dAuthor (dimage st)))] @
                     map toDocker (extraEntries (extraImageContentDiff st) (extraImageContentDiffDigest st) ?t)\<rparr>)"
    unfolding p by (auto dest!: appendExtraContentEntry_eq)
  with a show ?thesis
    by (simp add: appendHistory_eq appendLinkedHistory_eq newEntries_def entriesAfter_def o_def)
qed

lemma update_first_new:
  "N \<noteq> [] \<Longrightarrow> (H @ N)[length H := f ((H @ N) ! length H)] = H @ f (hd N) # tl N"
  by (cases N) (simp_all add: list_update_append)

lemma newEntries_nonempty: "newEntries env i diff dg a \<noteq> []"
  by (simp add: newEntries_def)

text \<open>The closed form of the history a commit leaves in the two configurations.\<close>

lemma appendCommitHistory_OCI:
  assumes "appendCommitHistory env i st = Inr (oi, di)"
  shows "oHistory oi =
           oHistory (oimage st) @
           withFrom i (hd (newEntries env i (extraImageContentDiff st) (extraImageContentDiffDigest st) (oAuthor (oimage st)))) #
           tl (newEntries env i (extraImageContentDiff st) (extraImageContentDiffDigest st) (oAuthor (oimage st)))"
  using beforeAttribution [OF assms] newEntries_nonempty [of env i "extraImageContentDiff st" "extraImageContentDiffDigest st" "oAuthor (oimage st)"]
  by (auto simp add: attributeBase_def Let_def withFrom_def list_update_append hd_conv_nth
      neq_Nil_conv split: if_splits)

lemma appendCommitHistory_Docker:
  assumes "appendCommitHistory env i st = Inr (oi, di)"
  shows "length (oHistory (oimage st)) <
           length (dHistory (dimage st) @ map toDocker (newEntries env i (extraImageContentDiff st) (extraImageContentDiffDigest st) (dAuthor (dimage st))))"
    and "dHistory di =
           (dHistory (dimage st) @ map toDocker (newEntries env i (extraImageContentDiff st) (extraImageContentDiffDigest st) (dAuthor (dimage st))))
           [length (oHistory (oimage st)) :=
              ((dHistory (dimage st) @ map toDocker (newEntries env i (extraImageContentDiff st) (extraImageContentDiffDigest st) (dAuthor (dimage st))))
                 ! length (oHistory (oimage st)))
              \<lparr>dhComment :=
                 dhComment ((dHistory (dimage st) @
                      map toDocker (newEntries env i (extraImageContentDiff st) (extraImageContentDiffDigest st) (dAuthor (dimage st))))
                    ! length (oHistory (oimage st))) @
                 fromCommentFor i (hComment (hd (newEntries env i (extraImageContentDiff st) (extraImageContentDiffDigest st) (oAuthor (oimage st)))))\<rparr>]"
  using beforeAttribution [OF assms] newEntries_nonempty [of env i "extraImageContentDiff st" "extraImageContentDiffDigest st" "oAuthor (oimage st)"]
  by (auto simp add: attributeBase_def Let_def hd_conv_nth nth_append
      simp del: length_append length_map split: if_splits)

lemma count_fold:
  "fold (\<lambda>h n. if P h then n + 1 else n) xs (k::nat) = k + length (filter P xs)"
  by (induction xs arbitrary: k) simp_all

lemma expectedOCIDiffIDs_eq:
  "expectedOCIDiffIDs img = length (filter (\<lambda>h. \<not> hEmptyLayer h) (oHistory img))"
  by (simp add: expectedOCIDiffIDs_def count_fold)

lemma expectedDockerDiffIDs_eq:
  "expectedDockerDiffIDs img = length (filter (\<lambda>h. \<not> dhEmptyLayer h) (dHistory img))"
  by (simp add: expectedDockerDiffIDs_def count_fold)

lemma sameHistory_refl [simp]: "sameHistory st st"
  by (simp add: sameHistory_def)

lemma sameHistory_trans: "sameHistory a b \<Longrightarrow> sameHistory b c \<Longrightarrow> sameHistory a c"
  by (simp add: sameHistory_def)

lemma sameHistory_appendLayer [simp]: "sameHistory st (appendLayer m b s d st)"
  by (simp add: sameHistory_def appendLayer_def)

lemma stageLayer_sameHistory:
  "stageLayer env i what m rc ec cl st w = Done st' w' \<Longrightarrow> sameHistory st st'"
  by (auto simp add: stageLayer_def Let_def
      split: if_splits option.splits ReadCloser.splits prod.splits)

lemma lookupLayer_sameHistory:
  "lookupLayer env i lid st w = Done (lid', dg, sz, st') w' \<Longrightarrow> sameHistory st st'"
  by (auto simp add: lookupLayer_def sameHistory_def
      split: if_splits option.splits Result.splits prod.splits)

lemma openAndStage_sameHistory:
  "openAndStage env i what lid m st w = Done st' w' \<Longrightarrow> sameHistory st st'"
  by (auto simp add: openAndStage_def
      split: if_splits option.splits Result.splits prod.splits Node.splits
      dest: stageLayer_sameHistory)

lemma processLayer_sameHistory:
  "processLayer env i ps lid st w = Done st' w' \<Longrightarrow> sameHistory st st'"
  by (auto simp add: processLayer_def sameHistory_def appendLayer_def
      split: if_splits Result.splits prod.splits sum.splits
      dest!: lookupLayer_sameHistory openAndStage_sameHistory)

lemma processLayers_sameHistory:
  "processLayers env i ps ls st w = Done st' w' \<Longrightarrow> sameHistory st st'"
proof (induction ls arbitrary: st w)
  case Nil
  then show ?case by simp
next
  case (Cons l ls)
  then show ?case
    by (auto split: Result.splits dest!: processLayer_sameHistory intro: sameHistory_trans)
qed

lemma encodeOutput_fields:
  "encodeOutput env i path st p = Inr out \<Longrightarrow>
     out_oimage out = fst p \<and> out_dimage out = snd p \<and>
     out_extraImageContentDiff out = extraImageContentDiff st \<and>
     out_extraImageContentDiffDigest out = extraImageContentDiffDigest st"
  by (auto simp add: encodeOutput_def Let_def split: option.splits if_splits prod.splits)

text \<open>A run that returns a source went through every stage.\<close>

lemma NewImageSource_Done:
  assumes "NewImageSource env i w = Done out w'"
  obtains layers ps path oi0 om0 di0 dm0 st p where
    "planParents env i = Some (Inr (layers, ps))"
    "osMkdirTemp env (tmpdirGetTempDir env) Package = Some path"
    "createConfigsAndManifests env i = Inr (oi0, om0, di0, dm0)"
    "processLayers env i ps (planLayers i layers)
       \<lparr>oimage = oi0, omanifest = om0, dimage = di0, dmanifest = dm0,
        blobLayers = Map.empty, extraImageContentDiff = [],
        extraImageContentDiffDigest = []\<rparr>
       (logEvent (EvMkdirTemp path) (w\<lparr>staged := Map.empty\<rparr>)) = Done st w'"
    "buildHistory env i st = Inr p"
    "encodeOutput env i path st p = Inr out"
  using assms
  by (auto simp add: NewImageSource_def buildImage_def
      split: if_splits option.splits sum.splits Result.splits prod.splits)

lemma confidenceCheck_Inr:
  "confidenceCheck n p = Inr q \<Longrightarrow> n \<noteq> 0 \<Longrightarrow>
   q = p \<and> length (oRootFS_DiffIDs (fst p)) = expectedOCIDiffIDs (fst p) \<and>
   length (dRootFS_DiffIDs (snd p)) = expectedDockerDiffIDs (snd p)"
  by (auto simp add: confidenceCheck_def split: prod.splits if_splits)

theorem NewImageSource_counts_agree:
  assumes run: "NewImageSource env i w = Done out w'"
    and hist: "\<not> omitHistory i"
    and cfg: "createConfigsAndManifests env i = Inr (oi0, om0, di0, dm0)"
    and base: "oHistory oi0 \<noteq> []"
  shows "length (oRootFS_DiffIDs (out_oimage out)) =
           length (filter (\<lambda>h. \<not> hEmptyLayer h) (oHistory (out_oimage out))) \<and>
         length (dRootFS_DiffIDs (out_dimage out)) =
           length (filter (\<lambda>h. \<not> dhEmptyLayer h) (dHistory (out_dimage out)))"
proof -
  from run obtain layers ps path oi1 om1 di1 dm1 st p where
    cfg1: "createConfigsAndManifests env i = Inr (oi1, om1, di1, dm1)"
    and loop: "processLayers env i ps (planLayers i layers)
       \<lparr>oimage = oi1, omanifest = om1, dimage = di1, dmanifest = dm1,
        blobLayers = Map.empty, extraImageContentDiff = [],
        extraImageContentDiffDigest = []\<rparr>
       (logEvent (EvMkdirTemp path) (w\<lparr>staged := Map.empty\<rparr>)) = Done st w'"
    and h: "buildHistory env i st = Inr p"
    and enc: "encodeOutput env i path st p = Inr out"
    by (rule NewImageSource_Done)
  from cfg cfg1 have "oi1 = oi0" by simp
  with processLayers_sameHistory [OF loop] base have n: "length (oHistory (oimage st)) \<noteq> 0"
    by (simp add: sameHistory_def)
  from h hist obtain p0 where "confidenceCheck (length (oHistory (oimage st))) p0 = Inr p"
    by (auto simp add: buildHistory_def split: sum.splits)
  from confidenceCheck_Inr [OF this n] encodeOutput_fields [OF enc]
  show ?thesis by (simp add: expectedOCIDiffIDs_eq expectedDockerDiffIDs_eq)
qed

lemma buildHistory_append:
  "buildHistory env i st = Inr p \<Longrightarrow> \<not> omitHistory i \<Longrightarrow> appendCommitHistory env i st = Inr p"
  by (auto simp add: buildHistory_def confidenceCheck_def split: sum.splits prod.splits if_splits)

text \<open>The history of a returned source, from the history the base image contributed.\<close>

lemma NewImageSource_history:
  assumes run: "NewImageSource env i w = Done out w'"
    and hist: "\<not> omitHistory i"
    and cfg: "createConfigsAndManifests env i = Inr (oi0, om0, di0, dm0)"
  obtains st where
    "appendCommitHistory env i st = Inr (out_oimage out, out_dimage out)"
    "oHistory (oimage st) = oHistory oi0" "dHistory (dimage st) = dHistory di0"
    "oAuthor (oimage st) = oAuthor oi0" "dAuthor (dimage st) = dAuthor di0"
    "extraImageContentDiff st = out_extraImageContentDiff out"
    "extraImageContentDiffDigest st = out_extraImageContentDiffDigest out"
proof -
  from run obtain layers ps path oi1 om1 di1 dm1 st p where
    cfg1: "createConfigsAndManifests env i = Inr (oi1, om1, di1, dm1)"
    and loop: "processLayers env i ps (planLayers i layers)
       \<lparr>oimage = oi1, omanifest = om1, dimage = di1, dmanifest = dm1,
        blobLayers = Map.empty, extraImageContentDiff = [],
        extraImageContentDiffDigest = []\<rparr>
       (logEvent (EvMkdirTemp path) (w\<lparr>staged := Map.empty\<rparr>)) = Done st w'"
    and h: "buildHistory env i st = Inr p"
    and enc: "encodeOutput env i path st p = Inr out"
    by (rule NewImageSource_Done)
  from cfg cfg1 have eq: "oi1 = oi0" "di1 = di0" by simp_all
  from buildHistory_append [OF h hist] encodeOutput_fields [OF enc]
  have "appendCommitHistory env i st = Inr (out_oimage out, out_dimage out)" by simp
  with that processLayers_sameHistory [OF loop] encodeOutput_fields [OF enc] eq
  show thesis by (simp add: sameHistory_def)
qed

lemma update_comment_first:
  "N \<noteq> [] \<Longrightarrow>
   (D @ N)[length D := ((D @ N) ! length D)\<lparr>dhComment := c ((D @ N) ! length D)\<rparr>] =
     D @ (hd N)\<lparr>dhComment := c (hd N)\<rparr> # tl N"
  by (cases N) (simp_all add: list_update_append)

subsection \<open>Diff IDs and history entries\<close>

text \<open>
  C1.  With history not omitted and a base image that contributed at least one history
  entry: a run of \<open>NewImageSource\<close> that returns a source has, in the OCI and in the
  Docker configuration, as many diff IDs as history entries with \<open>EmptyLayer\<close> false;
  and a run whose layers were all processed and whose history, once assembled,
  disagrees with the diff IDs in either format returns the internal error, after
  removing the staging directory, and no source.
\<close>

theorem NewImageSource_diffIDs_match_history:
  assumes hist: "\<not> omitHistory i"
    and cfg: "createConfigsAndManifests env i = Inr (oi0, om0, di0, dm0)"
    and base: "oHistory oi0 \<noteq> []"
  shows
    "(NewImageSource env i w = Done out w' \<longrightarrow>
        length (oRootFS_DiffIDs (out_oimage out)) =
          length (filter (\<lambda>h. \<not> hEmptyLayer h) (oHistory (out_oimage out))) \<and>
        length (dRootFS_DiffIDs (out_dimage out)) =
          length (filter (\<lambda>h. \<not> dhEmptyLayer h) (dHistory (out_dimage out)))) \<and>
     ((preferredManifestType i = MediaTypeImageManifest \<or>
       preferredManifestType i = DockerV2Schema2MediaType) \<and>
      planParents env i = Some (Inr (layers, ps)) \<and>
      osMkdirTemp env (tmpdirGetTempDir env) Package = Some path \<and>
      processLayers env i ps (planLayers i layers)
        \<lparr>oimage = oi0, omanifest = om0, dimage = di0, dmanifest = dm0,
         blobLayers = Map.empty, extraImageContentDiff = [],
         extraImageContentDiffDigest = []\<rparr>
        (logEvent (EvMkdirTemp path) (w\<lparr>staged := Map.empty\<rparr>)) = Done st w2 \<and>
      appendCommitHistory env i st = Inr (oi, di) \<and>
      (length (oRootFS_DiffIDs oi) \<noteq> length (filter (\<lambda>h. \<not> hEmptyLayer h) (oHistory oi)) \<or>
       length (dRootFS_DiffIDs di) \<noteq> length (filter (\<lambda>h. \<not> dhEmptyLayer h) (dHistory di))) \<longrightarrow>
      (\<exists>n m. NewImageSource env i w = Fail (InternalErrorHistory n m) (removeStaging path w2)))"
proof (intro conjI impI)
  assume "NewImageSource env i w = Done out w'"
  from NewImageSource_counts_agree [OF this hist cfg base]
  show "length (oRootFS_DiffIDs (out_oimage out)) =
          length (filter (\<lambda>h. \<not> hEmptyLayer h) (oHistory (out_oimage out)))"
    and "length (dRootFS_DiffIDs (out_dimage out)) =
          length (filter (\<lambda>h. \<not> dhEmptyLayer h) (dHistory (out_dimage out)))"
    by simp_all
next
  assume a: "(preferredManifestType i = MediaTypeImageManifest \<or>
       preferredManifestType i = DockerV2Schema2MediaType) \<and>
      planParents env i = Some (Inr (layers, ps)) \<and>
      osMkdirTemp env (tmpdirGetTempDir env) Package = Some path \<and>
      processLayers env i ps (planLayers i layers)
        \<lparr>oimage = oi0, omanifest = om0, dimage = di0, dmanifest = dm0,
         blobLayers = Map.empty, extraImageContentDiff = [],
         extraImageContentDiffDigest = []\<rparr>
        (logEvent (EvMkdirTemp path) (w\<lparr>staged := Map.empty\<rparr>)) = Done st w2 \<and>
      appendCommitHistory env i st = Inr (oi, di) \<and>
      (length (oRootFS_DiffIDs oi) \<noteq> length (filter (\<lambda>h. \<not> hEmptyLayer h) (oHistory oi)) \<or>
       length (dRootFS_DiffIDs di) \<noteq> length (filter (\<lambda>h. \<not> dhEmptyLayer h) (dHistory di)))"
  then have loop: "processLayers env i ps (planLayers i layers)
        \<lparr>oimage = oi0, omanifest = om0, dimage = di0, dmanifest = dm0,
         blobLayers = Map.empty, extraImageContentDiff = [],
         extraImageContentDiffDigest = []\<rparr>
        (logEvent (EvMkdirTemp path) (w\<lparr>staged := Map.empty\<rparr>)) = Done st w2" by simp
  from processLayers_sameHistory [OF loop] base have n: "length (oHistory (oimage st)) \<noteq> 0"
    by (simp add: sameHistory_def)
  from a n have "\<exists>n m. buildHistory env i st = Inl (InternalErrorHistory n m)"
    using hist
    by (auto simp add: buildHistory_def confidenceCheck_def expectedOCIDiffIDs_eq
        expectedDockerDiffIDs_eq)
  then obtain n m where "buildHistory env i st = Inl (InternalErrorHistory n m)" by blast
  with a cfg have "NewImageSource env i w = Fail (InternalErrorHistory n m) (removeStaging path w2)"
    by (auto simp add: NewImageSource_def buildImage_def)
  then show "\<exists>n m. NewImageSource env i w = Fail (InternalErrorHistory n m) (removeStaging path w2)"
    by blast
qed

text \<open>
  C1 at concrete inputs: a base layer that is reused and a new top layer under a base
  history of one entry give two diff IDs and two such history entries; a base history
  of two entries over the same single base layer gives the internal error.
\<close>

theorem NewImageSource_diffIDs_match_history_witness:
  "(\<exists>out w'. NewImageSource demoEnv demoRef demoWorld = Done out w' \<and>
      oRootFS_DiffIDs (out_oimage out) = [''sha256:b1'', ''sha256:topdiff''] \<and>
      length (filter (\<lambda>h. \<not> hEmptyLayer h) (oHistory (out_oimage out))) = 2 \<and>
      length (filter (\<lambda>h. \<not> dhEmptyLayer h) (dHistory (out_dimage out))) =
        length (dRootFS_DiffIDs (out_dimage out))) \<and>
   (\<exists>n m w'. NewImageSource demoEnv inconsistentBaseRef demoWorld =
      Fail (InternalErrorHistory n m) w')"
proof -
  have "case createConfigsAndManifests demoEnv demoRef of
          Inr (oi0, om0, di0, dm0) \<Rightarrow> oHistory oi0 \<noteq> [] | _ \<Rightarrow> False"
    by (simp add: run_defs demo_defs3 const_defs)
  then obtain oi0 om0 di0 dm0 where
    cfg: "createConfigsAndManifests demoEnv demoRef = Inr (oi0, om0, di0, dm0)"
    and base: "oHistory oi0 \<noteq> []"
    by (auto split: sum.splits)
  have h: "\<not> omitHistory demoRef" by (simp add: demoRef_def)
  have "case NewImageSource demoEnv demoRef demoWorld of
          Done out w' \<Rightarrow> oRootFS_DiffIDs (out_oimage out) = [''sha256:b1'', ''sha256:topdiff'']
        | _ \<Rightarrow> False"
    by (simp add: run_defs demo_defs3 const_defs sublist_code)
  then obtain out w' where run: "NewImageSource demoEnv demoRef demoWorld = Done out w'"
    and ids: "oRootFS_DiffIDs (out_oimage out) = [''sha256:b1'', ''sha256:topdiff'']"
    by (auto split: Result.splits)
  from NewImageSource_diffIDs_match_history [OF h cfg base, of demoWorld out w', THEN conjunct1] run
  have "length (oRootFS_DiffIDs (out_oimage out)) =
          length (filter (\<lambda>h. \<not> hEmptyLayer h) (oHistory (out_oimage out)))"
    and "length (dRootFS_DiffIDs (out_dimage out)) =
          length (filter (\<lambda>h. \<not> dhEmptyLayer h) (dHistory (out_dimage out)))"
    by simp_all
  with run ids
  have first: "\<exists>out w'. NewImageSource demoEnv demoRef demoWorld = Done out w' \<and>
      oRootFS_DiffIDs (out_oimage out) = [''sha256:b1'', ''sha256:topdiff''] \<and>
      length (filter (\<lambda>h. \<not> hEmptyLayer h) (oHistory (out_oimage out))) = 2 \<and>
      length (filter (\<lambda>h. \<not> dhEmptyLayer h) (dHistory (out_dimage out))) =
        length (dRootFS_DiffIDs (out_dimage out))"
    by simp
  have "case createConfigsAndManifests demoEnv inconsistentBaseRef of
          Inr (oi0, om0, di0, dm0) \<Rightarrow>
            oHistory oi0 \<noteq> [] \<and>
            (case processLayers demoEnv inconsistentBaseRef {''base1''}
                    (planLayers inconsistentBaseRef [''base1'', ''top1''])
                    \<lparr>oimage = oi0, omanifest = om0, dimage = di0, dmanifest = dm0,
                     blobLayers = Map.empty, extraImageContentDiff = [],
                     extraImageContentDiffDigest = []\<rparr>
                    (logEvent (EvMkdirTemp ''/var/tmp/buildah1'')
                       (demoWorld\<lparr>staged := Map.empty\<rparr>)) of
               Done st w2 \<Rightarrow>
                 (case appendCommitHistory demoEnv inconsistentBaseRef st of
                    Inr (oi, di) \<Rightarrow>
                      length (oRootFS_DiffIDs oi) \<noteq>
                        length (filter (\<lambda>h. \<not> hEmptyLayer h) (oHistory oi))
                  | _ \<Rightarrow> False)
             | _ \<Rightarrow> False)
        | _ \<Rightarrow> False"
    by (simp add: run_defs demo_defs3 const_defs sublist_code)
  then obtain oi1 om1 di1 dm1 where
    cfg2: "createConfigsAndManifests demoEnv inconsistentBaseRef = Inr (oi1, om1, di1, dm1)"
    and base2: "oHistory oi1 \<noteq> []"
    and rest: "case processLayers demoEnv inconsistentBaseRef {''base1''}
                    (planLayers inconsistentBaseRef [''base1'', ''top1''])
                    \<lparr>oimage = oi1, omanifest = om1, dimage = di1, dmanifest = dm1,
                     blobLayers = Map.empty, extraImageContentDiff = [],
                     extraImageContentDiffDigest = []\<rparr>
                    (logEvent (EvMkdirTemp ''/var/tmp/buildah1'')
                       (demoWorld\<lparr>staged := Map.empty\<rparr>)) of
               Done st w2 \<Rightarrow>
                 (case appendCommitHistory demoEnv inconsistentBaseRef st of
                    Inr (oi, di) \<Rightarrow>
                      length (oRootFS_DiffIDs oi) \<noteq>
                        length (filter (\<lambda>h. \<not> hEmptyLayer h) (oHistory oi))
                  | _ \<Rightarrow> False)
             | _ \<Rightarrow> False"
    by (auto split: sum.splits)
  from rest obtain st w2 where
    loop: "processLayers demoEnv inconsistentBaseRef {''base1''}
                    (planLayers inconsistentBaseRef [''base1'', ''top1''])
                    \<lparr>oimage = oi1, omanifest = om1, dimage = di1, dmanifest = dm1,
                     blobLayers = Map.empty, extraImageContentDiff = [],
                     extraImageContentDiffDigest = []\<rparr>
                    (logEvent (EvMkdirTemp ''/var/tmp/buildah1'')
                       (demoWorld\<lparr>staged := Map.empty\<rparr>)) = Done st w2"
    and rest2: "case appendCommitHistory demoEnv inconsistentBaseRef st of
                    Inr (oi, di) \<Rightarrow>
                      length (oRootFS_DiffIDs oi) \<noteq>
                        length (filter (\<lambda>h. \<not> hEmptyLayer h) (oHistory oi))
                  | _ \<Rightarrow> False"
    by (cases "processLayers demoEnv inconsistentBaseRef {''base1''}
                    (planLayers inconsistentBaseRef [''base1'', ''top1''])
                    \<lparr>oimage = oi1, omanifest = om1, dimage = di1, dmanifest = dm1,
                     blobLayers = Map.empty, extraImageContentDiff = [],
                     extraImageContentDiffDigest = []\<rparr>
                    (logEvent (EvMkdirTemp ''/var/tmp/buildah1'')
                       (demoWorld\<lparr>staged := Map.empty\<rparr>))") simp_all
  from rest2 obtain oi di where
    app: "appendCommitHistory demoEnv inconsistentBaseRef st = Inr (oi, di)"
    and bad: "length (oRootFS_DiffIDs oi) \<noteq>
                        length (filter (\<lambda>h. \<not> hEmptyLayer h) (oHistory oi))"
    by (cases "appendCommitHistory demoEnv inconsistentBaseRef st") auto
  have h2: "\<not> omitHistory inconsistentBaseRef" by (simp add: demo_defs3)
  have plan: "planParents demoEnv inconsistentBaseRef = Some (Inr ([''base1'', ''top1''], {''base1''}))"
    by (simp add: run_defs demo_defs3 const_defs)
  have tmp: "osMkdirTemp demoEnv (tmpdirGetTempDir demoEnv) Package = Some ''/var/tmp/buildah1''"
    by (simp add: demo_defs3 const_defs)
  have ty: "preferredManifestType inconsistentBaseRef = MediaTypeImageManifest"
    by (simp add: demo_defs3)
  from NewImageSource_diffIDs_match_history [OF h2 cfg2 base2, of demoWorld _ _ "[''base1'', ''top1'']" "{''base1''}"
      "''/var/tmp/buildah1''" st w2 oi di] ty plan tmp loop app bad
  have "\<exists>n m. NewImageSource demoEnv inconsistentBaseRef demoWorld =
      Fail (InternalErrorHistory n m) (removeStaging ''/var/tmp/buildah1'' w2)"
    by blast
  with first show ?thesis by blast
qed

subsection \<open>Compressions without a media type\<close>

lemma computeLayerMIMEType_undefined:
  "undefinedMediaType c \<Longrightarrow> computeLayerMIMEType what c = Inl (mediaTypeError c)"
  by (auto simp add: undefinedMediaType_def computeLayerMIMEType_def mediaTypeError_def
      compressionName_def)

lemma walkLayers_inv:
  assumes "walkLayers lookup topID single lid layer layers ps = Some y"
    and "lookup lid \<noteq> None"
    and "\<forall>p\<in>ps. lookup p \<noteq> None \<and> p \<noteq> topID"
    and "set layers \<subseteq> ps \<union> A \<union> {topID}"
    and "lid = topID \<or> topID \<in> set layers"
  shows "case y of Inl e \<Rightarrow> True
         | Inr (layers', ps') \<Rightarrow>
             (\<forall>p\<in>ps'. lookup p \<noteq> None \<and> p \<noteq> topID) \<and>
             set layers' \<subseteq> ps' \<union> A \<union> {topID} \<and> topID \<in> set layers'"
  using assms
proof (induction lookup topID single lid layer layers ps y rule: walkLayers.raw_induct [rotated, consumes 1])
  case (1 walk lookup topID single lid layer layers ps y)
  show ?case
  proof (cases "layer_Parent layer = [] \<or> single")
    case True
    with 1(2-) show ?thesis by (auto split: if_splits)
  next
    case False
    show ?thesis
    proof (cases "lookup (layer_Parent layer)")
      case None
      with False 1(2) show ?thesis by auto
    next
      case (Some layer')
      with False 1(2) have rec: "walk lookup topID single (layer_Parent layer) layer'
                (if lid = topID then layers @ [lid] else lid # layers)
                (if lid = topID then ps else insert lid ps) = Some y" by simp
      show ?thesis
        by (rule 1(1) [OF rec]) (use Some 1(3-) in \<open>auto split: if_splits\<close>)
    qed
  qed
qed

text \<open>With a compression that has no media type, a layer that the API supplied or that
  the store knows is either reused or refused, and nothing is read or written.\<close>

lemma find_api:
  "lid \<in> cl_layerID ` set ls \<Longrightarrow> \<exists>a. find (\<lambda>l. cl_layerID l = lid) ls = Some a"
  by (cases "find (\<lambda>l. cl_layerID l = lid) ls") (auto simp add: find_None_iff)

lemma lookupLayer_api:
  "lid \<in> cl_layerID ` set (preLayers i @ postLayers i) \<Longrightarrow>
   \<exists>dg sz. lookupLayer env i lid st w = Done (lid, dg, sz, st) w"
proof -
  assume m: "lid \<in> cl_layerID ` set (preLayers i @ postLayers i)"
  from find_api [OF m] obtain a where
    "find (\<lambda>l. cl_layerID l = lid) (preLayers i @ postLayers i) = Some a" by blast
  with m have "lookupLayer env i lid st w =
      Done (lid, cl_uncompressedDigest a, cl_size a, st) w"
    by (simp add: lookupLayer_def del: set_append)
  then show ?thesis by (intro exI)
qed

lemma lookupLayer_store:
  "lid \<notin> cl_layerID ` set (preLayers i @ postLayers i) \<Longrightarrow> lid \<noteq> synthesizedLayerID \<Longrightarrow>
   storeLayer env lid = Some l \<Longrightarrow>
   lookupLayer env i lid st w =
     Done (layer_ID l, layer_UncompressedDigest l, layer_UncompressedSize l, st) w"
  by (simp add: lookupLayer_def del: set_append)

lemma processLayer_after_lookup:
  assumes "lookupLayer env i lid st w = Done (lid', dg, sz, st1) w1"
    and "undefinedMediaType (compression i)"
  shows "processLayer env i ps lid st w = Fail (mediaTypeError (compression i)) w1 \<or>
         (lid' \<in> ps \<and> (\<exists>st'. processLayer env i ps lid st w = Done st' w1))"
  using assms by (simp add: processLayer_def computeLayerMIMEType_undefined)

lemma processLayer_undefined:
  assumes "undefinedMediaType (compression i)"
    and "lid \<in> cl_layerID ` set (preLayers i @ postLayers i) \<or>
         (lid \<noteq> synthesizedLayerID \<and> storeLayer env lid \<noteq> None)"
  shows "processLayer env i ps lid st w = Fail (mediaTypeError (compression i)) w \<or>
         (\<exists>st'. processLayer env i ps lid st w = Done st' w)"
proof (cases "lid \<in> cl_layerID ` set (preLayers i @ postLayers i)")
  case True
  from lookupLayer_api [OF True] obtain dg sz where
    "lookupLayer env i lid st w = Done (lid, dg, sz, st) w" by blast
  from processLayer_after_lookup [OF this assms(1)] show ?thesis by blast
next
  case False
  with assms(2) obtain l where "lid \<noteq> synthesizedLayerID" "storeLayer env lid = Some l" by auto
  from processLayer_after_lookup [OF lookupLayer_store [OF False this] assms(1)]
  show ?thesis by blast
qed

lemma processLayer_undefined_top:
  assumes "undefinedMediaType (compression i)"
    and "lid \<notin> ps"
    and "lid \<in> cl_layerID ` set (preLayers i @ postLayers i) \<or>
         (lid \<noteq> synthesizedLayerID \<and> (\<exists>l. storeLayer env lid = Some l \<and> layer_ID l = lid))"
  shows "processLayer env i ps lid st w = Fail (mediaTypeError (compression i)) w"
proof (cases "lid \<in> cl_layerID ` set (preLayers i @ postLayers i)")
  case True
  from lookupLayer_api [OF True] obtain dg sz where
    "lookupLayer env i lid st w = Done (lid, dg, sz, st) w" by blast
  from processLayer_after_lookup [OF this assms(1)] assms(2) show ?thesis by blast
next
  case False
  with assms(3) obtain l where l: "lid \<noteq> synthesizedLayerID" "storeLayer env lid = Some l"
    and "layer_ID l = lid" by auto
  with processLayer_after_lookup [OF lookupLayer_store [OF False l] assms(1)] assms(2)
  show ?thesis by auto
qed

lemma processLayers_undefined:
  assumes "undefinedMediaType (compression i)"
    and "\<forall>x\<in>set xs. x \<in> cl_layerID ` set (preLayers i @ postLayers i) \<or>
           (x \<noteq> synthesizedLayerID \<and> storeLayer env x \<noteq> None)"
    and "t \<notin> ps"
    and "t \<in> cl_layerID ` set (preLayers i @ postLayers i) \<or>
         (t \<noteq> synthesizedLayerID \<and> (\<exists>l. storeLayer env t = Some l \<and> layer_ID l = t))"
  shows "processLayers env i ps (xs @ t # ys) st w = Fail (mediaTypeError (compression i)) w"
  using assms(2)
proof (induction xs arbitrary: st)
  case Nil
  show ?case by (simp add: processLayer_undefined_top [OF assms(1,3,4)])
next
  case (Cons x xs)
  from Cons.prems have x: "x \<in> cl_layerID ` set (preLayers i @ postLayers i) \<or>
           (x \<noteq> synthesizedLayerID \<and> storeLayer env x \<noteq> None)" by simp
  from Cons.prems have xs: "\<forall>x\<in>set xs. x \<in> cl_layerID ` set (preLayers i @ postLayers i) \<or>
           (x \<noteq> synthesizedLayerID \<and> storeLayer env x \<noteq> None)" by simp
  from processLayer_undefined [OF assms(1) x, of ps st w]
  show ?case
  proof
    assume "processLayer env i ps x st w = Fail (mediaTypeError (compression i)) w"
    then show ?thesis by simp
  next
    assume "\<exists>st'. processLayer env i ps x st w = Done st' w"
    then obtain st' where "processLayer env i ps x st w = Done st' w" by blast
    with Cons.IH [OF xs, of st'] show ?thesis by simp
  qed
qed

text \<open>The plan of a store that has no layer named by the placeholder.\<close>

lemma planParents_shape:
  assumes plan: "planParents env i = Some (Inr (layers, ps))"
    and h1: "storeLayer env synthesizedLayerID = None"
  shows "layerID i \<notin> ps"
    and "\<exists>xs ys. layers = xs @ layerID i # ys \<and>
           (\<forall>x\<in>set xs. x \<in> cl_layerID ` set (preLayers i @ postLayers i) \<or>
              (x \<noteq> synthesizedLayerID \<and> storeLayer env x \<noteq> None))"
    and "storeLayer env (layerID i) \<noteq> None" and "layerID i \<noteq> synthesizedLayerID"
proof -
  from plan obtain layer where top: "storeLayer env (layerID i) = Some layer"
    and walk: "walkLayers (storeLayer env) (layerID i)
            (cwConvert (confidentialWorkload i) \<or> squash i)
            (layerID i) layer (map cl_layerID (preLayers i)) {} = Some (Inr (layers, ps))"
    by (auto simp add: planParents_def split: option.splits)
  from top h1 show "storeLayer env (layerID i) \<noteq> None" "layerID i \<noteq> synthesizedLayerID" by auto
  from walkLayers_inv [OF walk, of "cl_layerID ` set (preLayers i)"] top
  have inv: "\<forall>p\<in>ps. storeLayer env p \<noteq> None \<and> p \<noteq> layerID i"
    "set layers \<subseteq> ps \<union> cl_layerID ` set (preLayers i) \<union> {layerID i}"
    "layerID i \<in> set layers" by auto
  from inv(1) show "layerID i \<notin> ps" by auto
  from split_list_first [OF inv(3)] obtain xs ys where
    l: "layers = xs @ layerID i # ys" "layerID i \<notin> set xs" by blast
  have "\<forall>x\<in>set xs. x \<in> cl_layerID ` set (preLayers i @ postLayers i) \<or>
              (x \<noteq> synthesizedLayerID \<and> storeLayer env x \<noteq> None)"
  proof
    fix x assume x: "x \<in> set xs"
    with l inv(2) have "x \<in> ps \<or> x \<in> cl_layerID ` set (preLayers i)" by auto
    then show "x \<in> cl_layerID ` set (preLayers i @ postLayers i) \<or>
              (x \<noteq> synthesizedLayerID \<and> storeLayer env x \<noteq> None)"
      using inv(1) h1 by auto
  qed
  with l(1) show "\<exists>xs ys. layers = xs @ layerID i # ys \<and>
           (\<forall>x\<in>set xs. x \<in> cl_layerID ` set (preLayers i @ postLayers i) \<or>
              (x \<noteq> synthesizedLayerID \<and> storeLayer env x \<noteq> None))" by blast
qed

text \<open>
  C4, for \<open>NewImageSource\<close>.  With bzip2, xz or zstd compression, on a store that has
  no layer named by the placeholder of the synthesized layer and that returns, for the
  ID of the container's layer, a layer with that ID: \<open>NewImageSource\<close> never returns a
  source; when it fails, the host's files are untouched and the world is unchanged
  but for the creation and removal of the empty staging directory, so no layer stream
  was opened, copied or staged, also when extra content is given; and when the
  manifest type is supported, the walk over the parents returns, the staging directory
  is made and the configurations decode, the error is the one of
  \<open>computeLayerMIMEType\<close>.
\<close>

theorem NewImageSource_undefined_media_type:
  assumes bad: "undefinedMediaType (compression i)"
    and h1: "storeLayer env synthesizedLayerID = None"
    and h2: "\<forall>l. storeLayer env (layerID i) = Some l \<longrightarrow> layer_ID l = layerID i"
  shows
    "(\<forall>out w'. NewImageSource env i w \<noteq> Done out w') \<and>
     (\<forall>e w'. NewImageSource env i w = Fail e w' \<longrightarrow>
        files w' = files w \<and>
        (w' = w \<or> (\<exists>path. trace w' = trace w @ [EvMkdirTemp path, EvRemoveAll path] \<and>
                      staged w' = Map.empty))) \<and>
     ((preferredManifestType i = MediaTypeImageManifest \<or>
       preferredManifestType i = DockerV2Schema2MediaType) \<and>
      planParents env i = Some (Inr (layers, ps)) \<and>
      osMkdirTemp env (tmpdirGetTempDir env) Package = Some path \<and>
      createConfigsAndManifests env i = Inr cfg \<longrightarrow>
      NewImageSource env i w =
        Fail (mediaTypeError (compression i))
          (w\<lparr>staged := Map.empty, trace := trace w @ [EvMkdirTemp path, EvRemoveAll path]\<rparr>))"
proof -
  have loop: "processLayers env i ps' (planLayers i layers') st w1 =
                Fail (mediaTypeError (compression i)) w1"
    if plan: "planParents env i = Some (Inr (layers', ps'))" for layers' ps' st w1
  proof -
    from planParents_shape [OF plan h1] obtain xs ys where
      s: "layerID i \<notin> ps'" "layers' = xs @ layerID i # ys"
      "\<forall>x\<in>set xs. x \<in> cl_layerID ` set (preLayers i @ postLayers i) \<or>
              (x \<noteq> synthesizedLayerID \<and> storeLayer env x \<noteq> None)"
      "storeLayer env (layerID i) \<noteq> None" "layerID i \<noteq> synthesizedLayerID" by blast
    from s(4,5) h2 have t: "layerID i \<in> cl_layerID ` set (preLayers i @ postLayers i) \<or>
         (layerID i \<noteq> synthesizedLayerID \<and>
          (\<exists>l. storeLayer env (layerID i) = Some l \<and> layer_ID l = layerID i))" by auto
    have "planLayers i layers' = xs @ layerID i # (ys @
       (if extraImageContent i \<noteq> [] \<and> \<not> cwConvert (confidentialWorkload i) \<and> \<not> squash i
        then [synthesizedLayerID] else []) @ map cl_layerID (postLayers i))"
      by (simp add: planLayers_def s(2))
    with processLayers_undefined [OF bad s(3) s(1) t] show ?thesis by simp
  qed
  have build: "buildImage env i path' ps' (planLayers i layers') w1 =
      (case createConfigsAndManifests env i of
         Inl e \<Rightarrow> Fail e w1 | Inr c \<Rightarrow> Fail (mediaTypeError (compression i)) w1)"
    if plan: "planParents env i = Some (Inr (layers', ps'))" for layers' ps' path' w1
    by (simp add: buildImage_def loop [OF plan] split: sum.splits prod.splits)
  show ?thesis
  proof (intro conjI allI impI)
    fix out w'
    show "NewImageSource env i w \<noteq> Done out w'"
      by (auto simp add: NewImageSource_def build
          split: option.splits sum.splits prod.splits if_splits)
  next
    fix e w'
    assume "NewImageSource env i w = Fail e w'"
    then show "files w' = files w"
      by (auto simp add: NewImageSource_def build removeStaging_def logEvent_def
          split: option.splits sum.splits prod.splits if_splits)
  next
    fix e w'
    assume "NewImageSource env i w = Fail e w'"
    then show "w' = w \<or> (\<exists>path. trace w' = trace w @ [EvMkdirTemp path, EvRemoveAll path] \<and>
                      staged w' = Map.empty)"
      by (auto simp add: NewImageSource_def build removeStaging_def logEvent_def
          split: option.splits sum.splits prod.splits if_splits)
  next
    assume "(preferredManifestType i = MediaTypeImageManifest \<or>
       preferredManifestType i = DockerV2Schema2MediaType) \<and>
      planParents env i = Some (Inr (layers, ps)) \<and>
      osMkdirTemp env (tmpdirGetTempDir env) Package = Some path \<and>
      createConfigsAndManifests env i = Inr cfg"
    then show "NewImageSource env i w =
        Fail (mediaTypeError (compression i))
          (w\<lparr>staged := Map.empty, trace := trace w @ [EvMkdirTemp path, EvRemoveAll path]\<rparr>)"
      by (auto simp add: NewImageSource_def build removeStaging_def logEvent_def)
  qed
qed

text \<open>
  C4 at a concrete input: bzip2 with extra content, so that a synthesized layer is
  planned.
\<close>

theorem NewImageSource_undefined_media_type_witness:
  "extraImageContent bzip2Ref \<noteq> [] \<and>
   NewImageSource demoEnv bzip2Ref demoWorld =
     Fail (ErrorsNew ''media type for bzip2-compressed layers is not defined'')
       (demoWorld\<lparr>staged := Map.empty,
          trace := [EvMkdirTemp ''/var/tmp/buildah1'', EvRemoveAll ''/var/tmp/buildah1'']\<rparr>)"
proof -
  have bad: "undefinedMediaType (compression bzip2Ref)"
    by (simp add: undefinedMediaType_def demo_defs3)
  have h1: "storeLayer demoEnv synthesizedLayerID = None"
    by (simp add: demo_defs3 const_defs)
  have h2: "\<forall>l. storeLayer demoEnv (layerID bzip2Ref) = Some l \<longrightarrow> layer_ID l = layerID bzip2Ref"
    by (simp add: demo_defs3)
  have plan: "planParents demoEnv bzip2Ref = Some (Inr ([''base1'', ''top1''], {''base1''}))"
    by (simp add: run_defs demo_defs3 const_defs)
  have tmp: "osMkdirTemp demoEnv (tmpdirGetTempDir demoEnv) Package = Some ''/var/tmp/buildah1''"
    by (simp add: demo_defs3 const_defs)
  have ty: "preferredManifestType bzip2Ref = MediaTypeImageManifest"
    by (simp add: demo_defs3)
  have "\<exists>cfg. createConfigsAndManifests demoEnv bzip2Ref = Inr cfg"
    by (simp add: run_defs demo_defs3 const_defs)
  then obtain cfg where cfg: "createConfigsAndManifests demoEnv bzip2Ref = Inr cfg" by blast
  from NewImageSource_undefined_media_type [OF bad h1 h2, of demoWorld "[''base1'', ''top1'']" "{''base1''}"
      "''/var/tmp/buildah1''" cfg] ty plan tmp cfg
  have "NewImageSource demoEnv bzip2Ref demoWorld =
        Fail (mediaTypeError (compression bzip2Ref))
          (demoWorld\<lparr>staged := Map.empty,
             trace := trace demoWorld @
               [EvMkdirTemp ''/var/tmp/buildah1'', EvRemoveAll ''/var/tmp/buildah1'']\<rparr>)"
    by blast
  then show ?thesis
    by (simp add: mediaTypeError_def compressionName_def demo_defs3)
qed

text \<open>
  C4 as stated, for every commit, fails: in a commit with bzip2 compression and a
  prepended linked layer, \<open>makeContainerImageRef\<close> looks at the layer's blob, opens
  it and reads it to digest it, and only then \<open>NewImageSource\<close>, on the reference
  it returned, fails with that error.
\<close>

theorem Commit_reads_linked_layer_first:
  "(case makeContainerImageRef demoEnv validHex scratchBuilder
           (demoOptions\<lparr>optCompression := Bzip2, optPrependedLinkedLayers := [linkedLayer1]\<rparr>)
           demoWorld of
      Done (ref, b) w1 \<Rightarrow>
        compression ref = Bzip2 \<and>
        trace w1 = [EvStat ''/layers/l1.tar'', EvOpen ''/layers/l1.tar''] \<and>
        NewImageSource demoEnv ref w1 =
          Fail (ErrorsNew ''media type for bzip2-compressed layers is not defined'')
            (demoWorld\<lparr>trace := [EvStat ''/layers/l1.tar'', EvOpen ''/layers/l1.tar'',
                                 EvMkdirTemp ''/var/tmp/buildah1'', EvRemoveAll ''/var/tmp/buildah1'']\<rparr>)
    | _ \<Rightarrow> False) \<and>
   Commit demoEnv validHex scratchBuilder
     (demoOptions\<lparr>optCompression := Bzip2, optPrependedLinkedLayers := [linkedLayer1]\<rparr>) demoWorld =
   Fail (ErrorsNew ''media type for bzip2-compressed layers is not defined'')
     (demoWorld\<lparr>trace := [EvStat ''/layers/l1.tar'', EvOpen ''/layers/l1.tar'',
                          EvMkdirTemp ''/var/tmp/buildah1'', EvRemoveAll ''/var/tmp/buildah1'']\<rparr>)"
  by (simp add: commit_defs run_defs demo_defs2 const_defs)

subsection \<open>Linked layers and single-layer images\<close>

text \<open>
  C5.  \<open>makeContainerImageRef\<close> with \<open>Squash\<close> set and one prepended linked layer
  registered on the \<open>Builder\<close> (none in the options): the call returns a reference
  with \<open>squash\<close> set and the layer among its \<open>preLayers\<close>, after opening and
  digesting the layer's blob; the commit that follows stages the whole root file
  system once for the linked layer and once for the container's layer.
\<close>

theorem makeContainerImageRef_builder_layers_with_squash:
  "(case makeContainerImageRef demoEnv validHex
           (scratchBuilder\<lparr>PrependedLinkedLayers := [linkedLayer1]\<rparr>)
           (demoOptions\<lparr>optSquash := True\<rparr>) demoWorld of
      Done (ref, b) w' \<Rightarrow>
        squash ref \<and> map cl_layerID (preLayers ref) = [''(prepended layer 1)''] \<and>
        map cl_uncompressedDigest (preLayers ref) = [''sha256:L1''] \<and>
        trace w' = [EvStat ''/layers/l1.tar'', EvOpen ''/layers/l1.tar'']
    | _ \<Rightarrow> False) \<and>
   (case Commit demoEnv validHex (scratchBuilder\<lparr>PrependedLinkedLayers := [linkedLayer1]\<rparr>)
           (demoOptions\<lparr>optSquash := True\<rparr>) demoWorld of
      Done out w' \<Rightarrow>
        oRootFS_DiffIDs (out_oimage out) = [''sha256:rootfs'', ''sha256:rootfs'']
    | _ \<Rightarrow> False)"
  by (simp add: commit_defs run_defs demo_defs2 const_defs)

subsection \<open>Determinism\<close>

text \<open>With a timestamp override, no stage of the commit reads the clock.\<close>

lemma createdOrNow_clock:
  "created i = Some t \<Longrightarrow> createdOrNow (env\<lparr>clock := c\<rparr>) i site = createdOrNow env i site"
  by (simp add: createdOrNow_def)

lemma writeExtraEntries_clock:
  "writeExtraEntries (env\<lparr>clock := c\<rparr>) t es tw w = writeExtraEntries env t es tw w"
  by (induction env t es tw w rule: writeExtraEntries.induct)
     (simp_all split: option.splits Node.splits)

lemma makeExtraImageContentDiff_clock:
  "created i = Some t \<Longrightarrow>
   makeExtraImageContentDiff (env\<lparr>clock := c\<rparr>) i f w = makeExtraImageContentDiff env i f w"
  by (simp add: makeExtraImageContentDiff_def createdOrNow_clock writeExtraEntries_clock cong: option.case_cong Result.case_cong sum.case_cong prod.case_cong if_cong ReadCloser.case_cong Node.case_cong)

lemma extractRootfs_clock:
  "created i = Some t \<Longrightarrow> extractRootfs (env\<lparr>clock := c\<rparr>) i w = extractRootfs env i w"
  by (simp add: extractRootfs_def makeExtraImageContentDiff_clock cong: option.case_cong Result.case_cong sum.case_cong prod.case_cong if_cong ReadCloser.case_cong Node.case_cong)

lemma extractConfidentialWorkloadFS_clock:
  "extractConfidentialWorkloadFS (env\<lparr>clock := c\<rparr>) i w = extractConfidentialWorkloadFS env i w"
  by (simp add: extractConfidentialWorkloadFS_def cong: option.case_cong Result.case_cong sum.case_cong prod.case_cong if_cong ReadCloser.case_cong Node.case_cong)

lemma createConfigsAndManifests_clock:
  "created i = Some t \<Longrightarrow>
   createConfigsAndManifests (env\<lparr>clock := c\<rparr>) i = createConfigsAndManifests env i"
  by (simp add: createConfigsAndManifests_def createdOrNow_clock cong: option.case_cong Result.case_cong sum.case_cong prod.case_cong if_cong ReadCloser.case_cong Node.case_cong)

lemma stageLayer_clock:
  "stageLayer (env\<lparr>clock := c\<rparr>) i what m rc ec cl st w = stageLayer env i what m rc ec cl st w"
  by (simp add: stageLayer_def cong: option.case_cong Result.case_cong sum.case_cong prod.case_cong if_cong ReadCloser.case_cong Node.case_cong)

lemma lookupLayer_clock:
  "created i = Some t \<Longrightarrow> lookupLayer (env\<lparr>clock := c\<rparr>) i lid st w = lookupLayer env i lid st w"
  by (simp add: lookupLayer_def makeExtraImageContentDiff_clock cong: option.case_cong Result.case_cong sum.case_cong prod.case_cong if_cong ReadCloser.case_cong Node.case_cong)

lemma openAndStage_clock:
  "created i = Some t \<Longrightarrow>
   openAndStage (env\<lparr>clock := c\<rparr>) i what lid m st w = openAndStage env i what lid m st w"
  by (simp add: openAndStage_def extractRootfs_clock extractConfidentialWorkloadFS_clock
      stageLayer_clock cong: option.case_cong Result.case_cong sum.case_cong prod.case_cong if_cong ReadCloser.case_cong Node.case_cong)

lemma processLayer_clock:
  "created i = Some t \<Longrightarrow>
   processLayer (env\<lparr>clock := c\<rparr>) i ps lid st w = processLayer env i ps lid st w"
  by (simp add: processLayer_def lookupLayer_clock openAndStage_clock cong: option.case_cong Result.case_cong sum.case_cong prod.case_cong if_cong ReadCloser.case_cong Node.case_cong)

lemma processLayers_clock:
  "created i = Some t \<Longrightarrow>
   processLayers (env\<lparr>clock := c\<rparr>) i ps ls st w = processLayers env i ps ls st w"
  by (induction ls arbitrary: st w) (simp_all add: processLayer_clock cong: option.case_cong Result.case_cong sum.case_cong prod.case_cong if_cong ReadCloser.case_cong Node.case_cong)

lemma buildHistory_clock:
  "created i = Some t \<Longrightarrow> buildHistory (env\<lparr>clock := c\<rparr>) i st = buildHistory env i st"
  by (simp add: buildHistory_def appendCommitHistory_def createdOrNow_clock cong: option.case_cong Result.case_cong sum.case_cong prod.case_cong if_cong ReadCloser.case_cong Node.case_cong)

lemma encodeOutput_clock:
  "encodeOutput (env\<lparr>clock := c\<rparr>) i path st p = encodeOutput env i path st p"
  by (simp add: encodeOutput_def cong: option.case_cong Result.case_cong sum.case_cong prod.case_cong if_cong ReadCloser.case_cong Node.case_cong)

lemma NewImageSource_clock:
  "created i = Some t \<Longrightarrow> NewImageSource (env\<lparr>clock := c\<rparr>) i w = NewImageSource env i w"
  by (simp add: NewImageSource_def buildImage_def planParents_def
      createConfigsAndManifests_clock processLayers_clock buildHistory_clock encodeOutput_clock
      cong: option.case_cong Result.case_cong sum.case_cong prod.case_cong if_cong ReadCloser.case_cong Node.case_cong)

lemma mset_short:
  "length ys \<le> 1 \<Longrightarrow> mset xs = mset ys \<Longrightarrow> xs = ys"
proof (cases ys)
  case Nil
  assume "mset xs = mset ys"
  with Nil show ?thesis by simp
next
  case (Cons y zs)
  assume "length ys \<le> 1" "mset xs = mset ys"
  with Cons have "zs = []" "mset xs = {#y#}" by simp_all
  with Cons show ?thesis by (simp add: mset_single_iff_right)
qed

subsection \<open>The comment naming the base image\<close>

lemma newEntries_comments:
  "map hComment (newEntries env i diff dg a) = map hComment (newEntries env i diff dg b)"
  by (simp add: newEntries_def commitEntry_def)

lemma hd_newEntries_comment:
  "dhComment (hd (map toDocker (newEntries env i diff dg b))) =
   hComment (hd (newEntries env i diff dg a))"
proof -
  have n: "newEntries env i diff dg a \<noteq> []" "newEntries env i diff dg b \<noteq> []"
    by (rule newEntries_nonempty)+
  have "hComment (hd (newEntries env i diff dg b)) = hd (map hComment (newEntries env i diff dg b))"
    using n by (simp add: hd_map)
  also have "\<dots> = hd (map hComment (newEntries env i diff dg a))"
    by (simp only: newEntries_comments [of env i diff dg b a])
  also have "\<dots> = hComment (hd (newEntries env i diff dg a))"
    using n by (simp add: hd_map)
  finally show ?thesis using n by (simp add: hd_map toDocker_def dockerEntry_def)
qed

text \<open>
  C6, with the condition the code tests, for a base image whose two configurations
  list the same number of history entries.  In a run that returns a source with
  history not omitted, let \<open>N\<close> be the entries this commit added.  The OCI history is
  the base image's history, then the first entry of \<open>N\<close> with \<open>fromComment\<close> of its
  comment appended to its comment, then the rest of \<open>N\<close> unchanged.  \<open>fromComment\<close> of
  a comment is \<open>FROM\<close> and the base image's name, after a space when that comment is
  not empty, when \<open>parent\<close> contains the base image's ID, the name is not empty and the
  name is not a prefix of the ID (\<open>strings.HasPrefix(i.fromImageID, i.fromImageName)\<close>
  is false); it is empty otherwise.  When the Docker base history is as long as the OCI
  one, the Docker history is the base's, then the Docker form of the first added entry
  with \<open>fromComment\<close> of its comment appended, then the Docker forms of the others
  unchanged.
\<close>

theorem NewImageSource_FROM_comment:
  assumes run: "NewImageSource env i w = Done out w'"
    and hist: "\<not> omitHistory i"
    and cfg: "createConfigsAndManifests env i = Inr (oi0, om0, di0, dm0)"
  shows
    "let N = newEntries env i (out_extraImageContentDiff out)
               (out_extraImageContentDiffDigest out) (oAuthor oi0);
         DN = map toDocker (newEntries env i (out_extraImageContentDiff out)
               (out_extraImageContentDiffDigest out) (dAuthor di0));
         fromComment = (\<lambda>existing.
           if strings_Contains (parent i) (fromImageID i) \<and> fromImageName i \<noteq> [] \<and>
              \<not> strings_HasPrefix (fromImageID i) (fromImageName i)
           then (if existing \<noteq> [] then '' '' else []) @ ''FROM '' @ fromImageName i
           else [])
     in oHistory (out_oimage out) =
          oHistory oi0 @ (hd N)\<lparr>hComment := hComment (hd N) @ fromComment (hComment (hd N))\<rparr> # tl N \<and>
        (length (dHistory di0) = length (oHistory oi0) \<longrightarrow>
           dHistory (out_dimage out) =
             dHistory di0 @
             (hd DN)\<lparr>dhComment := dhComment (hd DN) @ fromComment (dhComment (hd DN))\<rparr> # tl DN)"
proof -
  from run hist cfg obtain st where
    a: "appendCommitHistory env i st = Inr (out_oimage out, out_dimage out)"
    and s: "oHistory (oimage st) = oHistory oi0" "dHistory (dimage st) = dHistory di0"
      "oAuthor (oimage st) = oAuthor oi0" "dAuthor (dimage st) = dAuthor di0"
      "extraImageContentDiff st = out_extraImageContentDiff out"
      "extraImageContentDiffDigest st = out_extraImageContentDiffDigest out"
    by (rule NewImageSource_history)
  let ?N = "newEntries env i (out_extraImageContentDiff out)
               (out_extraImageContentDiffDigest out) (oAuthor oi0)"
  let ?DN = "map toDocker (newEntries env i (out_extraImageContentDiff out)
               (out_extraImageContentDiffDigest out) (dAuthor di0))"
  have dn: "?DN \<noteq> []" by (simp add: newEntries_nonempty)
  have c: "dhComment (hd ?DN) = hComment (hd ?N)" by (rule hd_newEntries_comment)
  have o: "oHistory (out_oimage out) = oHistory oi0 @ withFrom i (hd ?N) # tl ?N"
    using appendCommitHistory_OCI [OF a] by (simp only: s)
  have d2: "dHistory (out_dimage out) =
          (dHistory di0 @ ?DN)[length (oHistory oi0) :=
             ((dHistory di0 @ ?DN) ! length (oHistory oi0))
               \<lparr>dhComment := dhComment ((dHistory di0 @ ?DN) ! length (oHistory oi0)) @
                  fromCommentFor i (hComment (hd ?N))\<rparr>]"
    using appendCommitHistory_Docker(2) [OF a] by (simp only: s)
  have d3: "dHistory (out_dimage out) =
             dHistory di0 @ (hd ?DN)\<lparr>dhComment := dhComment (hd ?DN) @
                fromCommentFor i (hComment (hd ?N))\<rparr> # tl ?DN"
    if "length (dHistory di0) = length (oHistory oi0)"
    unfolding d2 that [symmetric]
    using update_comment_first [OF dn, of "dHistory di0"
        "\<lambda>h. dhComment h @ fromCommentFor i (hComment (hd ?N))"] by simp
  have d4: "dHistory (out_dimage out) =
             dHistory di0 @ (hd ?DN)\<lparr>dhComment := dhComment (hd ?DN) @
                fromCommentFor i (dhComment (hd ?DN))\<rparr> # tl ?DN"
    if "length (dHistory di0) = length (oHistory oi0)"
    using d3 [OF that] by (simp only: c)
  show ?thesis
    unfolding Let_def using o d4
    by (simp only: withFrom_def fromCommentFor_def) simp
qed

text \<open>
  C6 at a concrete input: a base image named \<open>example.org/a:1\<close> and a commit with
  the history comment \<open>built\<close>.
\<close>

theorem NewImageSource_FROM_comment_witness:
  "(case NewImageSource demoEnv commentedRef demoWorld of
      Done out w' \<Rightarrow>
        map hComment (oHistory (out_oimage out)) = [[], ''built FROM example.org/a:1''] \<and>
        map dhComment (dHistory (out_dimage out)) = [[], ''built FROM example.org/a:1'']
    | _ \<Rightarrow> False)"
proof -
  have "case createConfigsAndManifests demoEnv commentedRef of
          Inr (oi0, om0, di0, dm0) \<Rightarrow>
            oHistory oi0 = [baseHistory] \<and> length (dHistory di0) = 1 \<and>
            map dhComment (dHistory di0) = [[]] \<and> oAuthor oi0 = [] \<and> dAuthor di0 = []
        | _ \<Rightarrow> False"
    by (simp add: run_defs demo_defs3 commentedRef_def const_defs)
  then obtain oi0 om0 di0 dm0 where
    cfg: "createConfigsAndManifests demoEnv commentedRef = Inr (oi0, om0, di0, dm0)"
    and base: "oHistory oi0 = [baseHistory]" "length (dHistory di0) = 1"
      "map dhComment (dHistory di0) = [[]]" "oAuthor oi0 = []" "dAuthor di0 = []"
    by (auto split: sum.splits)
  have h: "\<not> omitHistory commentedRef" by (simp add: demoRef_def commentedRef_def)
  have "case NewImageSource demoEnv commentedRef demoWorld of
          Done out w' \<Rightarrow> out_extraImageContentDiff out = [] | _ \<Rightarrow> False"
    by (simp add: run_defs demo_defs3 commentedRef_def const_defs sublist_code)
  then obtain out w' where run: "NewImageSource demoEnv commentedRef demoWorld = Done out w'"
    and diff: "out_extraImageContentDiff out = []"
    by (auto split: Result.splits)
  have ref: "preEmptyLayers commentedRef = []" "preLayers commentedRef = []"
    "postEmptyLayers commentedRef = []" "postLayers commentedRef = []" "historyComment commentedRef = ''built''"
    "fromImageName commentedRef = ''example.org/a:1''"
    "strings_Contains (parent commentedRef) (fromImageID commentedRef)"
    "\<not> strings_HasPrefix (fromImageID commentedRef) ''example.org/a:1''"
    by (simp_all add: demoRef_def commentedRef_def strings_Contains_def strings_HasPrefix_def sublist_code)
  have N: "newEntries demoEnv commentedRef (out_extraImageContentDiff out)
             (out_extraImageContentDiffDigest out) a =
           [commitEntry commentedRef (createdOrNow demoEnv commentedRef AtHistory) a]" for a
    by (simp add: newEntries_def entriesBefore_def entriesAfter_def extraEntries_def ref diff)
  note c6 = NewImageSource_FROM_comment [OF run h cfg, unfolded Let_def]
  from c6 [THEN conjunct1]
  have "oHistory (out_oimage out) =
          oHistory oi0 @
          [(commitEntry commentedRef (createdOrNow demoEnv commentedRef AtHistory) (oAuthor oi0))
             \<lparr>hComment := ''built FROM example.org/a:1''\<rparr>]"
    by (simp add: N ref commitEntry_def)
  moreover from c6 [THEN conjunct2]
  have "dHistory (out_dimage out) =
          dHistory di0 @
          [(toDocker (commitEntry commentedRef (createdOrNow demoEnv commentedRef AtHistory) (dAuthor di0)))
             \<lparr>dhComment := ''built FROM example.org/a:1''\<rparr>]"
    by (simp add: N base(1,2) ref commitEntry_def toDocker_def dockerEntry_def)
  ultimately have "map hComment (oHistory (out_oimage out)) = [[], ''built FROM example.org/a:1''] \<and>
        map dhComment (dHistory (out_dimage out)) = [[], ''built FROM example.org/a:1'']"
    by (simp add: base baseHistory_def)
  with run show ?thesis by simp
qed

text \<open>
  C6 as stated fails: for a base image named by the first twelve characters of its ID,
  \<open>parent\<close> contains the ID, the name is not empty and the ID is not a prefix of the
  name, yet no comment is appended in either format, since the name is a prefix of the
  ID.
\<close>

theorem FROM_comment_short_name:
  "strings_Contains (parent shortNameRef) (fromImageID shortNameRef) \<and>
   fromImageName shortNameRef \<noteq> [] \<and>
   \<not> prefix (fromImageID shortNameRef) (fromImageName shortNameRef) \<and>
   (case NewImageSource demoEnv shortNameRef demoWorld of
      Done out w' \<Rightarrow>
        map hComment (oHistory (out_oimage out)) = [[], []] \<and>
        map dhComment (dHistory (out_dimage out)) = [[], []]
    | _ \<Rightarrow> False)"
  by (simp add: run_defs demo_defs3 const_defs sublist_code)

subsection \<open>The history entry of the extra content\<close>

lemma appendCommitHistory_Encoded:
  "appendCommitHistory env i st = Inr p \<Longrightarrow> extraImageContentDiff st \<noteq> [] \<Longrightarrow>
   Encoded (extraImageContentDiffDigest st) =
     Inr (tl (dropWhile (\<lambda>c. c \<noteq> CHR '':'') (extraImageContentDiffDigest st)))"
  by (auto simp add: appendCommitHistory_def appendExtraContentEntry_def Let_def Encoded_def
      split: sum.splits if_splits)

lemma length_entriesBefore [simp]:
  "length (entriesBefore i) = length (preEmptyLayers i) + length (preLayers i)"
  by (simp add: entriesBefore_def)

lemma length_entriesAfter [simp]:
  "length (entriesAfter i) = length (postEmptyLayers i) + length (postLayers i)"
  by (simp add: entriesAfter_def)

lemma hd_tl_update:
  "N \<noteq> [] \<Longrightarrow> f (hd N) # tl N = N[0 := f (N ! 0)]"
  by (cases N) simp_all

lemma createdBy_update [simp]:
  "j < length xs \<Longrightarrow> hCreatedBy (xs[n := (xs ! n)\<lparr>hComment := c\<rparr>] ! j) = hCreatedBy (xs ! j)"
  "j < length xs \<Longrightarrow> hEmptyLayer (xs[n := (xs ! n)\<lparr>hComment := c\<rparr>] ! j) = hEmptyLayer (xs ! j)"
  by (cases "j = n"; simp)+

lemma dcreatedBy_update [simp]:
  "j < length ys \<Longrightarrow> dhCreatedBy (ys[n := (ys ! n)\<lparr>dhComment := c\<rparr>] ! j) = dhCreatedBy (ys ! j)"
  "j < length ys \<Longrightarrow> dhEmptyLayer (ys[n := (ys ! n)\<lparr>dhComment := c\<rparr>] ! j) = dhEmptyLayer (ys ! j)"
  by (cases "j = n"; simp)+

lemma newEntries_nth:
  "newEntries env i diff dg a ! (length (preEmptyLayers i) + length (preLayers i)) =
     commitEntry i (createdOrNow env i AtHistory) a"
  "diff \<noteq> [] \<Longrightarrow>
   newEntries env i diff dg a ! Suc (length (preEmptyLayers i) + length (preLayers i)) =
     extraEntry (createdOrNow env i AtHistory) (tl (dropWhile (\<lambda>c. c \<noteq> CHR '':'') dg))"
  "length (newEntries env i diff dg a) =
     length (preEmptyLayers i) + length (preLayers i) + 1 + (if diff \<noteq> [] then 1 else 0) +
     length (postEmptyLayers i) + length (postLayers i)"
  by (simp_all add: newEntries_def nth_append extraEntries_def
      length_entriesBefore [symmetric] del: length_entriesBefore)

text \<open>Once the diff of the extra content has a name, the loop keeps a name.\<close>

lemma stageLayer_diff:
  "stageLayer env i what m rc ec cl st w = Done st' w' \<Longrightarrow>
   extraImageContentDiff st' = extraImageContentDiff st"
  by (auto simp add: stageLayer_def appendLayer_def Let_def
      split: if_splits option.splits ReadCloser.splits prod.splits)

lemma openAndStage_diff:
  "openAndStage env i what lid m st w = Done st' w' \<Longrightarrow>
   extraImageContentDiff st' = extraImageContentDiff st"
  by (auto simp add: openAndStage_def
      split: if_splits option.splits Result.splits prod.splits Node.splits
      dest: stageLayer_diff)

lemma makeExtraImageContentDiff_name:
  "makeExtraImageContentDiff env i f w = Done (name, dg, sz) w' \<Longrightarrow>
   \<exists>d p. osCreateTemp env d p = Some name"
  by (auto simp add: makeExtraImageContentDiff_def
      split: option.splits Result.splits if_splits)

lemma lookupLayer_diff:
  assumes "lookupLayer env i lid st w = Done (lid', dg, sz, st') w'"
    and "\<forall>d p n. osCreateTemp env d p = Some n \<longrightarrow> n \<noteq> []"
  shows "extraImageContentDiff st \<noteq> [] \<longrightarrow> extraImageContentDiff st' \<noteq> []"
    and "lid = synthesizedLayerID \<Longrightarrow> lid \<notin> cl_layerID ` set (preLayers i @ postLayers i) \<Longrightarrow>
         extraImageContentDiff st' \<noteq> []"
  using assms
  by (auto simp add: lookupLayer_def simp del: set_append
      split: if_splits option.splits Result.splits prod.splits
      dest!: makeExtraImageContentDiff_name)

lemma processLayer_diff:
  assumes "processLayer env i ps lid st w = Done st' w'"
    and "\<forall>d p n. osCreateTemp env d p = Some n \<longrightarrow> n \<noteq> []"
  shows "extraImageContentDiff st \<noteq> [] \<longrightarrow> extraImageContentDiff st' \<noteq> []"
    and "lid = synthesizedLayerID \<Longrightarrow> lid \<notin> cl_layerID ` set (preLayers i @ postLayers i) \<Longrightarrow>
         extraImageContentDiff st' \<noteq> []"
proof -
  from assms(1) obtain lid' dg sz st1 w1 where
    l: "lookupLayer env i lid st w = Done (lid', dg, sz, st1) w1"
    and r: "extraImageContentDiff st' = extraImageContentDiff st1"
    by (auto simp add: processLayer_def appendLayer_def
        split: Result.splits prod.splits if_splits sum.splits dest: openAndStage_diff)
  from lookupLayer_diff(1) [OF l assms(2)] r
  show "extraImageContentDiff st \<noteq> [] \<longrightarrow> extraImageContentDiff st' \<noteq> []" by simp
  from lookupLayer_diff(2) [OF l assms(2)] r
  show "lid = synthesizedLayerID \<Longrightarrow> lid \<notin> cl_layerID ` set (preLayers i @ postLayers i) \<Longrightarrow>
         extraImageContentDiff st' \<noteq> []" by simp
qed

lemma processLayers_diff:
  assumes "processLayers env i ps ls st w = Done st' w'"
    and "\<forall>d p n. osCreateTemp env d p = Some n \<longrightarrow> n \<noteq> []"
    and "synthesizedLayerID \<notin> cl_layerID ` set (preLayers i @ postLayers i)"
    and "extraImageContentDiff st \<noteq> [] \<or> synthesizedLayerID \<in> set ls"
  shows "extraImageContentDiff st' \<noteq> []"
  using assms(1,4)
proof (induction ls arbitrary: st w)
  case Nil
  then show ?case by simp
next
  case (Cons l ls)
  from Cons.prems(1) obtain st1 w1 where
    s: "processLayer env i ps l st w = Done st1 w1"
    and r: "processLayers env i ps ls st1 w1 = Done st' w'"
    by (auto split: Result.splits)
  from processLayer_diff [OF s assms(2)] assms(3) Cons.prems(2)
  have "extraImageContentDiff st1 \<noteq> [] \<or> synthesizedLayerID \<in> set ls" by auto
  from Cons.IH [OF r this] show ?case .
qed

lemma NewImageSource_synthesized:
  assumes run: "NewImageSource env i w = Done out w'"
    and "extraImageContent i \<noteq> []" "\<not> squash i" "\<not> cwConvert (confidentialWorkload i)"
    and "\<forall>d p n. osCreateTemp env d p = Some n \<longrightarrow> n \<noteq> []"
    and "synthesizedLayerID \<notin> cl_layerID ` set (preLayers i @ postLayers i)"
  shows "out_extraImageContentDiff out \<noteq> []"
proof -
  from run obtain layers ps path oi1 om1 di1 dm1 st p where
    loop: "processLayers env i ps (planLayers i layers)
       \<lparr>oimage = oi1, omanifest = om1, dimage = di1, dmanifest = dm1,
        blobLayers = Map.empty, extraImageContentDiff = [],
        extraImageContentDiffDigest = []\<rparr>
       (logEvent (EvMkdirTemp path) (w\<lparr>staged := Map.empty\<rparr>)) = Done st w'"
    and enc: "encodeOutput env i path st p = Inr out"
    by (rule NewImageSource_Done)
  have "synthesizedLayerID \<in> set (planLayers i layers)"
    using assms(2-4) by (simp add: planLayers_def)
  with processLayers_diff [OF loop assms(5,6)] encodeOutput_fields [OF enc]
  show ?thesis by simp
qed

text \<open>
  C7, with the string the code formats.  In a run that returns a source with history
  not omitted, the entry for the commit's own layer follows the base history and the
  entries of the prepended layers, in both formats; when the loop made a diff of the
  extra content, exactly one more entry than otherwise is added, right after it, with
  \<open>EmptyLayer\<close> false and \<open>CreatedBy\<close> the text \<open>/bin/sh -c #(nop) ADD dir:\<close>, the
  hex part of the diff's digest, and \<open> in /\<close> followed by a double quote and a
  comma.  By \<open>NewImageSource_synthesized\<close>, the loop makes that diff whenever extra
  content is given to a commit that neither squashes nor converts.
\<close>

theorem NewImageSource_extra_content_history:
  assumes run: "NewImageSource env i w = Done out w'"
    and hist: "\<not> omitHistory i"
    and cfg: "createConfigsAndManifests env i = Inr (oi0, om0, di0, dm0)"
  shows
    "let H = oHistory (out_oimage out); D = dHistory (out_dimage out);
         k = length (oHistory oi0) + length (preEmptyLayers i) + length (preLayers i);
         kd = length (dHistory di0) + length (preEmptyLayers i) + length (preLayers i);
         extra = (if out_extraImageContentDiff out \<noteq> [] then 1 else 0)
     in length H = k + 1 + extra + length (postEmptyLayers i) + length (postLayers i) \<and>
        length D = kd + 1 + extra + length (postEmptyLayers i) + length (postLayers i) \<and>
        hCreatedBy (H ! k) = createdBy i \<and> hEmptyLayer (H ! k) = emptyLayer i \<and>
        dhCreatedBy (D ! kd) = createdBy i \<and> dhEmptyLayer (D ! kd) = emptyLayer i \<and>
        (out_extraImageContentDiff out \<noteq> [] \<longrightarrow>
           (\<exists>hex. Encoded (out_extraImageContentDiffDigest out) = Inr hex \<and>
              hCreatedBy (H ! (k + 1)) =
                ''/bin/sh -c #(nop) ADD dir:'' @ hex @ '' in /'' @ [CHR 0x22] @ '','' \<and>
              \<not> hEmptyLayer (H ! (k + 1)) \<and>
              dhCreatedBy (D ! (kd + 1)) =
                ''/bin/sh -c #(nop) ADD dir:'' @ hex @ '' in /'' @ [CHR 0x22] @ '','' \<and>
              \<not> dhEmptyLayer (D ! (kd + 1))))"
proof -
  from run hist cfg obtain st where
    a: "appendCommitHistory env i st = Inr (out_oimage out, out_dimage out)"
    and s: "oHistory (oimage st) = oHistory oi0" "dHistory (dimage st) = dHistory di0"
      "oAuthor (oimage st) = oAuthor oi0" "dAuthor (dimage st) = dAuthor di0"
      "extraImageContentDiff st = out_extraImageContentDiff out"
      "extraImageContentDiffDigest st = out_extraImageContentDiffDigest out"
    by (rule NewImageSource_history)
  let ?diff = "out_extraImageContentDiff out"
  let ?dg = "out_extraImageContentDiffDigest out"
  let ?N = "newEntries env i ?diff ?dg (oAuthor oi0)"
  let ?M = "newEntries env i ?diff ?dg (dAuthor di0)"
  let ?b = "length (preEmptyLayers i) + length (preLayers i)"
  have n: "?N \<noteq> []" by (rule newEntries_nonempty)
  have o: "oHistory (out_oimage out) =
             (oHistory oi0 @ ?N)[length (oHistory oi0) := ((oHistory oi0 @ ?N) ! length (oHistory oi0))
               \<lparr>hComment := hComment ((oHistory oi0 @ ?N) ! length (oHistory oi0)) @
                  fromCommentFor i (hComment (hd ?N))\<rparr>]"
    using appendCommitHistory_OCI [OF a] n
    by (simp only: s) (cases ?N; simp add: withFrom_def list_update_append)
  have d: "dHistory (out_dimage out) =
          (dHistory di0 @ map toDocker ?M)[length (oHistory oi0) :=
             ((dHistory di0 @ map toDocker ?M) ! length (oHistory oi0))
               \<lparr>dhComment := dhComment ((dHistory di0 @ map toDocker ?M) ! length (oHistory oi0)) @
                  fromCommentFor i (hComment (hd ?N))\<rparr>]"
    using appendCommitHistory_Docker(2) [OF a] by (simp only: s)
  have enc: "Encoded ?dg = Inr (tl (dropWhile (\<lambda>c. c \<noteq> CHR '':'') ?dg))" if "?diff \<noteq> []"
    using appendCommitHistory_Encoded [OF a] that by (simp add: s)
  have lenN: "length ?N = ?b + 1 + (if ?diff \<noteq> [] then 1 else 0) +
      length (postEmptyLayers i) + length (postLayers i)"
    and lenM: "length ?M = ?b + 1 + (if ?diff \<noteq> [] then 1 else 0) +
      length (postEmptyLayers i) + length (postLayers i)"
    by (rule newEntries_nth(3))+
  have k: "(oHistory oi0 @ ?N) ! (length (oHistory oi0) + ?b) =
      commitEntry i (createdOrNow env i AtHistory) (oAuthor oi0)"
    and kd: "(dHistory di0 @ map toDocker ?M) ! (length (dHistory di0) + ?b) =
      toDocker (commitEntry i (createdOrNow env i AtHistory) (dAuthor di0))"
    using lenM by (simp_all add: newEntries_nth(1) nth_append)
  have k1: "(oHistory oi0 @ ?N) ! Suc (length (oHistory oi0) + ?b) =
      extraEntry (createdOrNow env i AtHistory) (tl (dropWhile (\<lambda>c. c \<noteq> CHR '':'') ?dg))"
    and kd1: "(dHistory di0 @ map toDocker ?M) ! Suc (length (dHistory di0) + ?b) =
      toDocker (extraEntry (createdOrNow env i AtHistory) (tl (dropWhile (\<lambda>c. c \<noteq> CHR '':'') ?dg)))"
    if "?diff \<noteq> []"
    using that lenM newEntries_nth(2) [OF that, of env i ?dg]
    by (simp_all add: nth_append)
  show ?thesis
    unfolding Let_def o d
    using lenN lenM k kd k1 kd1 enc
    by (auto simp add: commitEntry_def extraEntry_def toDocker_def dockerEntry_def
        extraContentCreatedBy_def add.assoc)
qed

text \<open>
  C7 at a concrete input: one entry of extra content.
\<close>

theorem NewImageSource_extra_content_history_witness:
  "(case NewImageSource demoEnv extraRefA demoWorld of
      Done out w' \<Rightarrow>
        length (oHistory (out_oimage out)) = 3 \<and>
        length (dHistory (out_dimage out)) = 3 \<and>
        hCreatedBy (oHistory (out_oimage out) ! 1) = ''/bin/sh'' \<and>
        hCreatedBy (oHistory (out_oimage out) ! 2) =
           ''/bin/sh -c #(nop) ADD dir:/a=A;. in /'' @ [CHR 0x22] @ '','' \<and>
        \<not> hEmptyLayer (oHistory (out_oimage out) ! 2) \<and>
        dhCreatedBy (dHistory (out_dimage out) ! 2) =
           ''/bin/sh -c #(nop) ADD dir:/a=A;. in /'' @ [CHR 0x22] @ '','' \<and>
        \<not> dhEmptyLayer (dHistory (out_dimage out) ! 2)
    | _ \<Rightarrow> False)"
proof -
  have "case createConfigsAndManifests demoEnv extraRefA of
          Inr (oi0, om0, di0, dm0) \<Rightarrow>
            length (oHistory oi0) = 1 \<and> length (dHistory di0) = 1
        | _ \<Rightarrow> False"
    by (simp add: run_defs demo_defs3 const_defs)
  then obtain oi0 om0 di0 dm0 where
    cfg: "createConfigsAndManifests demoEnv extraRefA = Inr (oi0, om0, di0, dm0)"
    and base: "length (oHistory oi0) = 1" "length (dHistory di0) = 1"
    by (auto split: sum.splits)
  have h: "\<not> omitHistory extraRefA" by (simp add: demo_defs3)
  have "case NewImageSource demoEnv extraRefA demoWorld of
          Done out w' \<Rightarrow>
            out_extraImageContentDiff out = ''/ctr/extradiff2'' \<and>
            out_extraImageContentDiffDigest out = ''sha256:/a=A;.''
        | _ \<Rightarrow> False"
    by (simp add: run_defs demo_defs3 const_defs sublist_code)
  then obtain out w' where run: "NewImageSource demoEnv extraRefA demoWorld = Done out w'"
    and diff: "out_extraImageContentDiff out = ''/ctr/extradiff2''"
      "out_extraImageContentDiffDigest out = ''sha256:/a=A;.''"
    by (auto split: Result.splits)
  have pre: "preEmptyLayers extraRefA = []" "preLayers extraRefA = []"
    "postEmptyLayers extraRefA = []" "postLayers extraRefA = []"
    "createdBy extraRefA = ''/bin/sh''"
    by (simp_all add: demo_defs3)
  from NewImageSource_extra_content_history [OF run h cfg]
  have "length (oHistory (out_oimage out)) = 3 \<and>
        length (dHistory (out_dimage out)) = 3 \<and>
        hCreatedBy (oHistory (out_oimage out) ! 1) = ''/bin/sh'' \<and>
        hCreatedBy (oHistory (out_oimage out) ! 2) =
           ''/bin/sh -c #(nop) ADD dir:/a=A;. in /'' @ [CHR 0x22] @ '','' \<and>
        \<not> hEmptyLayer (oHistory (out_oimage out) ! 2) \<and>
        dhCreatedBy (dHistory (out_dimage out) ! 2) =
           ''/bin/sh -c #(nop) ADD dir:/a=A;. in /'' @ [CHR 0x22] @ '','' \<and>
        \<not> dhEmptyLayer (dHistory (out_dimage out) ! 2)"
    by (simp add: Let_def Encoded_def base diff pre numeral_2_eq_2 numeral_3_eq_3)
  with run show ?thesis by simp
qed

text \<open>
  C7 as stated fails on the text: the \<open>CreatedBy\<close> of the added entry is not
  \<open>/bin/sh -c #(nop) ADD dir:<hex> in /,\<close>, in either format.
\<close>

theorem extra_content_createdBy_quote:
  "(case NewImageSource demoEnv extraRefA demoWorld of
      Done out w' \<Rightarrow>
        Encoded (out_extraImageContentDiffDigest out) = Inr ''/a=A;.'' \<and>
        hCreatedBy (oHistory (out_oimage out) ! 2) \<noteq>
          ''/bin/sh -c #(nop) ADD dir:'' @ ''/a=A;.'' @ '' in /,'' \<and>
        dhCreatedBy (dHistory (out_dimage out) ! 2) \<noteq>
          ''/bin/sh -c #(nop) ADD dir:'' @ ''/a=A;.'' @ '' in /,''
    | _ \<Rightarrow> False)"
  by (simp add: run_defs demo_defs3 const_defs sublist_code)

subsection \<open>Reuse of a parent layer\<close>

text \<open>
  What a run logs and stages.
\<close>

lemma fold_logEvent: "fold logEvent es w = w\<lparr>trace := trace w @ es\<rparr>"
  by (induction es arbitrary: w) (simp_all add: logEvent_def)

lemma noDiffOf_refl [simp]: "noDiffOf lid w w"
  by (simp add: noDiffOf_def)

lemma noDiffOf_trans: "noDiffOf lid a b \<Longrightarrow> noDiffOf lid b c \<Longrightarrow> noDiffOf lid a c"
  unfolding noDiffOf_def
  apply (elim exE conjE)
  subgoal for evs evs'
    by (rule exI [of _ "evs @ evs'"]) (simp, blast)
  done

lemma noDiffOf_files [simp]:
  "noDiffOf lid (w\<lparr>files := f\<rparr>) w' = noDiffOf lid w w'"
  "noDiffOf lid w (w'\<lparr>files := f\<rparr>) = noDiffOf lid w w'"
  by (simp_all add: noDiffOf_def)

lemma noDiffOf_log:
  "ev \<noteq> EvDiff lid \<Longrightarrow> noDiffOf lid w w' \<Longrightarrow> noDiffOf lid w (logEvent ev w')"
  unfolding noDiffOf_def logEvent_def
  apply (elim exE conjE)
  subgoal for evs
    by (rule exI [of _ "evs @ [ev]"]) auto
  done

lemma noDiffOf_log_left:
  "ev \<noteq> EvDiff lid \<Longrightarrow> noDiffOf lid (logEvent ev w) w' \<Longrightarrow> noDiffOf lid w w'"
  unfolding noDiffOf_def logEvent_def
  apply (elim exE conjE)
  subgoal for evs
    by (rule exI [of _ "ev # evs"]) auto
  done

lemma writeExtraEntries_noDiffOf:
  "writeExtraEntries env t es tw w = Done r w' \<Longrightarrow> noDiffOf lid w w'"
proof (induction es arbitrary: tw w)
  case Nil
  then show ?case by simp
next
  case (Cons e es)
  obtain p c where e: "e = (p, c)" by (cases e)
  from Cons.prems obtain bs where
    "writeExtraEntries env t es (tw @ tarEntry env p t bs) (logEvent (EvOpen c) w) = Done r w'"
    by (auto simp add: e split: option.splits Node.splits)
  from Cons.IH [OF this] show ?case by (rule noDiffOf_log_left [rotated]) simp
qed

lemma makeExtraImageContentDiff_noDiffOf:
  assumes "makeExtraImageContentDiff env i f w = Done r w'"
  shows "noDiffOf lid w w'"
proof -
  from assms obtain diff tw w2 g where
    run: "writeExtraEntries env (createdOrNow env i AtExtraDiff) (extraImageContent i) []
            (logEvent (EvCreateTemp diff) (w\<lparr>files := (files w)(diff \<mapsto> RegularFile [])\<rparr>)) =
          Done tw w2"
    and w': "w' = w2\<lparr>files := g\<rparr>"
    by (auto simp add: makeExtraImageContentDiff_def
        split: option.splits Result.splits if_splits)
  from writeExtraEntries_noDiffOf [OF run, of lid]
  have "noDiffOf lid (w\<lparr>files := (files w)(diff \<mapsto> RegularFile [])\<rparr>) w2"
    by (rule noDiffOf_log_left [rotated]) simp
  then show ?thesis by (simp add: w')
qed

lemma lookupLayer_noDiffOf:
  "lookupLayer env i y st w = Done r w' \<Longrightarrow> noDiffOf lid w w'"
  by (auto simp add: lookupLayer_def
      split: if_splits option.splits Result.splits prod.splits
      dest: makeExtraImageContentDiff_noDiffOf [where lid = lid])

lemma stageLayer_noDiffOf:
  "stageLayer env i what m rc ec cl st w = Done st' w' \<Longrightarrow> EvDiff lid \<notin> set cl \<Longrightarrow>
   noDiffOf lid w w'"
  unfolding noDiffOf_def
  by (auto simp add: stageLayer_def Let_def fold_logEvent logEvent_def
      split: if_splits option.splits ReadCloser.splits prod.splits)

lemma noDiffOf_log_leftD:
  "noDiffOf lid (logEvent ev w) w' \<Longrightarrow> ev \<noteq> EvDiff lid \<Longrightarrow> noDiffOf lid w w'"
  by (rule noDiffOf_log_left)

lemma openAndStage_noDiffOf:
  assumes "openAndStage env i what lid' m st w = Done st' w'"
    and "\<not> cwConvert (confidentialWorkload i)" "\<not> squash i" "lid' \<noteq> lid"
  shows "noDiffOf lid w w'"
  using assms
  by (auto simp add: openAndStage_def
      split: if_splits option.splits Node.splits
      dest!: stageLayer_noDiffOf [where lid = lid]
      dest: noDiffOf_log_leftD)

text \<open>
  On a store that returns under an identifier the layer with that identifier, the
  loop keeps the identifier it was given.
\<close>

lemma lookupLayer_id:
  assumes "lookupLayer env i y st w = Done (lid', dg, sz, st1) w1"
    and "\<forall>x l. storeLayer env x = Some l \<longrightarrow> layer_ID l = x"
  shows "lid' = y"
  using assms
  by (auto simp add: lookupLayer_def
      split: if_splits option.splits Result.splits prod.splits)

lemma processLayer_noDiffOf:
  assumes run: "processLayer env i ps y st w = Done st' w'"
    and mode: "\<not> cwConvert (confidentialWorkload i)" "\<not> squash i"
    and store: "\<forall>x l. storeLayer env x = Some l \<longrightarrow> layer_ID l = x"
    and y: "y \<noteq> lid"
  shows "noDiffOf lid w w'"
proof -
  from run obtain lid' dg sz st1 w1 where
    l: "lookupLayer env i y st w = Done (lid', dg, sz, st1) w1"
    by (auto simp add: processLayer_def split: Result.splits)
  from lookupLayer_id [OF l store] have id: "lid' = y" .
  from lookupLayer_noDiffOf [OF l] have a: "noDiffOf lid w w1" .
  from run l have "w' = w1 \<or> (\<exists>m. openAndStage env i (whatFor i y) lid' m st1 w1 = Done st' w')"
    by (auto simp add: processLayer_def split: if_splits sum.splits)
  then show ?thesis
  proof
    assume "w' = w1"
    with a show ?thesis by simp
  next
    assume "\<exists>m. openAndStage env i (whatFor i y) lid' m st1 w1 = Done st' w'"
    then obtain m where "openAndStage env i (whatFor i y) lid' m st1 w1 = Done st' w'" by blast
    from openAndStage_noDiffOf [OF this mode] id y have "noDiffOf lid w1 w'" by simp
    with a show ?thesis by (rule noDiffOf_trans)
  qed
qed

text \<open>
  One iteration of the loop for a parent layer whose uncompressed digest the store
  knows: it returns with the world as it was.
\<close>

lemma processLayer_reuse:
  assumes "\<not> cwConvert (confidentialWorkload i)" and "\<not> squash i"
    and "lid \<notin> cl_layerID ` set (preLayers i @ postLayers i)"
    and "lid \<noteq> synthesizedLayerID"
    and "storeLayer env lid = Some layer" and "layer_ID layer = lid"
    and "lid \<in> parentLayerIDs"
    and "layer_UncompressedDigest layer \<noteq> []"
  shows "processLayer env i parentLayerIDs lid st w =
     Done ((appendLayer (MediaTypeImageLayer, V2S2MediaTypeUncompressedLayer)
              (layer_UncompressedDigest layer) (layer_UncompressedSize layer)
              (layer_UncompressedDigest layer) st)
           \<lparr>blobLayers := (blobLayers st)
              (layer_UncompressedDigest layer \<mapsto>
                 \<lparr>blID = lid, blSize = layer_UncompressedSize layer\<rparr>)\<rparr>) w"
  using assms by (simp add: processLayer_def lookupLayer_def)

lemma processLayers_noDiffOf:
  assumes mode: "\<not> cwConvert (confidentialWorkload i)" "\<not> squash i"
    and store: "\<forall>x l. storeLayer env x = Some l \<longrightarrow> layer_ID l = x"
    and own: "lid \<notin> cl_layerID ` set (preLayers i @ postLayers i)" "lid \<noteq> synthesizedLayerID"
    and layer: "storeLayer env lid = Some layer" "layer_UncompressedDigest layer \<noteq> []"
    and parent: "lid \<in> ps"
  shows "processLayers env i ps ls st w = Done st' w' \<Longrightarrow> noDiffOf lid w w'"
proof (induction ls arbitrary: st w)
  case Nil
  then show ?case by simp
next
  case (Cons y ls)
  from Cons.prems obtain st1 w1 where
    one: "processLayer env i ps y st w = Done st1 w1"
    and rest: "processLayers env i ps ls st1 w1 = Done st' w'"
    by (auto split: Result.splits)
  have "noDiffOf lid w w1"
  proof (cases "y = lid")
    case True
    from layer(1) store have "layer_ID layer = lid" by blast
    from processLayer_reuse [OF mode own layer(1) this parent layer(2), of st w] one True
    show ?thesis by simp
  next
    case False
    from processLayer_noDiffOf [OF one mode store False] show ?thesis .
  qed
  with Cons.IH [OF rest] show ?case by (blast intro: noDiffOf_trans)
qed

text \<open>
  The descriptors and diff IDs are only appended to, one for each layer but the
  container's own when it is to be left out.
\<close>

lemma grows_refl [simp]: "grows st st"
  by (simp add: grows_def)

lemma grows_trans: "grows a b \<Longrightarrow> grows b c \<Longrightarrow> grows a c"
  by (auto simp add: grows_def intro: prefix_order.trans)

lemma grows_appendLayer [simp]: "grows st (appendLayer m b s d st)"
  by (simp add: grows_def appendLayer_def)

lemma stageLayer_grows:
  "stageLayer env i what m rc ec cl st w = Done st' w' \<Longrightarrow> grows st st'"
  by (auto simp add: stageLayer_def Let_def
      split: if_splits option.splits ReadCloser.splits prod.splits)

lemma lookupLayer_grows:
  "lookupLayer env i lid st w = Done (lid', dg, sz, st') w' \<Longrightarrow> grows st st'"
  by (auto simp add: lookupLayer_def grows_def
      split: if_splits option.splits Result.splits prod.splits)

lemma openAndStage_grows:
  "openAndStage env i what lid m st w = Done st' w' \<Longrightarrow> grows st st'"
  by (auto simp add: openAndStage_def
      split: if_splits option.splits Result.splits prod.splits Node.splits
      dest: stageLayer_grows)

lemma processLayer_grows:
  assumes "processLayer env i ps lid st w = Done st' w'"
  shows "grows st st'"
proof -
  from assms obtain lid' dg sz st1 w1 where
    l: "lookupLayer env i lid st w = Done (lid', dg, sz, st1) w1"
    by (auto simp add: processLayer_def split: Result.splits)
  from lookupLayer_grows [OF l] have a: "grows st st1" .
  from assms l have
    "st' = (appendLayer (MediaTypeImageLayer, V2S2MediaTypeUncompressedLayer) dg sz dg st1)
             \<lparr>blobLayers := (blobLayers st1)(dg \<mapsto> \<lparr>blID = lid', blSize = sz\<rparr>)\<rparr> \<or>
     (\<exists>m. openAndStage env i (whatFor i lid) lid' m st1 w1 = Done st' w')"
    by (auto simp add: processLayer_def split: if_splits sum.splits)
  then have "grows st1 st'"
  proof
    assume "st' = (appendLayer (MediaTypeImageLayer, V2S2MediaTypeUncompressedLayer) dg sz dg st1)
             \<lparr>blobLayers := (blobLayers st1)(dg \<mapsto> \<lparr>blID = lid', blSize = sz\<rparr>)\<rparr>"
    then show ?thesis by (auto simp add: grows_def appendLayer_def)
  next
    assume "\<exists>m. openAndStage env i (whatFor i lid) lid' m st1 w1 = Done st' w'"
    then show ?thesis by (blast dest: openAndStage_grows)
  qed
  with a show ?thesis by (rule grows_trans)
qed

lemma processLayers_grows:
  "processLayers env i ps ls st w = Done st' w' \<Longrightarrow> grows st st'"
proof (induction ls arbitrary: st w)
  case Nil
  then show ?case by simp
next
  case (Cons a ls)
  then show ?case
    by (auto split: Result.splits dest!: processLayer_grows intro: grows_trans)
qed

lemma layerCount_appendLayer [simp]:
  "layerCount (appendLayer m b s d st) n = (n \<noteq> 0 \<and> layerCount st (n - 1))"
  by (cases n) (auto simp add: layerCount_def appendLayer_def)

lemma stageLayer_count:
  "stageLayer env i what m rc ec cl st w = Done st' w' \<Longrightarrow> layerCount st n \<Longrightarrow>
   layerCount st' (Suc n)"
  by (auto simp add: stageLayer_def Let_def
      split: if_splits option.splits ReadCloser.splits prod.splits)

lemma lookupLayer_count:
  "lookupLayer env i lid st w = Done (lid', dg, sz, st') w' \<Longrightarrow> layerCount st n \<Longrightarrow>
   layerCount st' n"
  by (auto simp add: lookupLayer_def layerCount_def
      split: if_splits option.splits Result.splits prod.splits)

lemma openAndStage_count:
  assumes "openAndStage env i what lid m st w = Done st' w'"
    and "lid \<noteq> layerID i" and "layerCount st n"
  shows "layerCount st' (Suc n)"
  using assms
  by (auto simp add: openAndStage_def
      split: if_splits option.splits Result.splits prod.splits Node.splits
      dest: stageLayer_count)

lemma processLayer_count:
  assumes run: "processLayer env i ps y st w = Done st' w'"
    and store: "\<forall>x l. storeLayer env x = Some l \<longrightarrow> layer_ID l = x"
    and y: "y \<noteq> layerID i" and n: "layerCount st n"
  shows "layerCount st' (Suc n)"
proof -
  from run obtain lid' dg sz st1 w1 where
    l: "lookupLayer env i y st w = Done (lid', dg, sz, st1) w1"
    by (auto simp add: processLayer_def split: Result.splits)
  from lookupLayer_id [OF l store] y have id: "lid' \<noteq> layerID i" by simp
  from lookupLayer_count [OF l n] have a: "layerCount st1 n" .
  from run l have
    "st' = (appendLayer (MediaTypeImageLayer, V2S2MediaTypeUncompressedLayer) dg sz dg st1)
             \<lparr>blobLayers := (blobLayers st1)(dg \<mapsto> \<lparr>blID = lid', blSize = sz\<rparr>)\<rparr> \<or>
     (\<exists>m. openAndStage env i (whatFor i y) lid' m st1 w1 = Done st' w')"
    by (auto simp add: processLayer_def split: if_splits sum.splits)
  then show ?thesis
  proof
    assume "st' = (appendLayer (MediaTypeImageLayer, V2S2MediaTypeUncompressedLayer) dg sz dg st1)
             \<lparr>blobLayers := (blobLayers st1)(dg \<mapsto> \<lparr>blID = lid', blSize = sz\<rparr>)\<rparr>"
    with a show ?thesis by (auto simp add: layerCount_def appendLayer_def)
  next
    assume "\<exists>m. openAndStage env i (whatFor i y) lid' m st1 w1 = Done st' w'"
    then obtain m where "openAndStage env i (whatFor i y) lid' m st1 w1 = Done st' w'" by blast
    from openAndStage_count [OF this id a] show ?thesis .
  qed
qed

lemma processLayers_count:
  assumes store: "\<forall>x l. storeLayer env x = Some l \<longrightarrow> layer_ID l = x"
  shows "processLayers env i ps ls st w = Done st' w' \<Longrightarrow> layerID i \<notin> set ls \<Longrightarrow>
         layerCount st n \<Longrightarrow> layerCount st' (n + length ls)"
proof (induction ls arbitrary: st w n)
  case Nil
  then show ?case by simp
next
  case (Cons y ls)
  from Cons.prems(1) obtain st1 w1 where
    one: "processLayer env i ps y st w = Done st1 w1"
    and rest: "processLayers env i ps ls st1 w1 = Done st' w'"
    by (auto split: Result.splits)
  from Cons.prems(2) have y: "y \<noteq> layerID i" and ls: "layerID i \<notin> set ls" by auto
  from processLayer_count [OF one store y Cons.prems(3)] have "layerCount st1 (Suc n)" .
  from Cons.IH [OF rest ls this] show ?case by simp
qed

lemma processLayers_append:
  "processLayers env i ps (xs @ ys) st w =
     (case processLayers env i ps xs st w of
        Hang \<Rightarrow> Hang
      | Fail e w' \<Rightarrow> Fail e w'
      | Done st1 w1 \<Rightarrow> processLayers env i ps ys st1 w1)"
  by (induction xs arbitrary: st w) (auto split: Result.splits)

text \<open>
  The plan: the parent layers, then the prepended layers, the container's layer,
  the synthesized layer and the appended layers.
\<close>

lemma walkLayers_shape:
  assumes "walkLayers lookup topID single lid layer layers ps = Some y"
    and "planShape L0 topID layers ps"
  shows "case y of Inl e \<Rightarrow> True | Inr (layers', ps') \<Rightarrow> planShape L0 topID layers' ps'"
  using assms
proof (induction lookup topID single lid layer layers ps y rule: walkLayers.raw_induct [rotated, consumes 1])
  case (1 walk lookup topID single lid layer layers ps y)
  from 1(3) obtain P T where s: "layers = P @ L0 @ T" "set P \<subseteq> ps" "set T \<subseteq> {topID}"
    unfolding planShape_def by blast
  have next_shape: "planShape L0 topID (if lid = topID then layers @ [lid] else lid # layers)
           (if lid = topID then ps else insert lid ps)"
  proof (cases "lid = topID")
    case True
    show ?thesis unfolding planShape_def
      by (rule exI [of _ P], rule exI [of _ "T @ [topID]"]) (use s True in auto)
  next
    case False
    show ?thesis unfolding planShape_def
      by (rule exI [of _ "lid # P"], rule exI [of _ T]) (use s False in auto)
  qed
  show ?case
  proof (cases "layer_Parent layer = [] \<or> single")
    case True
    with 1(2) have "y = Inr (if lid = topID then layers @ [lid] else lid # layers,
                             if lid = topID then ps else insert lid ps)"
      by (auto split: if_splits)
    with next_shape show ?thesis by simp
  next
    case False
    show ?thesis
    proof (cases "lookup (layer_Parent layer)")
      case None
      with False 1(2) show ?thesis by auto
    next
      case (Some layer')
      with False 1(2) have rec: "walk lookup topID single (layer_Parent layer) layer'
                (if lid = topID then layers @ [lid] else lid # layers)
                (if lid = topID then ps else insert lid ps) = Some y" by simp
      show ?thesis by (rule 1(1) [OF rec next_shape])
    qed
  qed
qed

lemma planLayers_shape:
  assumes plan: "planParents env i = Some (Inr (layers, ps))"
  shows "\<exists>P R. planLayers i layers = P @ R \<and> set P \<subseteq> ps \<and> layerID i \<notin> ps \<and>
           set R \<subseteq> cl_layerID ` set (preLayers i @ postLayers i) \<union>
                    {layerID i, synthesizedLayerID}"
proof -
  from plan obtain layer where top: "storeLayer env (layerID i) = Some layer"
    and walk: "walkLayers (storeLayer env) (layerID i)
            (cwConvert (confidentialWorkload i) \<or> squash i)
            (layerID i) layer (map cl_layerID (preLayers i)) {} = Some (Inr (layers, ps))"
    by (auto simp add: planParents_def split: option.splits)
  from walkLayers_inv [OF walk, of "cl_layerID ` set (preLayers i)"] top
  have "\<forall>p\<in>ps. storeLayer env p \<noteq> None \<and> p \<noteq> layerID i" by auto
  then have t: "layerID i \<notin> ps" by auto
  have "planShape (map cl_layerID (preLayers i)) (layerID i) (map cl_layerID (preLayers i)) {}"
    unfolding planShape_def by (rule exI [of _ "[]"], rule exI [of _ "[]"]) simp
  from walkLayers_shape [OF walk this] obtain P T where
    s: "layers = P @ map cl_layerID (preLayers i) @ T" "set P \<subseteq> ps" "set T \<subseteq> {layerID i}"
    unfolding planShape_def by auto
  let ?R = "map cl_layerID (preLayers i) @ T @
     (if extraImageContent i \<noteq> [] \<and> \<not> cwConvert (confidentialWorkload i) \<and> \<not> squash i
      then [synthesizedLayerID] else []) @
     map cl_layerID (postLayers i)"
  have "planLayers i layers = P @ ?R" by (simp add: planLayers_def s(1))
  moreover have "set ?R \<subseteq> cl_layerID ` set (preLayers i @ postLayers i) \<union>
                    {layerID i, synthesizedLayerID}"
    using s(3) by auto
  ultimately show ?thesis using s(2) t by blast
qed

lemma parent_position:
  assumes "xs = P @ R" "k < length xs" "xs ! k \<notin> set R"
  shows "k < length P"
proof (rule ccontr)
  assume "\<not> k < length P"
  with assms(1,2) have "xs ! k = R ! (k - length P)" "k - length P < length R"
    by (auto simp add: nth_append)
  with assms(3) show False by (metis nth_mem)
qed

lemma createConfigsAndManifests_empty:
  assumes "createConfigsAndManifests env i = Inr (oi0, om0, di0, dm0)"
  shows "layerCount \<lparr>oimage = oi0, omanifest = om0, dimage = di0, dmanifest = dm0,
           blobLayers = bl, extraImageContentDiff = d, extraImageContentDiffDigest = g\<rparr> 0"
  using assms
  by (auto simp add: createConfigsAndManifests_def layerCount_def Let_def storeConfig_def
      split: option.splits if_splits sum.splits prod.splits ConfigPtr.splits)

lemma buildHistory_diffIDs:
  assumes "buildHistory env i st = Inr (oi, di)"
  shows "oRootFS_DiffIDs oi = oRootFS_DiffIDs (oimage st) \<and>
         dRootFS_DiffIDs di = dRootFS_DiffIDs (dimage st)"
proof (cases "omitHistory i")
  case True
  with assms show ?thesis by (simp add: buildHistory_def)
next
  case False
  with assms obtain p where a: "appendCommitHistory env i st = Inr p"
    and c: "confidenceCheck (length (oHistory (oimage st))) p = Inr (oi, di)"
    by (auto simp add: buildHistory_def split: sum.splits)
  from c have p: "p = (oi, di)"
    by (auto simp add: confidenceCheck_def split: prod.splits if_splits)
  from beforeAttribution [OF a [unfolded p]] show ?thesis
    by (auto simp add: attributeBase_def Let_def split: if_splits)
qed

lemma encodeOutput_layers:
  "encodeOutput env i path st p = Inr out \<Longrightarrow>
     mLayers (out_omanifest out) = mLayers (omanifest st) \<and>
     dmLayers (out_dmanifest out) = dmLayers (dmanifest st) \<and>
     src_blobLayers (out_src out) = blobLayers st"
  by (auto simp add: encodeOutput_def Let_def split: option.splits if_splits prod.splits)

lemma prefix_nth:
  "prefix xs ys \<Longrightarrow> k < length xs \<Longrightarrow> ys ! k = xs ! k \<and> k < length ys"
  by (auto simp add: prefix_def nth_append)

text \<open>
  C2, for the whole run.  In a run of \<open>NewImageSource\<close> that returns a source, in a
  commit that neither squashes nor converts, on a store that returns under an ID the
  layer with that ID: for a layer at position \<open>k\<close> of the plan that is in
  \<open>parentLayerIDs\<close>, whose uncompressed digest the store knows, and whose ID is not
  the placeholder of an API-supplied or of the synthesized layer, the descriptor at
  position \<open>k\<close> of each manifest has the store's digest and size and the uncompressed
  media type of its format, the diff ID at position \<open>k\<close> of each configuration is that
  digest, the index of reused layers has an entry for that digest, and the run has no
  \<open>store.Diff\<close> of the layer.  A file named by that digest is in the staging directory
  only if the blob of a layer that was copied was renamed to that name.
\<close>

theorem NewImageSource_reuses_parent_layer:
  assumes run: "NewImageSource env i w = Done out w'"
    and mode: "\<not> cwConvert (confidentialWorkload i)" "\<not> squash i"
    and store: "\<forall>x l. storeLayer env x = Some l \<longrightarrow> layer_ID l = x"
    and plan: "planParents env i = Some (Inr (layers, parentLayerIDs))"
    and k: "k < length (planLayers i layers)" "planLayers i layers ! k = lid"
    and parent: "lid \<in> parentLayerIDs"
    and own: "lid \<notin> cl_layerID ` set (preLayers i @ postLayers i)" "lid \<noteq> synthesizedLayerID"
    and layer: "storeLayer env lid = Some layer" "layer_UncompressedDigest layer \<noteq> []"
  shows
    "k < length (mLayers (out_omanifest out)) \<and>
     mLayers (out_omanifest out) ! k =
       \<lparr>descMediaType = MediaTypeImageLayer, descDigest = layer_UncompressedDigest layer,
        descSize = layer_UncompressedSize layer\<rparr> \<and>
     k < length (dmLayers (out_dmanifest out)) \<and>
     dmLayers (out_dmanifest out) ! k =
       \<lparr>descMediaType = V2S2MediaTypeUncompressedLayer,
        descDigest = layer_UncompressedDigest layer,
        descSize = layer_UncompressedSize layer\<rparr> \<and>
     k < length (oRootFS_DiffIDs (out_oimage out)) \<and>
     oRootFS_DiffIDs (out_oimage out) ! k = layer_UncompressedDigest layer \<and>
     k < length (dRootFS_DiffIDs (out_dimage out)) \<and>
     dRootFS_DiffIDs (out_dimage out) ! k = layer_UncompressedDigest layer \<and>
     src_blobLayers (out_src out) (layer_UncompressedDigest layer) \<noteq> None \<and>
     (\<exists>evs. trace w' = trace w @ evs \<and> EvDiff lid \<notin> set evs \<and>
        (staged w' (layer_UncompressedDigest layer) \<noteq> None \<longrightarrow>
           EvStage (layer_UncompressedDigest layer) \<in> set evs))"
proof -
  let ?dg = "layer_UncompressedDigest layer"
  let ?sz = "layer_UncompressedSize layer"
  from run plan obtain path oi0 om0 di0 dm0 st p where
    cfg: "createConfigsAndManifests env i = Inr (oi0, om0, di0, dm0)"
    and loop: "processLayers env i parentLayerIDs (planLayers i layers)
       \<lparr>oimage = oi0, omanifest = om0, dimage = di0, dmanifest = dm0,
        blobLayers = Map.empty, extraImageContentDiff = [],
        extraImageContentDiffDigest = []\<rparr>
       (logEvent (EvMkdirTemp path) (w\<lparr>staged := Map.empty\<rparr>)) = Done st w'"
    and hist: "buildHistory env i st = Inr p"
    and enc: "encodeOutput env i path st p = Inr out"
    by (auto elim!: NewImageSource_Done)
  let ?st0 = "\<lparr>oimage = oi0, omanifest = om0, dimage = di0, dmanifest = dm0,
        blobLayers = Map.empty, extraImageContentDiff = [],
        extraImageContentDiffDigest = []\<rparr>"
  let ?w0 = "logEvent (EvMkdirTemp path) (w\<lparr>staged := Map.empty\<rparr>)"
  let ?plan = "planLayers i layers"
  from layer(1) store have id: "layer_ID layer = lid" by blast
  from planLayers_shape [OF plan] obtain P R where
    shape: "?plan = P @ R" "set P \<subseteq> parentLayerIDs" "layerID i \<notin> parentLayerIDs"
      "set R \<subseteq> cl_layerID ` set (preLayers i @ postLayers i) \<union> {layerID i, synthesizedLayerID}"
    by blast
  from parent shape(3) have "lid \<noteq> layerID i" by auto
  with own shape(4) k(2) have "?plan ! k \<notin> set R" by auto
  from parent_position [OF shape(1) k(1) this] have kP: "k < length P" .
  let ?xs = "take k ?plan" and ?ys = "drop (Suc k) ?plan"
  have split: "?plan = ?xs @ lid # ?ys"
    using id_take_nth_drop [OF k(1)] k(2) by simp
  have "?xs = take k P" using kP by (simp add: shape(1))
  then have "set ?xs \<subseteq> parentLayerIDs" using shape(2) by (metis set_take_subset subset_trans)
  with shape(3) have noTop: "layerID i \<notin> set ?xs" by auto
  from loop obtain st1 w1 where
    before: "processLayers env i parentLayerIDs ?xs ?st0 ?w0 = Done st1 w1"
    and rest: "processLayers env i parentLayerIDs (lid # ?ys) st1 w1 = Done st w'"
    by (subst (asm) split) (auto simp add: processLayers_append split: Result.splits)
  let ?st2 = "(appendLayer (MediaTypeImageLayer, V2S2MediaTypeUncompressedLayer) ?dg ?sz ?dg st1)
           \<lparr>blobLayers := (blobLayers st1)(?dg \<mapsto> \<lparr>blID = lid, blSize = ?sz\<rparr>)\<rparr>"
  from rest processLayer_reuse [OF mode own layer(1) id parent layer(2), of st1 w1]
  have after: "processLayers env i parentLayerIDs ?ys ?st2 w1 = Done st w'" by simp
  from processLayers_count [OF store before noTop createConfigsAndManifests_empty [OF cfg]]
  have c1: "layerCount st1 k" using k(1) by simp
  from processLayers_grows [OF after] have g: "grows ?st2 st" .
  from c1 have at2:
    "k < length (mLayers (omanifest ?st2))"
    "mLayers (omanifest ?st2) ! k =
       \<lparr>descMediaType = MediaTypeImageLayer, descDigest = ?dg, descSize = ?sz\<rparr>"
    "k < length (dmLayers (dmanifest ?st2))"
    "dmLayers (dmanifest ?st2) ! k =
       \<lparr>descMediaType = V2S2MediaTypeUncompressedLayer, descDigest = ?dg, descSize = ?sz\<rparr>"
    "k < length (oRootFS_DiffIDs (oimage ?st2))" "oRootFS_DiffIDs (oimage ?st2) ! k = ?dg"
    "k < length (dRootFS_DiffIDs (dimage ?st2))" "dRootFS_DiffIDs (dimage ?st2) ! k = ?dg"
    "?dg \<in> dom (blobLayers ?st2)"
    by (auto simp add: layerCount_def appendLayer_def nth_append)
  from g at2 have atEnd:
    "k < length (mLayers (omanifest st))"
    "mLayers (omanifest st) ! k =
       \<lparr>descMediaType = MediaTypeImageLayer, descDigest = ?dg, descSize = ?sz\<rparr>"
    "k < length (dmLayers (dmanifest st))"
    "dmLayers (dmanifest st) ! k =
       \<lparr>descMediaType = V2S2MediaTypeUncompressedLayer, descDigest = ?dg, descSize = ?sz\<rparr>"
    "k < length (oRootFS_DiffIDs (oimage st))" "oRootFS_DiffIDs (oimage st) ! k = ?dg"
    "k < length (dRootFS_DiffIDs (dimage st))" "dRootFS_DiffIDs (dimage st) ! k = ?dg"
    "blobLayers st ?dg \<noteq> None"
    unfolding grows_def by (auto dest: prefix_nth [where k = k])
  obtain oi di where p: "p = (oi, di)" by (cases p)
  from buildHistory_diffIDs [OF hist [unfolded p]] encodeOutput_fields [OF enc] p
  have ids: "oRootFS_DiffIDs (out_oimage out) = oRootFS_DiffIDs (oimage st)"
    "dRootFS_DiffIDs (out_dimage out) = dRootFS_DiffIDs (dimage st)" by simp_all
  from processLayers_noDiffOf [OF mode store own layer parent loop]
  obtain evs where evs: "trace w' = trace ?w0 @ evs" "EvDiff lid \<notin> set evs"
    "\<forall>n. staged w' n \<noteq> None \<longrightarrow> staged ?w0 n \<noteq> None \<or> EvStage n \<in> set evs"
    unfolding noDiffOf_def by blast
  have tr: "\<exists>evs. trace w' = trace w @ evs \<and> EvDiff lid \<notin> set evs \<and>
        (staged w' ?dg \<noteq> None \<longrightarrow> EvStage ?dg \<in> set evs)"
    by (rule exI [of _ "EvMkdirTemp path # evs"]) (use evs in \<open>auto simp add: logEvent_def\<close>)
  from atEnd ids encodeOutput_layers [OF enc] tr show ?thesis by simp
qed

text \<open>
  C2 at a concrete input: the base layer of the example store, under a container's
  layer with another diff.
\<close>

theorem NewImageSource_reuses_parent_layer_witness:
  "(case NewImageSource demoEnv demoRef demoWorld of
      Done out w' \<Rightarrow>
        mLayers (out_omanifest out) ! 0 =
          \<lparr>descMediaType = MediaTypeImageLayer, descDigest = ''sha256:b1'', descSize = 100\<rparr> \<and>
        dmLayers (out_dmanifest out) ! 0 =
          \<lparr>descMediaType = V2S2MediaTypeUncompressedLayer, descDigest = ''sha256:b1'',
           descSize = 100\<rparr> \<and>
        oRootFS_DiffIDs (out_oimage out) ! 0 = ''sha256:b1'' \<and>
        dRootFS_DiffIDs (out_dimage out) ! 0 = ''sha256:b1'' \<and>
        src_blobLayers (out_src out) ''sha256:b1'' \<noteq> None \<and>
        EvDiff ''base1'' \<notin> set (trace w') \<and> staged w' ''sha256:b1'' = None
    | _ \<Rightarrow> False)"
proof -
  have "case NewImageSource demoEnv demoRef demoWorld of
          Done out w' \<Rightarrow> staged w' ''sha256:b1'' = None | _ \<Rightarrow> False"
    by (simp add: run_defs demo_defs3 const_defs sublist_code)
  then obtain out w' where run: "NewImageSource demoEnv demoRef demoWorld = Done out w'"
    and st: "staged w' ''sha256:b1'' = None"
    by (auto split: Result.splits)
  have plan: "planParents demoEnv demoRef = Some (Inr ([''base1'', ''top1''], {''base1''}))"
    by (simp add: run_defs demo_defs3 const_defs)
  have store: "\<forall>x l. storeLayer demoEnv x = Some l \<longrightarrow> layer_ID l = x"
    by (simp add: demoEnv_def baseLayer_def topLayer_def)
  have k: "0 < length (planLayers demoRef [''base1'', ''top1''])"
    "planLayers demoRef [''base1'', ''top1''] ! 0 = ''base1''"
    by (simp_all add: planLayers_def)
  have own: "''base1'' \<notin> cl_layerID ` set (preLayers demoRef @ postLayers demoRef)"
    "''base1'' \<noteq> synthesizedLayerID"
    by (simp_all add: demoRef_def synthesizedLayerID_def)
  have layer: "storeLayer demoEnv ''base1'' = Some baseLayer"
    "layer_UncompressedDigest baseLayer \<noteq> []"
    by (simp_all add: demoEnv_def baseLayer_def)
  have mode: "\<not> cwConvert (confidentialWorkload demoRef)" "\<not> squash demoRef"
    by (simp_all add: demoRef_def)
  from NewImageSource_reuses_parent_layer [OF run mode store plan k _ own layer]
  have "mLayers (out_omanifest out) ! 0 =
          \<lparr>descMediaType = MediaTypeImageLayer, descDigest = ''sha256:b1'', descSize = 100\<rparr> \<and>
        dmLayers (out_dmanifest out) ! 0 =
          \<lparr>descMediaType = V2S2MediaTypeUncompressedLayer, descDigest = ''sha256:b1'',
           descSize = 100\<rparr> \<and>
        oRootFS_DiffIDs (out_oimage out) ! 0 = ''sha256:b1'' \<and>
        dRootFS_DiffIDs (out_dimage out) ! 0 = ''sha256:b1'' \<and>
        src_blobLayers (out_src out) ''sha256:b1'' \<noteq> None \<and>
        EvDiff ''base1'' \<notin> set (trace w')"
    by (auto simp add: baseLayer_def demoWorld_def)
  with run st show ?thesis by simp
qed

text \<open>
  C2 as stated fails on the staging directory: when the diff of the container's layer
  has the digest of the reused parent layer, copying it leaves a file named by that
  digest in the staging directory.
\<close>

theorem reused_digest_staged_by_copy:
  "planParents twinDiffEnv demoRef = Some (Inr ([''base1'', ''top1''], {''base1''})) \<and>
   storeLayer twinDiffEnv ''base1'' = Some baseLayer \<and>
   layer_UncompressedDigest baseLayer = ''sha256:b1'' \<and>
   \<not> cwConvert (confidentialWorkload demoRef) \<and> \<not> squash demoRef \<and>
   (case NewImageSource twinDiffEnv demoRef demoWorld of
      Done out w' \<Rightarrow>
        map descDigest (mLayers (out_omanifest out)) = [''sha256:b1'', ''sha256:b1''] \<and>
        staged w' ''sha256:b1'' = Some ''b1''
    | _ \<Rightarrow> False)"
  by (simp add: run_defs demo_defs3 twinDiffEnv_def const_defs sublist_code)

subsection \<open>Independent executions\<close>

text \<open>
  What two executions read.
\<close>

lemma files_logEvent [simp]: "files (logEvent ev w) = files w"
  by (simp add: logEvent_def)

lemma files_fold_logEvent [simp]: "files (fold logEvent es w) = files w"
  by (induction es arbitrary: w) simp_all

lemma sameFiles_read:
  assumes "sameFiles F0 a b f1 f2" "f1 p = Some x" "f2 p = Some y"
  shows "x = y"
proof (cases "Some p = a")
  case True
  show ?thesis
  proof (cases "Some p = b")
    case True
    with \<open>Some p = a\<close> assms show ?thesis by (auto simp add: sameFiles_def)
  next
    case False
    with True assms show ?thesis by (auto simp add: sameFiles_def)
  qed
next
  case False
  show ?thesis
  proof (cases "Some p = b")
    case True
    with False assms show ?thesis by (auto simp add: sameFiles_def)
  next
    case False
    with \<open>Some p \<noteq> a\<close> assms show ?thesis by (auto simp add: sameFiles_def)
  qed
qed

lemma sameFiles_temp:
  "sameFiles F0 (Some x) (Some y) f1 f2 \<Longrightarrow> f1 x = f2 y"
  by (simp add: sameFiles_def)

lemma sameFiles_write:
  "sameFiles F0 (Some x) (Some y) f1 f2 \<Longrightarrow>
   sameFiles F0 (Some x) (Some y) (f1(x \<mapsto> c)) (f2(y \<mapsto> c))"
  by (simp add: sameFiles_def)

lemma sameFiles_nonempty:
  "sameFiles F0 a b f1 f2 \<Longrightarrow> a = Some x \<or> b = Some x \<Longrightarrow> x \<noteq> []"
  by (auto simp add: sameFiles_def)

lemma sameLocals_appendLayer:
  "sameLocals a b st1 st2 \<Longrightarrow>
   sameLocals a b (appendLayer m x y z st1) (appendLayer m x y z st2)"
  by (simp add: sameLocals_def appendLayer_def)

text \<open>
  What does not ask the operating system for a temporary name.
\<close>

lemma writeExtraEntries_temps:
  "writeExtraEntries (env\<lparr>osMkdirTemp := m, osCreateTemp := c\<rparr>) t es tw w =
   writeExtraEntries env t es tw w"
  by (induction env t es tw w rule: writeExtraEntries.induct)
     (simp_all split: option.splits Node.splits)

lemma createdOrNow_temps:
  "createdOrNow (env\<lparr>osMkdirTemp := m, osCreateTemp := c\<rparr>) i site = createdOrNow env i site"
  by (simp add: createdOrNow_def cong: option.case_cong)

lemma stageLayer_temps:
  "stageLayer (env\<lparr>osMkdirTemp := m, osCreateTemp := c\<rparr>) i what mt rc ec cl st w =
   stageLayer env i what mt rc ec cl st w"
  by (simp add: stageLayer_def cong: option.case_cong Result.case_cong sum.case_cong prod.case_cong if_cong ReadCloser.case_cong Node.case_cong)

lemma createConfigsAndManifests_temps:
  "createConfigsAndManifests (env\<lparr>osMkdirTemp := m, osCreateTemp := c\<rparr>) i =
   createConfigsAndManifests env i"
  by (simp add: createConfigsAndManifests_def createdOrNow_temps cong: option.case_cong Result.case_cong sum.case_cong prod.case_cong if_cong ReadCloser.case_cong Node.case_cong)

lemma planParents_temps:
  "planParents (env\<lparr>osMkdirTemp := m, osCreateTemp := c\<rparr>) i = planParents env i"
  by (simp add: planParents_def cong: option.case_cong)

lemma buildHistory_temps:
  "buildHistory (env\<lparr>osMkdirTemp := m, osCreateTemp := c\<rparr>) i st = buildHistory env i st"
  by (simp add: buildHistory_def appendCommitHistory_def createdOrNow_temps cong: option.case_cong Result.case_cong sum.case_cong prod.case_cong if_cong ReadCloser.case_cong Node.case_cong)

lemma encodeOutput_temps:
  "encodeOutput (env\<lparr>osMkdirTemp := m, osCreateTemp := c\<rparr>) i path st p =
   encodeOutput env i path st p"
  by (simp add: encodeOutput_def cong: option.case_cong Result.case_cong sum.case_cong prod.case_cong if_cong ReadCloser.case_cong Node.case_cong)

text \<open>
  Two executions that read the same files write the same archive of the extra
  content, stage the same blobs and record the same layers.
\<close>

lemma writeExtraEntries_sim:
  assumes "writeExtraEntries env t es tw w1 = Done r1 w1'"
    and "writeExtraEntries env t es tw w2 = Done r2 w2'"
    and "sameFiles F0 a b (files w1) (files w2)"
  shows "r1 = r2 \<and> files w1' = files w1 \<and> files w2' = files w2"
  using assms
proof (induction es arbitrary: tw w1 w2)
  case Nil
  then show ?case by simp
next
  case (Cons e es)
  obtain p c where e: "e = (p, c)" by (cases e)
  from Cons.prems(1) obtain bs1 where
    f1: "files w1 c = Some (RegularFile bs1)"
    and r1: "writeExtraEntries env t es (tw @ tarEntry env p t bs1) (logEvent (EvOpen c) w1) =
             Done r1 w1'"
    by (auto simp add: e split: option.splits Node.splits)
  from Cons.prems(2) obtain bs2 where
    f2: "files w2 c = Some (RegularFile bs2)"
    and r2: "writeExtraEntries env t es (tw @ tarEntry env p t bs2) (logEvent (EvOpen c) w2) =
             Done r2 w2'"
    by (auto simp add: e split: option.splits Node.splits)
  from sameFiles_read [OF Cons.prems(3) f1 f2] have "bs1 = bs2" by simp
  with r2 have r2': "writeExtraEntries env t es (tw @ tarEntry env p t bs1)
             (logEvent (EvOpen c) w2) = Done r2 w2'" by simp
  have s: "sameFiles F0 a b (files (logEvent (EvOpen c) w1)) (files (logEvent (EvOpen c) w2))"
    using Cons.prems(3) by simp
  from Cons.IH [OF r1 r2' s] show ?case by simp
qed

lemma makeExtraImageContentDiff_Done:
  assumes "makeExtraImageContentDiff env i f w = Done (n, dg, sz) w'"
  shows "extraDiffName env i = Some n \<and>
         (\<exists>tw w2. writeExtraEntries env (createdOrNow env i AtExtraDiff) (extraImageContent i) []
                     (logEvent (EvCreateTemp n) (w\<lparr>files := (files w)(n \<mapsto> RegularFile [])\<rparr>)) =
                   Done tw w2 \<and>
            files w' = (files w2)(n \<mapsto> RegularFile (if f then tw @ tarFooter env else tw)) \<and>
            dg = (if f then sha256 env (tw @ tarFooter env) else []) \<and>
            sz = (if f then int (length (tw @ tarFooter env)) else - 1))"
  using assms
  by (auto simp add: makeExtraImageContentDiff_def extraDiffName_def
      split: option.splits Result.splits if_splits)

lemma makeExtraImageContentDiff_sim:
  assumes sim: "sameFiles F0 a b (files w1) (files w2)"
    and a: "a = extraDiffName env i"
    and b: "b = extraDiffName (env\<lparr>osMkdirTemp := m2, osCreateTemp := c2\<rparr>) i"
    and r1: "makeExtraImageContentDiff env i f w1 = Done (n1, dg1, sz1) w1'"
    and r2: "makeExtraImageContentDiff (env\<lparr>osMkdirTemp := m2, osCreateTemp := c2\<rparr>) i f w2 =
             Done (n2, dg2, sz2) w2'"
  shows "dg1 = dg2 \<and> sz1 = sz2 \<and> a = Some n1 \<and> b = Some n2 \<and>
         sameFiles F0 a b (files w1') (files w2')"
proof -
  let ?t = "createdOrNow env i AtExtraDiff"
  from makeExtraImageContentDiff_Done [OF r1] a obtain tw1 v1 where
    a1: "a = Some n1"
    and x1: "writeExtraEntries env ?t (extraImageContent i) []
               (logEvent (EvCreateTemp n1) (w1\<lparr>files := (files w1)(n1 \<mapsto> RegularFile [])\<rparr>)) =
             Done tw1 v1"
    and o1: "files w1' = (files v1)(n1 \<mapsto> RegularFile (if f then tw1 @ tarFooter env else tw1))"
      "dg1 = (if f then sha256 env (tw1 @ tarFooter env) else [])"
      "sz1 = (if f then int (length (tw1 @ tarFooter env)) else - 1)"
    by auto
  from makeExtraImageContentDiff_Done [OF r2] b obtain tw2 v2 where
    b2: "b = Some n2"
    and x2: "writeExtraEntries env ?t (extraImageContent i) []
               (logEvent (EvCreateTemp n2) (w2\<lparr>files := (files w2)(n2 \<mapsto> RegularFile [])\<rparr>)) =
             Done tw2 v2"
    and o2: "files w2' = (files v2)(n2 \<mapsto> RegularFile (if f then tw2 @ tarFooter env else tw2))"
      "dg2 = (if f then sha256 env (tw2 @ tarFooter env) else [])"
      "sz2 = (if f then int (length (tw2 @ tarFooter env)) else - 1)"
    by (auto simp add: writeExtraEntries_temps createdOrNow_temps)
  from sim have s0: "sameFiles F0 (Some n1) (Some n2) (files w1) (files w2)"
    by (simp add: a1 b2)
  from sameFiles_write [OF s0, of "RegularFile []"]
  have s1: "sameFiles F0 (Some n1) (Some n2)
              (files (logEvent (EvCreateTemp n1) (w1\<lparr>files := (files w1)(n1 \<mapsto> RegularFile [])\<rparr>)))
              (files (logEvent (EvCreateTemp n2) (w2\<lparr>files := (files w2)(n2 \<mapsto> RegularFile [])\<rparr>)))"
    by simp
  from writeExtraEntries_sim [OF x1 x2 s1]
  have tw: "tw1 = tw2" and v: "files v1 = (files w1)(n1 \<mapsto> RegularFile [])"
    "files v2 = (files w2)(n2 \<mapsto> RegularFile [])" by simp_all
  from sameFiles_write [OF sameFiles_write [OF s0, of "RegularFile []"],
      of "RegularFile (if f then tw1 @ tarFooter env else tw1)"]
  have "sameFiles F0 (Some n1) (Some n2) (files w1') (files w2')"
    by (cases f) (simp_all add: o1 o2 v tw)
  with o1 o2 tw a1 b2 show ?thesis by simp
qed

lemma stageLayer_Done:
  assumes "stageLayer env i what m rc ec cl st w = Done st' w'"
  shows "files w' = files w \<and>
         (\<exists>bs compress. rc = Stream bs \<and> compressStream env (compression i) = Some compress \<and>
            st' = appendLayer m
                    (if compression i \<noteq> Uncompressed
                     then sha256 env (compress (fst (snd (tarFilterer env (created i) bs))))
                     else sha256 env (fst (snd (tarFilterer env (created i) bs))))
                    (int (length (compress (fst (snd (tarFilterer env (created i) bs))))))
                    (sha256 env (fst (snd (tarFilterer env (created i) bs)))) st)"
  using assms
  by (auto simp add: stageLayer_def Let_def
      split: if_splits option.splits ReadCloser.splits prod.splits)

lemma stageLayer_sim:
  assumes "stageLayer env i what m rc ec cl st1 w1 = Done st1' w1'"
    and "stageLayer (env\<lparr>osMkdirTemp := m2, osCreateTemp := c2\<rparr>) i what2 m rc ec2 cl2 st2 w2 =
         Done st2' w2'"
    and "sameLocals a b st1 st2"
  shows "sameLocals a b st1' st2' \<and> files w1' = files w1 \<and> files w2' = files w2"
proof -
  from stageLayer_Done [OF assms(1)] obtain bs compress where
    1: "files w1' = files w1" "rc = Stream bs" "compressStream env (compression i) = Some compress"
      "st1' = appendLayer m
                    (if compression i \<noteq> Uncompressed
                     then sha256 env (compress (fst (snd (tarFilterer env (created i) bs))))
                     else sha256 env (fst (snd (tarFilterer env (created i) bs))))
                    (int (length (compress (fst (snd (tarFilterer env (created i) bs))))))
                    (sha256 env (fst (snd (tarFilterer env (created i) bs)))) st1"
    by blast
  from stageLayer_Done [OF assms(2) [unfolded stageLayer_temps]] 1(2,3) have
    2: "files w2' = files w2"
      "st2' = appendLayer m
                    (if compression i \<noteq> Uncompressed
                     then sha256 env (compress (fst (snd (tarFilterer env (created i) bs))))
                     else sha256 env (fst (snd (tarFilterer env (created i) bs))))
                    (int (length (compress (fst (snd (tarFilterer env (created i) bs))))))
                    (sha256 env (fst (snd (tarFilterer env (created i) bs)))) st2"
    by auto
  from sameLocals_appendLayer [OF assms(3)] 1 2 show ?thesis by simp
qed

lemma extractRootfs_Done:
  assumes "extractRootfs env i w = Done (Stream s, fl) w'"
  shows "\<exists>mp. storeMount env (containerID i) = Some mp \<and>
           (if extraImageContent i \<noteq> [] then
              (\<exists>n dg sz w2 extra.
                 makeExtraImageContentDiff env i False (logEvent (EvMount (containerID i)) w) =
                   Done (n, dg, sz) w2 \<and>
                 files w2 n = Some (RegularFile extra) \<and> files w' = files w2 \<and>
                 (s, fl) = (case copierGet env mp of
                              None \<Rightarrow> (extra, True) | Some tar \<Rightarrow> (extra @ tar, False)))
            else files w' = files w \<and>
                 (s, fl) = (case copierGet env mp of
                              None \<Rightarrow> ([], True) | Some tar \<Rightarrow> (tar, False)))"
  using assms
  by (auto simp add: extractRootfs_def
      split: option.splits if_splits Result.splits prod.splits Node.splits)

lemma extractRootfs_sim:
  assumes sim: "sameFiles F0 a b (files w1) (files w2)"
    and a: "a = extraDiffName env i"
    and b: "b = extraDiffName (env\<lparr>osMkdirTemp := m2, osCreateTemp := c2\<rparr>) i"
    and r1: "extractRootfs env i w1 = Done (Stream s1, f1) w1'"
    and r2: "extractRootfs (env\<lparr>osMkdirTemp := m2, osCreateTemp := c2\<rparr>) i w2 =
             Done (Stream s2, f2) w2'"
  shows "s1 = s2 \<and> f1 = f2 \<and> sameFiles F0 a b (files w1') (files w2')"
proof (cases "extraImageContent i \<noteq> []")
  case False
  with extractRootfs_Done [OF r1] extractRootfs_Done [OF r2] sim show ?thesis
    by (auto split: option.splits)
next
  case True
  from extractRootfs_Done [OF r1] True obtain mp n1 dg1 sz1 v1 extra1 where
    1: "storeMount env (containerID i) = Some mp"
      "makeExtraImageContentDiff env i False (logEvent (EvMount (containerID i)) w1) =
         Done (n1, dg1, sz1) v1"
      "files v1 n1 = Some (RegularFile extra1)" "files w1' = files v1"
      "(s1, f1) = (case copierGet env mp of
                     None \<Rightarrow> (extra1, True) | Some tar \<Rightarrow> (extra1 @ tar, False))"
    by auto
  from extractRootfs_Done [OF r2] True 1(1) obtain n2 dg2 sz2 v2 extra2 where
    2: "makeExtraImageContentDiff (env\<lparr>osMkdirTemp := m2, osCreateTemp := c2\<rparr>) i False
          (logEvent (EvMount (containerID i)) w2) = Done (n2, dg2, sz2) v2"
      "files v2 n2 = Some (RegularFile extra2)" "files w2' = files v2"
      "(s2, f2) = (case copierGet env mp of
                     None \<Rightarrow> (extra2, True) | Some tar \<Rightarrow> (extra2 @ tar, False))"
    by auto
  have s0: "sameFiles F0 a b (files (logEvent (EvMount (containerID i)) w1))
              (files (logEvent (EvMount (containerID i)) w2))"
    using sim by simp
  from makeExtraImageContentDiff_sim [OF s0 a b 1(2) 2(1)]
  have n: "a = Some n1" "b = Some n2" and s: "sameFiles F0 a b (files v1) (files v2)" by blast+
  from sameFiles_temp [OF s [unfolded n]] 1(3) 2(2) have "extra1 = extra2" by simp
  with 1 2 s show ?thesis by (auto split: option.splits)
qed

lemma lookupLayer_sim:
  assumes sim: "sameFiles F0 a b (files w1) (files w2)"
    and l: "sameLocals a b st1 st2"
    and a: "a = extraDiffName env i"
    and b: "b = extraDiffName (env\<lparr>osMkdirTemp := m2, osCreateTemp := c2\<rparr>) i"
    and r1: "lookupLayer env i y st1 w1 = Done (l1, dg1, sz1, st1') w1'"
    and r2: "lookupLayer (env\<lparr>osMkdirTemp := m2, osCreateTemp := c2\<rparr>) i y st2 w2 =
             Done (l2, dg2, sz2, st2') w2'"
  shows "l1 = l2 \<and> dg1 = dg2 \<and> sz1 = sz2 \<and> sameLocals a b st1' st2' \<and>
         sameFiles F0 a b (files w1') (files w2')"
proof (cases "y \<in> cl_layerID ` set (preLayers i @ postLayers i)")
  case True
  with r1 r2 sim l show ?thesis
    by (auto simp add: lookupLayer_def simp del: set_append split: option.splits)
next
  case False
  show ?thesis
  proof (cases "y = synthesizedLayerID")
    case True
    from r1 False True obtain n1 where
      1: "makeExtraImageContentDiff env i True w1 = Done (n1, dg1, sz1) w1'"
        "st1' = st1\<lparr>extraImageContentDiff := n1, extraImageContentDiffDigest := dg1\<rparr>"
        "l1 = y"
      by (auto simp add: lookupLayer_def simp del: set_append
          split: Result.splits prod.splits)
    from r2 False True obtain n2 where
      2: "makeExtraImageContentDiff (env\<lparr>osMkdirTemp := m2, osCreateTemp := c2\<rparr>) i True w2 =
            Done (n2, dg2, sz2) w2'"
        "st2' = st2\<lparr>extraImageContentDiff := n2, extraImageContentDiffDigest := dg2\<rparr>"
        "l2 = y"
      by (auto simp add: lookupLayer_def simp del: set_append
          split: Result.splits prod.splits)
    from makeExtraImageContentDiff_sim [OF sim a b 1(1) 2(1)]
    have d: "dg1 = dg2" "sz1 = sz2" and n: "a = Some n1" "b = Some n2"
      and s': "sameFiles F0 a b (files w1') (files w2')" by blast+
    from l d n have "sameLocals a b st1' st2'" by (simp add: sameLocals_def 1(2) 2(2))
    with d s' 1(3) 2(3) show ?thesis by simp
  next
    case notSynth: False
    with r1 r2 False sim l show ?thesis
      by (auto simp add: lookupLayer_def simp del: set_append split: option.splits)
  qed
qed

lemma openAndStage_sim:
  assumes ncw: "\<not> cwConvert (confidentialWorkload i)"
    and sim: "sameFiles F0 a b (files w1) (files w2)"
    and l: "sameLocals a b st1 st2"
    and a: "a = extraDiffName env i"
    and b: "b = extraDiffName (env\<lparr>osMkdirTemp := m2, osCreateTemp := c2\<rparr>) i"
    and r1: "openAndStage env i what lid m st1 w1 = Done st1' w1'"
    and r2: "openAndStage (env\<lparr>osMkdirTemp := m2, osCreateTemp := c2\<rparr>) i what lid m st2 w2 =
             Done st2' w2'"
  shows "sameLocals a b st1' st2' \<and> sameFiles F0 a b (files w1') (files w2')"
proof (cases "squash i")
  case True
  from r1 ncw True obtain rc1 f1 v1 where
    1: "extractRootfs env i w1 = Done (rc1, f1) v1"
      "stageLayer env i what m rc1 (Some f1) [EvUnmount (containerID i)] st1 v1 = Done st1' w1'"
    by (auto simp add: openAndStage_def split: Result.splits prod.splits)
  from r2 ncw True obtain rc2 f2 v2 where
    2: "extractRootfs (env\<lparr>osMkdirTemp := m2, osCreateTemp := c2\<rparr>) i w2 = Done (rc2, f2) v2"
      "stageLayer (env\<lparr>osMkdirTemp := m2, osCreateTemp := c2\<rparr>) i what m rc2 (Some f2)
         [EvUnmount (containerID i)] st2 v2 = Done st2' w2'"
    by (auto simp add: openAndStage_def split: Result.splits prod.splits)
  from stageLayer_Done [OF 1(2)] obtain s1 where s1: "rc1 = Stream s1" by blast
  from stageLayer_Done [OF 2(2)] obtain s2 where s2: "rc2 = Stream s2" by blast
  from extractRootfs_sim [OF sim a b 1(1) [unfolded s1] 2(1) [unfolded s2]]
  have e: "s1 = s2" "f1 = f2" and v: "sameFiles F0 a b (files v1) (files v2)" by blast+
  from stageLayer_sim [OF 1(2) 2(2) [unfolded s2 e(1) [symmetric] e(2) [symmetric] s1 [symmetric]] l]
  have "sameLocals a b st1' st2'" "files w1' = files v1" "files w2' = files v2" by blast+
  with v show ?thesis by simp
next
  case False
  note nsq = False
  show ?thesis
  proof (cases "lid \<in> cl_layerID ` set (preLayers i @ postLayers i)")
    case True
    from r1 ncw nsq True obtain x bs1 where
      1: "find (\<lambda>l. cl_layerID l = lid) (preLayers i @ postLayers i) = Some x"
        "files w1 (llBlobPath (cl_linkedLayer x)) = Some (RegularFile bs1)"
        "stageLayer env i what m (Stream bs1) None [] st1
           (logEvent (EvOpen (llBlobPath (cl_linkedLayer x))) w1) = Done st1' w1'"
      by (auto simp add: openAndStage_def simp del: set_append
          split: option.splits Node.splits)
    from r2 ncw nsq True 1(1) obtain bs2 where
      2: "files w2 (llBlobPath (cl_linkedLayer x)) = Some (RegularFile bs2)"
        "stageLayer (env\<lparr>osMkdirTemp := m2, osCreateTemp := c2\<rparr>) i what m (Stream bs2) None []
           st2 (logEvent (EvOpen (llBlobPath (cl_linkedLayer x))) w2) = Done st2' w2'"
      by (auto simp add: openAndStage_def simp del: set_append
          split: option.splits Node.splits)
    from sameFiles_read [OF sim 1(2) 2(1)] have bs: "bs2 = bs1" by simp
    from stageLayer_sim [OF 1(3) 2(2) [unfolded bs] l]
    have "sameLocals a b st1' st2'" "files w1' = files w1" "files w2' = files w2" by simp_all
    with sim show ?thesis by simp
  next
    case False
    note napi = False
    show ?thesis
    proof (cases "lid = synthesizedLayerID")
      case True
      from r1 ncw nsq napi True obtain bs1 where
        1: "files w1 (extraImageContentDiff st1) = Some (RegularFile bs1)"
          "stageLayer env i what m (Stream bs1) None [] st1
             (logEvent (EvOpen (extraImageContentDiff st1)) w1) = Done st1' w1'"
        by (auto simp add: openAndStage_def simp del: set_append
            split: option.splits Node.splits)
      from r2 ncw nsq napi True obtain bs2 where
        2: "files w2 (extraImageContentDiff st2) = Some (RegularFile bs2)"
          "stageLayer (env\<lparr>osMkdirTemp := m2, osCreateTemp := c2\<rparr>) i what m (Stream bs2) None []
             st2 (logEvent (EvOpen (extraImageContentDiff st2)) w2) = Done st2' w2'"
        by (auto simp add: openAndStage_def simp del: set_append
            split: option.splits Node.splits)
      from l have "(extraImageContentDiff st1 = [] \<and> extraImageContentDiff st2 = []) \<or>
         (a = Some (extraImageContentDiff st1) \<and> b = Some (extraImageContentDiff st2))"
        by (simp add: sameLocals_def)
      then have bs: "bs2 = bs1"
      proof
        assume e: "extraImageContentDiff st1 = [] \<and> extraImageContentDiff st2 = []"
        from sameFiles_read [OF sim, of "[]" "RegularFile bs1" "RegularFile bs2"] 1(1) 2(1) e
        show ?thesis by simp
      next
        assume n: "a = Some (extraImageContentDiff st1) \<and> b = Some (extraImageContentDiff st2)"
        with sim have "sameFiles F0 (Some (extraImageContentDiff st1))
            (Some (extraImageContentDiff st2)) (files w1) (files w2)" by simp
        from sameFiles_temp [OF this] 1(1) 2(1) show ?thesis by simp
      qed
      from stageLayer_sim [OF 1(2) 2(2) [unfolded bs] l]
      have "sameLocals a b st1' st2'" "files w1' = files w1" "files w2' = files w2" by simp_all
      with sim show ?thesis by simp
    next
      case False
      note nsyn = False
      show ?thesis
      proof (cases "emptyLayer i \<and> lid = layerID i")
        case True
        with r1 r2 ncw nsq napi nsyn sim l show ?thesis
          by (simp add: openAndStage_def del: set_append)
      next
        case False
        from r1 ncw nsq napi nsyn False obtain bs where
          1: "storeDiff env lid = Some bs"
            "stageLayer env i what m (Stream bs) None [] st1 (logEvent (EvDiff lid) w1) =
               Done st1' w1'"
          by (auto simp add: openAndStage_def simp del: set_append split: option.splits)
        from r2 ncw nsq napi nsyn False 1(1) have
          2: "stageLayer (env\<lparr>osMkdirTemp := m2, osCreateTemp := c2\<rparr>) i what m (Stream bs) None []
               st2 (logEvent (EvDiff lid) w2) = Done st2' w2'"
          by (auto simp add: openAndStage_def simp del: set_append split: option.splits)
        from stageLayer_sim [OF 1(2) 2 l]
        have "sameLocals a b st1' st2'" "files w1' = files w1" "files w2' = files w2" by simp_all
        with sim show ?thesis by simp
      qed
    qed
  qed
qed

lemma processLayer_Done:
  assumes "processLayer env i ps y st w = Done st' w'"
  shows "\<exists>lid dg sz sta wa.
           lookupLayer env i y st w = Done (lid, dg, sz, sta) wa \<and>
           (if \<not> cwConvert (confidentialWorkload i) \<and> \<not> squash i \<and> lid \<in> ps \<and> dg \<noteq> []
            then st' = (appendLayer (MediaTypeImageLayer, V2S2MediaTypeUncompressedLayer)
                          dg sz dg sta)
                       \<lparr>blobLayers := (blobLayers sta)(dg \<mapsto> \<lparr>blID = lid, blSize = sz\<rparr>)\<rparr> \<and>
                 w' = wa
            else (\<exists>m. computeLayerMIMEType (whatFor i y) (compression i) = Inr m \<and>
                      openAndStage env i (whatFor i y) lid m sta wa = Done st' w'))"
proof -
  from assms obtain lid dg sz sta wa where
    l: "lookupLayer env i y st w = Done (lid, dg, sz, sta) wa"
    by (auto simp add: processLayer_def split: Result.splits)
  show ?thesis
    apply (rule exI [of _ lid], rule exI [of _ dg], rule exI [of _ sz], rule exI [of _ sta],
        rule exI [of _ wa])
    using assms l by (auto simp add: processLayer_def split: if_splits sum.splits)
qed

lemma processLayer_sim:
  assumes ncw: "\<not> cwConvert (confidentialWorkload i)"
    and sim: "sameFiles F0 a b (files w1) (files w2)"
    and l: "sameLocals a b st1 st2"
    and a: "a = extraDiffName env i"
    and b: "b = extraDiffName (env\<lparr>osMkdirTemp := m2, osCreateTemp := c2\<rparr>) i"
    and r1: "processLayer env i ps y st1 w1 = Done st1' w1'"
    and r2: "processLayer (env\<lparr>osMkdirTemp := m2, osCreateTemp := c2\<rparr>) i ps y st2 w2 =
             Done st2' w2'"
  shows "sameLocals a b st1' st2' \<and> sameFiles F0 a b (files w1') (files w2')"
proof -
  from processLayer_Done [OF r1] obtain lid1 dg1 sz1 sta1 wa1 where
    1: "lookupLayer env i y st1 w1 = Done (lid1, dg1, sz1, sta1) wa1"
      "if \<not> cwConvert (confidentialWorkload i) \<and> \<not> squash i \<and> lid1 \<in> ps \<and> dg1 \<noteq> []
       then st1' = (appendLayer (MediaTypeImageLayer, V2S2MediaTypeUncompressedLayer)
                          dg1 sz1 dg1 sta1)
                       \<lparr>blobLayers := (blobLayers sta1)(dg1 \<mapsto> \<lparr>blID = lid1, blSize = sz1\<rparr>)\<rparr> \<and>
            w1' = wa1
       else (\<exists>m. computeLayerMIMEType (whatFor i y) (compression i) = Inr m \<and>
                 openAndStage env i (whatFor i y) lid1 m sta1 wa1 = Done st1' w1')"
    by blast
  from processLayer_Done [OF r2] obtain lid2 dg2 sz2 sta2 wa2 where
    2: "lookupLayer (env\<lparr>osMkdirTemp := m2, osCreateTemp := c2\<rparr>) i y st2 w2 =
          Done (lid2, dg2, sz2, sta2) wa2"
      "if \<not> cwConvert (confidentialWorkload i) \<and> \<not> squash i \<and> lid2 \<in> ps \<and> dg2 \<noteq> []
       then st2' = (appendLayer (MediaTypeImageLayer, V2S2MediaTypeUncompressedLayer)
                          dg2 sz2 dg2 sta2)
                       \<lparr>blobLayers := (blobLayers sta2)(dg2 \<mapsto> \<lparr>blID = lid2, blSize = sz2\<rparr>)\<rparr> \<and>
            w2' = wa2
       else (\<exists>m. computeLayerMIMEType (whatFor i y) (compression i) = Inr m \<and>
                 openAndStage (env\<lparr>osMkdirTemp := m2, osCreateTemp := c2\<rparr>) i (whatFor i y)
                   lid2 m sta2 wa2 = Done st2' w2')"
    by blast
  from lookupLayer_sim [OF sim l a b 1(1) 2(1)]
  have e: "lid2 = lid1" "dg2 = dg1" "sz2 = sz1" and la: "sameLocals a b sta1 sta2"
    and sa: "sameFiles F0 a b (files wa1) (files wa2)" by simp_all
  show ?thesis
  proof (cases "\<not> cwConvert (confidentialWorkload i) \<and> \<not> squash i \<and> lid1 \<in> ps \<and> dg1 \<noteq> []")
    case True
    with 1(2) 2(2) e la sa show ?thesis
      by (simp add: sameLocals_def appendLayer_def)
  next
    case False
    with 1(2) obtain m where
      m: "computeLayerMIMEType (whatFor i y) (compression i) = Inr m"
      and o1: "openAndStage env i (whatFor i y) lid1 m sta1 wa1 = Done st1' w1'" by auto
    from False 2(2) e m have
      o2: "openAndStage (env\<lparr>osMkdirTemp := m2, osCreateTemp := c2\<rparr>) i (whatFor i y)
             lid1 m sta2 wa2 = Done st2' w2'" by auto
    from openAndStage_sim [OF ncw sa la a b o1 o2] show ?thesis .
  qed
qed

lemma processLayers_sim:
  assumes ncw: "\<not> cwConvert (confidentialWorkload i)"
    and a: "a = extraDiffName env i"
    and b: "b = extraDiffName (env\<lparr>osMkdirTemp := m2, osCreateTemp := c2\<rparr>) i"
  shows "processLayers env i ps ls st1 w1 = Done st1' w1' \<Longrightarrow>
         processLayers (env\<lparr>osMkdirTemp := m2, osCreateTemp := c2\<rparr>) i ps ls st2 w2 =
           Done st2' w2' \<Longrightarrow>
         sameFiles F0 a b (files w1) (files w2) \<Longrightarrow> sameLocals a b st1 st2 \<Longrightarrow>
         sameLocals a b st1' st2'"
proof (induction ls arbitrary: st1 w1 st2 w2)
  case Nil
  then show ?case by simp
next
  case (Cons y ls)
  from Cons.prems(1) obtain sta1 wa1 where
    1: "processLayer env i ps y st1 w1 = Done sta1 wa1"
      "processLayers env i ps ls sta1 wa1 = Done st1' w1'"
    by (auto split: Result.splits)
  from Cons.prems(2) obtain sta2 wa2 where
    2: "processLayer (env\<lparr>osMkdirTemp := m2, osCreateTemp := c2\<rparr>) i ps y st2 w2 = Done sta2 wa2"
      "processLayers (env\<lparr>osMkdirTemp := m2, osCreateTemp := c2\<rparr>) i ps ls sta2 wa2 =
         Done st2' w2'"
    by (auto split: Result.splits)
  from processLayer_sim [OF ncw Cons.prems(3,4) a b 1(1) 2(1)]
  have "sameLocals a b sta1 sta2" "sameFiles F0 a b (files wa1) (files wa2)" by simp_all
  from Cons.IH [OF 1(2) 2(2) this(2,1)] show ?case .
qed

lemma buildHistory_same:
  assumes l: "sameLocals a b st1 st2"
    and n: "\<forall>x. a = Some x \<or> b = Some x \<longrightarrow> x \<noteq> []"
  shows "buildHistory env i st1 = buildHistory env i st2"
proof -
  from l have e: "oimage st1 = oimage st2" "dimage st1 = dimage st2"
    "extraImageContentDiffDigest st1 = extraImageContentDiffDigest st2"
    by (simp_all add: sameLocals_def)
  from l n have d: "(extraImageContentDiff st1 \<noteq> []) = (extraImageContentDiff st2 \<noteq> [])"
    by (auto simp add: sameLocals_def)
  have "appendExtraContentEntry st1 t p = appendExtraContentEntry st2 t p" for t p
    using d by (simp add: appendExtraContentEntry_def e)
  then show ?thesis
    by (simp add: buildHistory_def appendCommitHistory_def e cong: sum.case_cong)
qed

lemma encodeOutput_bytes:
  assumes "encodeOutput env i path1 st1 p = Inr out1"
    and "encodeOutput env i path2 st2 p = Inr out2"
    and "omanifest st1 = omanifest st2" "dmanifest st1 = dmanifest st2"
  shows "src_manifest (out_src out1) = src_manifest (out_src out2) \<and>
         src_config (out_src out1) = src_config (out_src out2) \<and>
         src_configDigest (out_src out1) = src_configDigest (out_src out2) \<and>
         out_oconfig out1 = out_oconfig out2 \<and> out_omanifestbytes out1 = out_omanifestbytes out2 \<and>
         out_dconfig out1 = out_dconfig out2 \<and> out_dmanifestbytes out1 = out_dmanifestbytes out2"
  using assms
  by (auto simp add: encodeOutput_def Let_def split: option.splits if_splits prod.splits)

text \<open>
  C3, for executions that visit the extra content in the same order.  With a
  timestamp override and no conversion to a confidential workload: take an execution
  of \<open>NewImageSource\<close>, and a second one from the same files with another clock,
  other names for the temporary directory and the temporary file (names that are not
  empty and that no file has), and the entries of the same map in an order that is the
  same, as it is for a map of at most one entry.  When both return a source, the
  manifest bytes and the configuration bytes, in both formats, are the same.
\<close>

theorem NewImageSource_independent_runs:
  assumes t: "created i = Some t"
    and ncw: "\<not> cwConvert (confidentialWorkload i)"
    and order: "mset order2 = mset (extraImageContent i)"
      "length (extraImageContent i) \<le> 1 \<or> order2 = extraImageContent i"
    and fresh1: "\<forall>d p n. osCreateTemp env d p = Some n \<longrightarrow> n \<noteq> [] \<and> files w n = None"
    and fresh2: "\<forall>d p n. createTemp2 d p = Some n \<longrightarrow> n \<noteq> [] \<and> files w n = None"
    and run1: "NewImageSource env i w = Done out1 w1"
    and run2: "NewImageSource
                 (env\<lparr>clock := clock2, osMkdirTemp := mkdirTemp2, osCreateTemp := createTemp2\<rparr>)
                 (i\<lparr>extraImageContent := order2\<rparr>) w = Done out2 w2"
  shows "src_manifest (out_src out1) = src_manifest (out_src out2) \<and>
         src_config (out_src out1) = src_config (out_src out2) \<and>
         src_configDigest (out_src out1) = src_configDigest (out_src out2) \<and>
         out_oconfig out1 = out_oconfig out2 \<and> out_omanifestbytes out1 = out_omanifestbytes out2 \<and>
         out_dconfig out1 = out_dconfig out2 \<and> out_dmanifestbytes out1 = out_dmanifestbytes out2"
proof -
  let ?env2 = "env\<lparr>osMkdirTemp := mkdirTemp2, osCreateTemp := createTemp2\<rparr>"
  let ?a = "extraDiffName env i" and ?b = "extraDiffName ?env2 i"
  from order mset_short [of "extraImageContent i" order2]
  have "order2 = extraImageContent i" by auto
  then have i: "i\<lparr>extraImageContent := order2\<rparr> = i" by simp
  have "env\<lparr>clock := clock2, osMkdirTemp := mkdirTemp2, osCreateTemp := createTemp2\<rparr> =
        ?env2\<lparr>clock := clock2\<rparr>" by (cases env) simp
  with run2 have "NewImageSource (?env2\<lparr>clock := clock2\<rparr>) i w = Done out2 w2"
    by (simp only: i)
  then have run2': "NewImageSource ?env2 i w = Done out2 w2"
    by (simp only: NewImageSource_clock [OF t])
  from run1 obtain layers ps path1 oi0 om0 di0 dm0 st1 p1 where
    1: "planParents env i = Some (Inr (layers, ps))"
      "createConfigsAndManifests env i = Inr (oi0, om0, di0, dm0)"
      "processLayers env i ps (planLayers i layers)
         \<lparr>oimage = oi0, omanifest = om0, dimage = di0, dmanifest = dm0,
          blobLayers = Map.empty, extraImageContentDiff = [],
          extraImageContentDiffDigest = []\<rparr>
         (logEvent (EvMkdirTemp path1) (w\<lparr>staged := Map.empty\<rparr>)) = Done st1 w1"
      "buildHistory env i st1 = Inr p1"
      "encodeOutput env i path1 st1 p1 = Inr out1"
    by (rule NewImageSource_Done)
  from run2' obtain layers2 ps2 path2 oi2 om2 di2 dm2 st2 p2 where
    2: "planParents ?env2 i = Some (Inr (layers2, ps2))"
      "createConfigsAndManifests ?env2 i = Inr (oi2, om2, di2, dm2)"
      "processLayers ?env2 i ps2 (planLayers i layers2)
         \<lparr>oimage = oi2, omanifest = om2, dimage = di2, dmanifest = dm2,
          blobLayers = Map.empty, extraImageContentDiff = [],
          extraImageContentDiffDigest = []\<rparr>
         (logEvent (EvMkdirTemp path2) (w\<lparr>staged := Map.empty\<rparr>)) = Done st2 w2"
      "buildHistory ?env2 i st2 = Inr p2"
      "encodeOutput ?env2 i path2 st2 p2 = Inr out2"
    by (rule NewImageSource_Done)
  from 1(1,2) 2(1,2) have same: "layers2 = layers" "ps2 = ps" "oi2 = oi0" "om2 = om0"
    "di2 = di0" "dm2 = dm0"
    by (simp_all add: planParents_temps createConfigsAndManifests_temps)
  have names: "\<forall>x. ?a = Some x \<or> ?b = Some x \<longrightarrow> files w x = None \<and> x \<noteq> []"
    using fresh1 fresh2 by (auto simp add: extraDiffName_def split: option.splits)
  then have f0: "sameFiles (files w) ?a ?b
       (files (logEvent (EvMkdirTemp path1) (w\<lparr>staged := Map.empty\<rparr>)))
       (files (logEvent (EvMkdirTemp path2) (w\<lparr>staged := Map.empty\<rparr>)))"
    by (auto simp add: sameFiles_def)
  let ?st0 = "\<lparr>oimage = oi0, omanifest = om0, dimage = di0, dmanifest = dm0,
          blobLayers = Map.empty, extraImageContentDiff = [],
          extraImageContentDiffDigest = []\<rparr>"
  have l0: "sameLocals ?a ?b ?st0 ?st0" by (simp add: sameLocals_def)
  from processLayers_sim [OF ncw refl refl 1(3) 2(3) [unfolded same] f0 l0]
  have l: "sameLocals ?a ?b st1 st2" .
  from names have "\<forall>x. ?a = Some x \<or> ?b = Some x \<longrightarrow> x \<noteq> []" by blast
  from buildHistory_same [OF l this, of env i] 1(4) 2(4) have p: "p2 = p1"
    by (simp add: buildHistory_temps)
  from l have m: "omanifest st1 = omanifest st2" "dmanifest st1 = dmanifest st2"
    by (simp_all add: sameLocals_def)
  from encodeOutput_bytes [OF 1(5) 2(5) [unfolded encodeOutput_temps p] m] show ?thesis .
qed

text \<open>
  C3 at a concrete input: one entry of extra content, two clocks and two sets of
  temporary names.
\<close>

lemma fresh_name:
  assumes "c \<notin> {CHR ''a'', CHR ''b'', CHR ''r''}"
  shows "(d @ ''/'' @ p @ [c]) \<noteq> [] \<and> files demoWorld (d @ ''/'' @ p @ [c]) = None"
proof -
  have "last (d @ ''/'' @ p @ [c]) = c" by simp
  with assms have "d @ ''/'' @ p @ [c] \<noteq> ''/host/a''" "d @ ''/'' @ p @ [c] \<noteq> ''/host/b''"
    "d @ ''/'' @ p @ [c] \<noteq> ''/layers/l1.tar''"
    by (metis insertCI last.simps list.distinct(1))+
  then show ?thesis by (simp add: demoWorld_def)
qed

theorem NewImageSource_independent_runs_witness:
  "(case NewImageSource demoEnv extraRefA demoWorld of
      Done out1 w1 \<Rightarrow>
        (case NewImageSource secondRunEnv
                (extraRefA\<lparr>extraImageContent := [(''/a'', ''/host/a'')]\<rparr>) demoWorld of
           Done out2 w2 \<Rightarrow>
             src_manifest (out_src out1) = src_manifest (out_src out2) \<and>
             src_config (out_src out1) = src_config (out_src out2) \<and>
             src_path (out_src out1) \<noteq> src_path (out_src out2) \<and>
             out_extraImageContentDiff out1 \<noteq> out_extraImageContentDiff out2
         | _ \<Rightarrow> False)
    | _ \<Rightarrow> False)"
proof -
  have "case NewImageSource demoEnv extraRefA demoWorld of
          Done out1 w1 \<Rightarrow> src_path (out_src out1) = ''/var/tmp/buildah1'' \<and>
            out_extraImageContentDiff out1 = ''/ctr/extradiff2''
        | _ \<Rightarrow> False"
    by (simp add: run_defs demo_defs3 const_defs sublist_code)
  then obtain out1 w1 where run1: "NewImageSource demoEnv extraRefA demoWorld = Done out1 w1"
    and n1: "src_path (out_src out1) = ''/var/tmp/buildah1''"
      "out_extraImageContentDiff out1 = ''/ctr/extradiff2''"
    by (auto split: Result.splits)
  have "case NewImageSource secondRunEnv
               (extraRefA\<lparr>extraImageContent := [(''/a'', ''/host/a'')]\<rparr>) demoWorld of
          Done out2 w2 \<Rightarrow> src_path (out_src out2) = ''/var/tmp/buildah7'' \<and>
            out_extraImageContentDiff out2 = ''/ctr/extradiff8''
        | _ \<Rightarrow> False"
    by (simp add: run_defs demo_defs3 secondRunEnv_def const_defs sublist_code)
  then obtain out2 w2 where
    run2: "NewImageSource secondRunEnv
             (extraRefA\<lparr>extraImageContent := [(''/a'', ''/host/a'')]\<rparr>) demoWorld = Done out2 w2"
    and n2: "src_path (out_src out2) = ''/var/tmp/buildah7''"
      "out_extraImageContentDiff out2 = ''/ctr/extradiff8''"
    by (auto split: Result.splits)
  have f1: "\<forall>d p n. osCreateTemp demoEnv d p = Some n \<longrightarrow> n \<noteq> [] \<and> files demoWorld n = None"
    using fresh_name [of "CHR ''2''"] by (auto simp add: demoEnv_def)
  have f2: "\<forall>d p n. (\<lambda>d p. Some (d @ ''/'' @ p @ ''8'')) d p = Some n \<longrightarrow>
              n \<noteq> [] \<and> files demoWorld n = None"
    using fresh_name [of "CHR ''8''"] by auto
  have t: "created extraRefA = Some 1650000000"
    and c: "\<not> cwConvert (confidentialWorkload extraRefA)"
    and o: "mset [(''/a'', ''/host/a'')] = mset (extraImageContent extraRefA)"
      "length (extraImageContent extraRefA) \<le> 1 \<or>
       [(''/a'', ''/host/a'')] = extraImageContent extraRefA"
    by (simp_all add: extraRefA_def demoRef_def)
  from NewImageSource_independent_runs [OF t c o f1 f2 run1 run2 [unfolded secondRunEnv_def]]
  have "src_manifest (out_src out1) = src_manifest (out_src out2) \<and>
        src_config (out_src out1) = src_config (out_src out2)" by simp
  with run1 run2 n1 n2 show ?thesis by simp
qed

text \<open>
  C3 as stated, for maps of more than one entry, fails: with a timestamp override and
  the same map of two entries, the run that visits \<open>/a\<close> first and the run that
  visits \<open>/b\<close> first write two different archives, whose digests differ, and return
  different manifest bytes and different configuration bytes.
\<close>

theorem extra_content_order_changes_manifest:
  "created extraRefAB = Some 1650000000 \<and>
   extraRefBA = extraRefAB\<lparr>extraImageContent := rev (extraImageContent extraRefAB)\<rparr> \<and>
   (case NewImageSource demoEnv extraRefAB demoWorld of
      Done out1 w1 \<Rightarrow>
        (case NewImageSource demoEnv extraRefBA demoWorld of
           Done out2 w2 \<Rightarrow>
             src_manifest (out_src out1) \<noteq> src_manifest (out_src out2) \<and>
             src_config (out_src out1) \<noteq> src_config (out_src out2)
         | _ \<Rightarrow> False)
    | _ \<Rightarrow> False)"
  by (simp add: run_defs demo_defs3 const_defs sublist_code)

end
